theory Spec2Isabelle
  imports
    Complex_Main
    "HOL-Library.AList"
    "HOL-Library.Option_ord"
    "HOL-Library.Char_ord"
    "HOL-Library.List_Lexorder"
begin

section \<open>Python values and helpers\<close>

text \<open>
  The exceptions the modelled functions can raise. A function that can raise returns
  \<open>py_error + 'a\<close>, with \<open>Inl\<close> the exception.
\<close>

datatype py_error =
  UnboundLocalError | ZeroDivisionError | IntegrityError | OverflowError | ConnectionError

text \<open>
  \<open>str(x)\<close> on a JSON scalar that may be missing: \<open>None\<close> prints as the text \<open>None\<close>.
  Identifiers are carried in their printed form.
\<close>

definition py_str :: "string option \<Rightarrow> string" where
  "py_str x = (case x of None \<Rightarrow> ''None'' | Some s \<Rightarrow> s)"

text \<open>
  Python dictionaries are association lists with distinct keys, in insertion order:
  \<open>dict_set\<close> is \<open>d[k] = v\<close> and \<open>dict_get\<close> is \<open>d.get(k, default)\<close>.
\<close>

definition dict_set :: "'k \<Rightarrow> 'v \<Rightarrow> ('k \<times> 'v) list \<Rightarrow> ('k \<times> 'v) list" where
  "dict_set k x d = AList.update k x d"

definition dict_get :: "('k \<times> 'v) list \<Rightarrow> 'k \<Rightarrow> 'v \<Rightarrow> 'v" where
  "dict_get d k dflt = (case map_of d k of None \<Rightarrow> dflt | Some x \<Rightarrow> x)"

text \<open>
  \<open>int(s / d * 100)\<close> for an integer \<open>s\<close> and a positive integer constant \<open>d\<close>:
  \<open>int\<close> truncates toward zero. The quotient is a float in the source; for the
  divisors 58, 87 and 143 the exact value \<open>100 * s / d\<close> is either an integer that the
  float computation hits exactly (then \<open>s / d\<close> is a multiple of one half) or at least
  \<open>1 / 143\<close> away from every integer, so truncating the exact quotient gives the same
  integer as truncating the float.
\<close>

definition py_int_pct :: "int \<Rightarrow> int \<Rightarrow> int" where
  "py_int_pct s d = (if 0 \<le> s then (s * 100) div d else - ((- s * 100) div d))"

text \<open>
  \<open>round(x, 2)\<close> on the quotient \<open>x\<close>, kept as an exact rational: the nearest
  multiple of one hundredth, a tie going to the even one.
\<close>

definition py_round2 :: "rat \<Rightarrow> rat" where
  "py_round2 x =
     (let y = x * 100; f = \<lfloor>y\<rfloor>; r = y - of_int f
      in of_int (if r < 1 / 2 then f else if 1 / 2 < r then f + 1
                 else if even f then f else f + 1) / 100)"

text \<open>
  \<open>list.sort(key=..., reverse=True)\<close> and \<open>ORDER BY ... DESC\<close>: descending in the
  key, rows with equal keys staying in their former order.
\<close>

definition sort_desc :: "('a \<Rightarrow> 'k::linorder) \<Rightarrow> 'a list \<Rightarrow> 'a list" where
  "sort_desc f xs = rev (sort_key f (rev xs))"

text \<open>The distinct values of a list, each at its first occurrence.\<close>

fun first_keys :: "'a list \<Rightarrow> 'a list" where
  "first_keys [] = []"
| "first_keys (x # xs) = x # filter (\<lambda>y. y \<noteq> x) (first_keys xs)"

text \<open>\<open>{k: i + 1 for i, k in enumerate(keys)}\<close>, counting from \<open>i\<close>.\<close>

fun rank_dict :: "nat \<Rightarrow> 'k list \<Rightarrow> ('k \<times> int) list \<Rightarrow> ('k \<times> int) list" where
  "rank_dict i [] d = d"
| "rank_dict i (k # ks) d = rank_dict (Suc i) ks (dict_set k (int i + 1) d)"

section \<open>The event store\<close>

text \<open>
  The four tables of \<open>db_manager.initialize_database\<close>. Text columns that the ingestion
  may leave \<open>NULL\<close> are options. The surrogate keys \<open>shot_id\<close> and \<open>card_id\<close> are
  assigned by the store and are read by none of the operations below, which count rows.
\<close>

record match_row =
  m_id :: string
  m_date :: "string option"
  m_finished :: bool
  m_tournament :: string
  m_gameweek :: string
  m_id_home_team :: string
  m_home_team :: "string option"
  m_id_away_team :: string
  m_away_team :: "string option"
  m_score :: "string option"
  m_referee :: "string option"

record pmd_row =
  p_match_id :: string
  p_player_id :: string
  p_team_id :: string
  p_player_name :: "string option"
  p_position :: string
  p_shirt_number :: "int option"
  p_rating :: rat
  p_role_x :: "rat option"
  p_role_y :: "rat option"
  p_is_starter :: bool
  p_minutes_played :: int
  p_fouls_committed :: int
  p_fouls_received :: int

record shot_row =
  s_match_id :: string
  s_player_id :: string
  s_player_name :: "string option"
  s_team_id :: string
  s_minute :: string
  s_on_target :: "bool option"
  s_shot_type :: "string option"
  s_situation :: "string option"
  s_outcome :: "string option"
  s_inside_box :: "bool option"

record card_row =
  c_match_id :: string
  c_player_id :: string
  c_player_name :: "string option"
  c_team_id :: string
  c_card_type :: string
  c_minute :: string

record db =
  matches :: "match_row list"
  player_match_details :: "pmd_row list"
  shots :: "shot_row list"
  cards :: "card_row list"

section \<open>Ranking engine\<close>

record ranking_entry =
  e_id :: string
  e_name :: "string option"
  e_total :: int
  e_pj :: nat
  e_avg :: rat

text \<open>
  \<open>teams_map\<close>: the dictionary built from the rows of
  \<open>SELECT DISTINCT id_home_team, home_team FROM matches\<close>, the distinct pairs in the order
  of their first row; a later pair overwrites the name of an earlier one with the same id.
\<close>

definition teams_map :: "db \<Rightarrow> (string \<times> string option) list" where
  "teams_map d =
     fold (\<lambda>(k, nm). dict_set k nm)
          (first_keys (map (\<lambda>m. (m_id_home_team m, m_home_team m)) (matches d))) []"

text \<open>
  \<open>CASE WHEN e.team_id = m.id_home_team THEN m.id_away_team ELSE m.id_home_team END\<close>
\<close>

definition other_side :: "string \<Rightarrow> match_row \<Rightarrow> string" where
  "other_side team m = (if team = m_id_home_team m then m_id_away_team m else m_id_home_team m)"

text \<open>The extra condition \<open>where_f\<close> on shots.\<close>

definition where_f :: "string \<Rightarrow> shot_row \<Rightarrow> bool" where
  "where_f filter_type s =
     (if filter_type = ''target'' then s_on_target s = Some True
      else if filter_type = ''long'' then s_inside_box s = Some False
      else True)"

text \<open>
  \<open>SELECT k, SUM(w), COUNT(DISTINCT match_id), CAST(SUM(w) AS FLOAT) / COUNT(DISTINCT match_id)
  ... GROUP BY k\<close> over rows \<open>(k, match_id, w)\<close>; \<open>COUNT( * )\<close> is the sum of the weight 1.
  Every group has a row, so the divisor is positive. SQL fixes no order among groups; the
  model lists them by first occurrence.
\<close>

definition sql_group :: "(string \<times> string \<times> int) list \<Rightarrow> (string \<times> int \<times> nat \<times> rat) list" where
  "sql_group rows =
     map (\<lambda>k. let g = filter (\<lambda>r. fst r = k) rows;
                  t = sum_list (map (\<lambda>r. snd (snd r)) g);
                  n = length (remdups (map (\<lambda>r. fst (snd r)) g))
              in (k, t, n, of_int t / of_nat n))
         (first_keys (map fst rows))"

definition sql_order :: "string \<Rightarrow> (string \<times> int \<times> nat \<times> rat) list \<Rightarrow> (string \<times> int \<times> nat \<times> rat) list" where
  "sql_order order_by rs =
     (if order_by = ''total'' then sort_desc (\<lambda>r. fst (snd r)) rs
      else sort_desc (\<lambda>r. snd (snd (snd r))) rs)"

text \<open>The local function \<open>structure\<close>, which turns the fetched rows into entries.\<close>

definition structure_rows :: "db \<Rightarrow> (string \<times> int \<times> nat \<times> rat) list \<Rightarrow> ranking_entry list" where
  "structure_rows d rs =
     map (\<lambda>(k, t, n, a). \<lparr>e_id = k, e_name = dict_get (teams_map d) k (Some ''N/A''),
                           e_total = t, e_pj = n, e_avg = py_round2 a\<rparr>) rs"

text \<open>The rows a join of an event table with \<open>matches\<close> on the match id produces.\<close>

definition join_matches :: "('e \<Rightarrow> string) \<Rightarrow> 'e list \<Rightarrow> match_row list \<Rightarrow> ('e \<times> match_row) list" where
  "join_matches mid es ms = concat (map (\<lambda>e. map (\<lambda>m. (e, m)) (filter (\<lambda>m. mid e = m_id m) ms)) es)"

text \<open>
  The branch \<open>if not limit\<close> of \<open>get_team_stats_core\<close>: one grouped query per direction
  over the whole table. An unknown category leaves \<open>made_q\<close> unbound.
\<close>

definition made_rows :: "db \<Rightarrow> string \<Rightarrow> string \<Rightarrow> py_error + (string \<times> string \<times> int) list" where
  "made_rows d category filter_type =
     (if category = ''shots'' then
        Inr (map (\<lambda>s. (s_team_id s, s_match_id s, 1)) (filter (where_f filter_type) (shots d)))
      else if category = ''headers'' then
        Inr (map (\<lambda>s. (s_team_id s, s_match_id s, 1))
                 (filter (\<lambda>s. s_shot_type s = Some ''Header'') (shots d)))
      else if category = ''cards'' then
        Inr (map (\<lambda>c. (c_team_id c, c_match_id c, 1)) (cards d))
      else if category = ''fouls'' then
        Inr (map (\<lambda>p. (p_team_id p, p_match_id p, p_fouls_committed p)) (player_match_details d))
      else Inl UnboundLocalError)"

definition against_rows :: "db \<Rightarrow> string \<Rightarrow> string \<Rightarrow> py_error + (string \<times> string \<times> int) list" where
  "against_rows d category filter_type =
     (if category = ''shots'' then
        Inr (map (\<lambda>(s, m). (other_side (s_team_id s) m, s_match_id s, 1))
                 (filter (\<lambda>(s, m). where_f filter_type s) (join_matches s_match_id (shots d) (matches d))))
      else if category = ''headers'' then
        Inr (map (\<lambda>(s, m). (other_side (s_team_id s) m, s_match_id s, 1))
                 (filter (\<lambda>(s, m). s_shot_type s = Some ''Header'')
                         (join_matches s_match_id (shots d) (matches d))))
      else if category = ''cards'' then
        Inr (map (\<lambda>(c, m). (other_side (c_team_id c) m, c_match_id c, 1))
                 (join_matches c_match_id (cards d) (matches d)))
      else if category = ''fouls'' then
        Inr (map (\<lambda>p. (p_team_id p, p_match_id p, p_fouls_received p)) (player_match_details d))
      else Inl UnboundLocalError)"

definition team_stats_all :: "db \<Rightarrow> string \<Rightarrow> string \<Rightarrow> string
    \<Rightarrow> py_error + (ranking_entry list \<times> ranking_entry list)" where
  "team_stats_all d category filter_type order_by =
     (case made_rows d category filter_type of
        Inl e \<Rightarrow> Inl e
      | Inr mr \<Rightarrow>
          (case against_rows d category filter_type of
             Inl e \<Rightarrow> Inl e
           | Inr ar \<Rightarrow> Inr (structure_rows d (sql_order order_by (sql_group mr)),
                            structure_rows d (sql_order order_by (sql_group ar)))))"

text \<open>
  The windowed branch. \<open>LIMIT n\<close> keeps the first \<open>n\<close> rows; a negative \<open>n\<close> keeps all.
  \<open>ORDER BY date DESC\<close> compares the text of \<open>date\<close>, \<open>NULL\<close> being least.
\<close>

definition sql_limit :: "int \<Rightarrow> 'a list \<Rightarrow> 'a list" where
  "sql_limit n xs = (if n < 0 then xs else take (nat n) xs)"

definition last_finished_matches :: "db \<Rightarrow> string \<Rightarrow> int \<Rightarrow> string list" where
  "last_finished_matches d tid n =
     sql_limit n (map m_id (sort_desc m_date
       (filter (\<lambda>m. (m_id_home_team m = tid \<or> m_id_away_team m = tid) \<and> m_finished m) (matches d))))"

text \<open>
  \<open>total_m\<close> and \<open>total_a\<close> of one team over the match ids \<open>ids\<close>. An unknown category
  binds neither, and reading them raises.
\<close>

definition window_totals :: "db \<Rightarrow> string \<Rightarrow> string \<Rightarrow> string \<Rightarrow> string list \<Rightarrow> py_error + (int \<times> int)" where
  "window_totals d category filter_type tid ids =
     (if category = ''shots'' then
        Inr (int (length (filter (\<lambda>s. s_team_id s = tid \<and> s_match_id s \<in> set ids \<and> where_f filter_type s) (shots d))),
             int (length (filter (\<lambda>(s, m). other_side (s_team_id s) m = tid \<and> s_match_id s \<in> set ids \<and> where_f filter_type s)
                                 (join_matches s_match_id (shots d) (matches d)))))
      else if category = ''headers'' then
        Inr (int (length (filter (\<lambda>s. s_team_id s = tid \<and> s_shot_type s = Some ''Header'' \<and> s_match_id s \<in> set ids) (shots d))),
             int (length (filter (\<lambda>(s, m). other_side (s_team_id s) m = tid \<and> s_shot_type s = Some ''Header'' \<and> s_match_id s \<in> set ids)
                                 (join_matches s_match_id (shots d) (matches d)))))
      else if category = ''cards'' then
        Inr (int (length (filter (\<lambda>c. c_team_id c = tid \<and> c_match_id c \<in> set ids) (cards d))),
             int (length (filter (\<lambda>(c, m). other_side (c_team_id c) m = tid \<and> c_match_id c \<in> set ids)
                                 (join_matches c_match_id (cards d) (matches d)))))
      else if category = ''fouls'' then
        Inr (sum_list (map p_fouls_committed
                 (filter (\<lambda>p. p_team_id p = tid \<and> p_match_id p \<in> set ids) (player_match_details d))),
             sum_list (map p_fouls_received
                 (filter (\<lambda>p. p_team_id p = tid \<and> p_match_id p \<in> set ids) (player_match_details d))))
      else Inl UnboundLocalError)"

text \<open>\<open>a / b\<close> on integers raises on a zero divisor.\<close>

definition py_truediv :: "int \<Rightarrow> int \<Rightarrow> py_error + rat" where
  "py_truediv a b = (if b = 0 then Inl ZeroDivisionError else Inr (of_int a / of_int b))"

text \<open>\<open>round(total / pj, 2) if pj > 0 else 0\<close>\<close>

definition window_avg :: "int \<Rightarrow> nat \<Rightarrow> py_error + rat" where
  "window_avg t n =
     (if n > 0 then (case py_truediv t (int n) of Inl e \<Rightarrow> Inl e | Inr q \<Rightarrow> Inr (py_round2 q))
      else Inr 0)"

text \<open>One turn of the loop \<open>for tid in team_ids\<close>: the two entries appended for \<open>tid\<close>.\<close>

definition team_window_entry :: "db \<Rightarrow> string \<Rightarrow> string \<Rightarrow> int \<Rightarrow> string
    \<Rightarrow> py_error + (ranking_entry \<times> ranking_entry)" where
  "team_window_entry d category filter_type n tid =
     (let match_ids = last_finished_matches d tid n;
          pj = length match_ids;
          nm = dict_get (teams_map d) tid (Some ''N/A'')
      in if pj = 0 then
           Inr (\<lparr>e_id = tid, e_name = nm, e_total = 0, e_pj = 0, e_avg = 0\<rparr>,
                \<lparr>e_id = tid, e_name = nm, e_total = 0, e_pj = 0, e_avg = 0\<rparr>)
         else
           (case window_totals d category filter_type tid match_ids of
              Inl e \<Rightarrow> Inl e
            | Inr (total_m, total_a) \<Rightarrow>
                (case window_avg total_m pj of
                   Inl e \<Rightarrow> Inl e
                 | Inr avg_m \<Rightarrow>
                     (case window_avg total_a pj of
                        Inl e \<Rightarrow> Inl e
                      | Inr avg_a \<Rightarrow>
                          Inr (\<lparr>e_id = tid, e_name = nm, e_total = total_m, e_pj = pj, e_avg = avg_m\<rparr>,
                               \<lparr>e_id = tid, e_name = nm, e_total = total_a, e_pj = pj, e_avg = avg_a\<rparr>)))))"

fun window_loop :: "db \<Rightarrow> string \<Rightarrow> string \<Rightarrow> int \<Rightarrow> string list
    \<Rightarrow> py_error + (ranking_entry list \<times> ranking_entry list)" where
  "window_loop d category filter_type n [] = Inr ([], [])"
| "window_loop d category filter_type n (tid # tids) =
     (case team_window_entry d category filter_type n tid of
        Inl e \<Rightarrow> Inl e
      | Inr (em, ea) \<Rightarrow>
          (case window_loop d category filter_type n tids of
             Inl e \<Rightarrow> Inl e
           | Inr (results_made, results_against) \<Rightarrow> Inr (em # results_made, ea # results_against)))"

definition sort_entries :: "string \<Rightarrow> ranking_entry list \<Rightarrow> ranking_entry list" where
  "sort_entries order_by es =
     (if order_by = ''total'' then sort_desc e_total es else sort_desc e_avg es)"

text \<open>
  \<open>get_team_stats_core\<close>. \<open>limit\<close> is \<open>None\<close> or an integer; \<open>not limit\<close> holds for
  \<open>None\<close> and for 0.
\<close>

definition get_team_stats_core :: "db \<Rightarrow> string \<Rightarrow> string \<Rightarrow> string \<Rightarrow> int option
    \<Rightarrow> py_error + (ranking_entry list \<times> ranking_entry list)" where
  "get_team_stats_core d category filter_type order_by limit =
     (case limit of
        None \<Rightarrow> team_stats_all d category filter_type order_by
      | Some n \<Rightarrow>
          if n = 0 then team_stats_all d category filter_type order_by
          else (case window_loop d category filter_type n (map fst (teams_map d)) of
                  Inl e \<Rightarrow> Inl e
                | Inr (results_made, results_against) \<Rightarrow>
                    Inr (sort_entries order_by results_made, sort_entries order_by results_against)))"

definition get_rankings_from_stats :: "db \<Rightarrow> string \<Rightarrow> string \<Rightarrow> string
    \<Rightarrow> py_error + ((string \<times> int) list \<times> (string \<times> int) list)" where
  "get_rankings_from_stats d category filter_type order_by =
     (case get_team_stats_core d category filter_type order_by None of
        Inl e \<Rightarrow> Inl e
      | Inr (made_list, against_list) \<Rightarrow>
          Inr (rank_dict 0 (map e_id made_list) [], rank_dict 0 (map e_id against_list) []))"

text \<open>
  \<open>get_referee_rankings\<close>: the finished matches grouped by referee, left-joined with the
  cards (counted) and with the appearances (\<open>fouls_committed\<close> summed, \<open>NULL\<close> for a
  referee whose matches have no appearance row), in descending order of the total.
\<close>

definition referee_groups :: "db \<Rightarrow> string option list" where
  "referee_groups d = first_keys (map m_referee (filter m_finished (matches d)))"

definition ref_cards_total :: "db \<Rightarrow> string option \<Rightarrow> int" where
  "ref_cards_total d r =
     int (length (join_matches c_match_id (cards d)
                    (filter (\<lambda>m. m_finished m \<and> m_referee m = r) (matches d))))"

definition ref_fouls_total :: "db \<Rightarrow> string option \<Rightarrow> int option" where
  "ref_fouls_total d r =
     (let js = join_matches p_match_id (player_match_details d)
                 (filter (\<lambda>m. m_finished m \<and> m_referee m = r) (matches d))
      in if js = [] then None else Some (sum_list (map (\<lambda>(p, m). p_fouls_committed p) js)))"

definition get_referee_rankings :: "db \<Rightarrow> (string option \<times> int) list \<times> (string option \<times> int) list" where
  "get_referee_rankings d =
     (rank_dict 0 (sort_desc (ref_cards_total d) (referee_groups d)) [],
      rank_dict 0 (sort_desc (ref_fouls_total d) (referee_groups d)) [])"

section \<open>Prediction engine\<close>

record prediction =
  h_s :: int
  v_s :: int
  gen :: int
  rm_h :: int
  ra_h :: int
  rm_v :: int
  ra_v :: int
  ref_rank :: "int option"

text \<open>
  The ranks the prediction starts from: \<open>precalc_ranks\<close> when the caller passes the triple,
  the rankings by total otherwise (with no referee ranking yet).
\<close>

definition prediction_ranks :: "db \<Rightarrow> string \<Rightarrow> string
    \<Rightarrow> ((string \<times> int) list \<times> (string \<times> int) list \<times> (string option \<times> int) list option) option
    \<Rightarrow> py_error + ((string \<times> int) list \<times> (string \<times> int) list \<times> (string option \<times> int) list option)" where
  "prediction_ranks d category filter_type precalc_ranks =
     (case precalc_ranks of
        Some t \<Rightarrow> Inr t
      | None \<Rightarrow>
          (case get_rankings_from_stats d category filter_type ''total'' of
             Inl e \<Rightarrow> Inl e
           | Inr (m_ranks, a_ranks) \<Rightarrow> Inr (m_ranks, a_ranks, None)))"

text \<open>
  \<open>if not ref_ranks\<close>: a missing or empty referee ranking is fetched from the store,
  the one of cards for the category cards and the one of fouls otherwise.
\<close>

definition referee_ranks :: "db \<Rightarrow> string \<Rightarrow> (string option \<times> int) list option
    \<Rightarrow> (string option \<times> int) list" where
  "referee_ranks d category ref_ranks =
     (if ref_ranks = None \<or> ref_ranks = Some [] then
        (let (rc, rf) = get_referee_rankings d in if category = ''cards'' then rc else rf)
      else (case ref_ranks of Some r \<Rightarrow> r | None \<Rightarrow> []))"

text \<open>
  \<open>get_prediction_logic\<close>. The ids are passed in their printed form (\<open>str(home_id)\<close>);
  \<open>referee\<close> is \<open>None\<close> or a name, and the empty name is as false as \<open>None\<close>.
\<close>

definition get_prediction_logic :: "db \<Rightarrow> string \<Rightarrow> string \<Rightarrow> string \<Rightarrow> string \<Rightarrow> string option
    \<Rightarrow> ((string \<times> int) list \<times> (string \<times> int) list \<times> (string option \<times> int) list option) option
    \<Rightarrow> py_error + prediction" where
  "get_prediction_logic d home_id away_id category filter_type referee precalc_ranks =
     (case prediction_ranks d category filter_type precalc_ranks of
        Inl e \<Rightarrow> Inl e
      | Inr (m_ranks, a_ranks, ref_ranks) \<Rightarrow>
          (let rmh = dict_get m_ranks home_id 15; rah = dict_get a_ranks home_id 15;
               rmv = dict_get m_ranks away_id 15; rav = dict_get a_ranks away_id 15
           in if referee \<noteq> None \<and> referee \<noteq> Some [] \<and> category \<in> set [''cards'', ''fouls''] then
                (let ref_val = dict_get (referee_ranks d category ref_ranks) referee 15
                 in Inr \<lparr>h_s = py_int_pct ((30 - rmh) + (30 - rav) + (30 - ref_val)) 87,
                         v_s = py_int_pct ((30 - rmv) + (30 - rah) + (30 - ref_val)) 87,
                         gen = py_int_pct ((30 - rmh) + (30 - rah) + (30 - rmv) + (30 - rav) + (30 - ref_val)) 143,
                         rm_h = rmh, ra_h = rah, rm_v = rmv, ra_v = rav, ref_rank = Some ref_val\<rparr>)
              else
                (let hs = py_int_pct ((30 - rmh) + (30 - rav)) 58;
                     vs = py_int_pct ((30 - rmv) + (30 - rah)) 58
                 in Inr \<lparr>h_s = hs, v_s = vs, gen = (hs + vs) div 2,
                         rm_h = rmh, ra_h = rah, rm_v = rmv, ra_v = rav, ref_rank = None\<rparr>)))"

section \<open>The specification's formulas\<close>

text \<open>
  The definitions of this section follow the words of the specification, not the code;
  they are what the code is compared with.

  \<open>round(100 * s / d)\<close> as the specification writes it, for a positive divisor: the
  nearest integer, a tie going to the even one.
\<close>

definition spec_round_pct :: "int \<Rightarrow> int \<Rightarrow> int" where
  "spec_round_pct s d =
     (let n = 100 * s; q = n div d; r = n mod d
      in if 2 * r < d then q else if d < 2 * r then q + 1 else if even q then q else q + 1)"

text \<open>\<open>scoreA = round(100 * (inv(rmA) + inv(raB)) / (2L - 2))\<close> with \<open>inv(r) = L - r\<close>.\<close>

definition spec_score_no_referee :: "int \<Rightarrow> int \<Rightarrow> int \<Rightarrow> int" where
  "spec_score_no_referee L r_made r_against =
     spec_round_pct ((L - r_made) + (L - r_against)) (2 * L - 2)"

text \<open>The combined score with a referee: the five inverted ranks over \<open>5L - 5\<close>.\<close>

definition spec_combined_referee :: "int \<Rightarrow> int \<Rightarrow> int \<Rightarrow> int \<Rightarrow> int \<Rightarrow> int \<Rightarrow> int" where
  "spec_combined_referee L rmH raH rmA raA refRank =
     spec_round_pct ((L - rmH) + (L - raH) + (L - rmA) + (L - raA) + (L - refRank)) (5 * L - 5)"

section \<open>Kickoff time\<close>

text \<open>
  A \<open>datetime\<close> value of the standard library: the fields of the proleptic Gregorian
  calendar, the microseconds, and the offset from UTC in seconds when the value carries one.
\<close>

record py_datetime =
  dt_year :: nat
  dt_month :: nat
  dt_day :: nat
  dt_hour :: nat
  dt_minute :: nat
  dt_second :: nat
  dt_microsecond :: nat
  dt_utcoffset :: "int option"

definition is_leap :: "nat \<Rightarrow> bool" where
  "is_leap y = (y mod 4 = 0 \<and> (y mod 100 \<noteq> 0 \<or> y mod 400 = 0))"

definition days_in_month :: "nat \<Rightarrow> nat \<Rightarrow> nat" where
  "days_in_month y m =
     (if m = 2 then (if is_leap y then 29 else 28)
      else if m = 4 \<or> m = 6 \<or> m = 9 \<or> m = 11 then 30 else 31)"

text \<open>The values the constructor of \<open>datetime\<close> accepts.\<close>

definition valid_datetime :: "py_datetime \<Rightarrow> bool" where
  "valid_datetime t =
     (1 \<le> dt_year t \<and> dt_year t \<le> 9999 \<and> 1 \<le> dt_month t \<and> dt_month t \<le> 12
      \<and> 1 \<le> dt_day t \<and> dt_day t \<le> days_in_month (dt_year t) (dt_month t)
      \<and> dt_hour t < 24 \<and> dt_minute t < 60 \<and> dt_second t < 60)"

text \<open>
  \<open>utc_dt - timedelta(hours=3)\<close>. The library adds the difference to the day number and
  the time of day and rebuilds the fields; a result before the first day of year 1 raises
  \<open>OverflowError\<close>. The model steps the fields: three hours back on the same day, or to
  hour + 21 of the day before.
\<close>

definition day_before :: "py_datetime \<Rightarrow> py_datetime" where
  "day_before t =
     (if 1 < dt_day t then t\<lparr>dt_day := dt_day t - 1\<rparr>
      else if 1 < dt_month t then
        t\<lparr>dt_month := dt_month t - 1, dt_day := days_in_month (dt_year t) (dt_month t - 1)\<rparr>
      else t\<lparr>dt_year := dt_year t - 1, dt_month := 12, dt_day := 31\<rparr>)"

definition minus_3_hours :: "py_datetime \<Rightarrow> py_error + py_datetime" where
  "minus_3_hours t =
     (if 3 \<le> dt_hour t then Inr (t\<lparr>dt_hour := dt_hour t - 3\<rparr>)
      else if dt_year t \<le> 1 \<and> dt_month t \<le> 1 \<and> dt_day t \<le> 1 then Inl OverflowError
      else Inr ((day_before t)\<lparr>dt_hour := dt_hour t + 21\<rparr>))"

text \<open>
  \<open>strftime("%Y-%m-%d %H:%M:%S")\<close>: the year in four digits and the other fields in two,
  as the library documents the directives.
\<close>

definition digit_char :: "nat \<Rightarrow> char" where
  "digit_char n = char_of (48 + n mod 10)"

definition digits2 :: "nat \<Rightarrow> string" where
  "digits2 n = [digit_char (n div 10), digit_char n]"

definition digits4 :: "nat \<Rightarrow> string" where
  "digits4 n = [digit_char (n div 1000), digit_char (n div 100), digit_char (n div 10), digit_char n]"

definition strftime :: "py_datetime \<Rightarrow> string" where
  "strftime t =
     digits4 (dt_year t) @ ''-'' @ digits2 (dt_month t) @ ''-'' @ digits2 (dt_day t) @ '' ''
     @ digits2 (dt_hour t) @ '':'' @ digits2 (dt_minute t) @ '':'' @ digits2 (dt_second t)"

text \<open>\<open>utc_str.replace("Z", "+00:00")\<close>\<close>

fun replace_Z :: "string \<Rightarrow> string" where
  "replace_Z [] = []"
| "replace_Z (c # cs) = (if c = CHR ''Z'' then ''+00:00'' @ replace_Z cs else c # replace_Z cs)"

text \<open>
  \<open>adjust_utc_to_arg\<close>. The argument is \<open>None\<close> or a text, as \<open>general.get\<close> returns
  it. \<open>datetime.fromisoformat\<close> belongs to the interpreter, and the texts it accepts
  depend on its version: it is the parameter \<open>fromisoformat\<close>, which returns \<open>None\<close>
  where the library raises \<open>ValueError\<close>. The bare \<open>except\<close> catches the failure of
  \<open>replace\<close> on \<open>None\<close>, of the parser and of the subtraction alike, and returns the
  argument.
\<close>

definition adjust_utc_to_arg :: "(string \<Rightarrow> py_datetime option) \<Rightarrow> string option \<Rightarrow> string option" where
  "adjust_utc_to_arg fromisoformat utc_str =
     (case utc_str of
        None \<Rightarrow> utc_str
      | Some s \<Rightarrow>
          (case fromisoformat (replace_Z s) of
             None \<Rightarrow> utc_str
           | Some utc_dt \<Rightarrow>
               (case minus_3_hours utc_dt of
                  Inl e \<Rightarrow> utc_str
                | Inr arg_dt \<Rightarrow> Some (strftime arg_dt))))"

text \<open>
  A parser to run the function on the timestamps of the match feed,
  \<open>YYYY-MM-DD\<close>, one separator character, \<open>HH:MM:SS\<close>, an optional \<open>.fff\<close> and the
  offset \<open>+00:00\<close>. On a text of this shape it returns what \<open>datetime.fromisoformat\<close>
  returns; it accepts no other text.
\<close>

definition digit_val :: "char \<Rightarrow> nat option" where
  "digit_val c = (if CHR ''0'' \<le> c \<and> c \<le> CHR ''9'' then Some (of_char c - 48) else None)"

fun digits_val :: "nat \<Rightarrow> string \<Rightarrow> nat option" where
  "digits_val acc [] = Some acc"
| "digits_val acc (c # cs) =
     (case digit_val c of None \<Rightarrow> None | Some v \<Rightarrow> digits_val (acc * 10 + v) cs)"

definition feed_fields :: "string \<Rightarrow> string \<Rightarrow> string \<Rightarrow> string \<Rightarrow> string \<Rightarrow> string \<Rightarrow> string
    \<Rightarrow> py_datetime option" where
  "feed_fields ys ms ds hs mis ss fs =
     (case (digits_val 0 ys, digits_val 0 ms, digits_val 0 ds, digits_val 0 hs,
            digits_val 0 mis, digits_val 0 ss, digits_val 0 fs) of
        (Some y, Some m, Some d, Some h, Some mi, Some s, Some f) \<Rightarrow>
          (let t = \<lparr>dt_year = y, dt_month = m, dt_day = d, dt_hour = h, dt_minute = mi,
                    dt_second = s, dt_microsecond = f * 1000, dt_utcoffset = Some 0\<rparr>
           in if valid_datetime t then Some t else None)
      | _ \<Rightarrow> None)"

definition feed_fromisoformat :: "string \<Rightarrow> py_datetime option" where
  "feed_fromisoformat s =
     (if length s = 25 \<and> s ! 4 = CHR ''-'' \<and> s ! 7 = CHR ''-'' \<and> s ! 13 = CHR '':''
         \<and> s ! 16 = CHR '':'' \<and> drop 19 s = ''+00:00'' then
        feed_fields (take 4 s) (take 2 (drop 5 s)) (take 2 (drop 8 s)) (take 2 (drop 11 s))
                    (take 2 (drop 14 s)) (take 2 (drop 17 s)) []
      else if length s = 29 \<and> s ! 4 = CHR ''-'' \<and> s ! 7 = CHR ''-'' \<and> s ! 13 = CHR '':''
         \<and> s ! 16 = CHR '':'' \<and> s ! 19 = CHR ''.'' \<and> drop 23 s = ''+00:00'' then
        feed_fields (take 4 s) (take 2 (drop 5 s)) (take 2 (drop 8 s)) (take 2 (drop 11 s))
                    (take 2 (drop 14 s)) (take 2 (drop 17 s)) (take 3 (drop 20 s))
      else None)"

text \<open>
  The position of a value on the time line, in seconds: the days since the day before
  1 January of year 1 (the library's \<open>toordinal\<close>) times 86400, plus the time of day.
\<close>

definition days_before_year :: "nat \<Rightarrow> int" where
  "days_before_year y =
     (let z = int y - 1 in z * 365 + z div 4 - z div 100 + z div 400)"

definition days_before_month :: "nat \<Rightarrow> nat \<Rightarrow> nat" where
  "days_before_month y m = sum_list (map (days_in_month y) [1..<m])"

definition toordinal :: "py_datetime \<Rightarrow> int" where
  "toordinal t = days_before_year (dt_year t) + int (days_before_month (dt_year t) (dt_month t)) + int (dt_day t)"

definition instant :: "py_datetime \<Rightarrow> int" where
  "instant t = toordinal t * 86400 + int (dt_hour t) * 3600 + int (dt_minute t) * 60 + int (dt_second t)"

section \<open>Ingestion\<close>

text \<open>
  The match details as the feed returns them, reduced to the fields the ingestion reads.
  A field the payload may lack is an option, \<open>None\<close> standing for the absent key;
  identifiers and minute labels are carried in their printed form.
\<close>

record stat_item =
  si_key :: "string option"
  si_value :: "int option"

record player_json =
  pl_id :: "string option"
  pl_name :: "string option"
  pl_usualPlayingPositionId :: "int option"
  pl_shirtNumber :: "int option"
  pl_rating :: "rat option"
  pl_layout_x :: "rat option"
  pl_layout_y :: "rat option"

record team_json =
  tj_id :: "string option"
  tj_starters :: "player_json list"
  tj_subs :: "player_json list"

record shot_json =
  sh_playerId :: "string option"
  sh_playerName :: "string option"
  sh_teamId :: "string option"
  sh_min :: "string option"
  sh_isOnTarget :: "bool option"
  sh_isBlocked :: "bool option"
  sh_shotType :: "string option"
  sh_situation :: "string option"
  sh_eventType :: "string option"
  sh_isFromInsideBox :: "bool option"

record event_json =
  ev_card :: "string option"
  ev_localizedKey :: "string option"
  ev_player_id :: "string option"
  ev_player_name :: "string option"
  ev_isHome :: bool
  ev_timeStr :: "string option"

record match_details =
  md_matchTimeUTCDate :: "string option"
  md_finished :: bool
  md_leagueName :: "string option"
  md_leagueRoundName :: "string option"
  md_homeTeam_id :: "string option"
  md_homeTeam_name :: "string option"
  md_awayTeam_id :: "string option"
  md_awayTeam_name :: "string option"
  md_scoreStr :: "string option"
  md_referee :: "string option"
  md_lineup_homeTeam :: team_json
  md_lineup_awayTeam :: team_json
  md_playerStats :: "(string \<times> stat_item list list) list"
  md_shots :: "shot_json list"
  md_events :: "event_json list"

text \<open>
  What \<open>request_match_details(match_id).json()\<close> gives: an exception of the client,
  an empty response, or the details.
\<close>

datatype api_response = Connection_failed | Empty_response | Details match_details

text \<open>What the call writes to the log before it returns.\<close>

datatype log_entry = Warning_empty | Info_pending | Info_complete | Error_processing py_error

text \<open>
  \<open>str(convert_round_to_number(round_str))\<close>: the knockout rounds are mapped to the
  numbers 17 to 20, any other label passes through.
\<close>

definition convert_round_to_number :: "string option \<Rightarrow> string option" where
  "convert_round_to_number round_str =
     (if round_str = Some ''1/8'' then Some ''17''
      else if round_str = Some ''1/4'' then Some ''18''
      else if round_str = Some ''1/2'' then Some ''19''
      else if round_str = Some ''Semi-final'' then Some ''19''
      else if round_str = Some ''Final'' then Some ''20''
      else round_str)"

definition match_row_of :: "(string \<Rightarrow> py_datetime option) \<Rightarrow> string \<Rightarrow> match_details \<Rightarrow> match_row" where
  "match_row_of fromisoformat match_id r =
     \<lparr>m_id = match_id,
      m_date = adjust_utc_to_arg fromisoformat (md_matchTimeUTCDate r),
      m_finished = md_finished r,
      m_tournament = (case md_leagueName r of None \<Rightarrow> [] | Some n \<Rightarrow> n),
      m_gameweek = py_str (convert_round_to_number (md_leagueRoundName r)),
      m_id_home_team = py_str (md_homeTeam_id r),
      m_home_team = md_homeTeam_name r,
      m_id_away_team = py_str (md_awayTeam_id r),
      m_away_team = md_awayTeam_name r,
      m_score = md_scoreStr r,
      m_referee = md_referee r\<rparr>"

text \<open>
  \<open>all_stats\<close>: the stat groups of a player flattened into one dictionary; an item
  without a key is skipped and an item without a value counts 0.
\<close>

definition all_stats_of :: "stat_item list list \<Rightarrow> (string \<times> int) list" where
  "all_stats_of groups =
     fold (\<lambda>item acc.
             (case si_key item of
                None \<Rightarrow> acc
              | Some k \<Rightarrow> if k = [] then acc
                          else dict_set k (case si_value item of None \<Rightarrow> 0 | Some x \<Rightarrow> x) acc))
          (concat groups) []"

definition pos_map :: "int option \<Rightarrow> string" where
  "pos_map i =
     (if i = Some 0 then ''ARQ'' else if i = Some 1 then ''DF''
      else if i = Some 2 then ''M'' else if i = Some 3 then ''DL'' else ''N/A'')"

definition player_row :: "string \<Rightarrow> (string \<times> stat_item list list) list \<Rightarrow> string \<Rightarrow> bool
    \<Rightarrow> player_json \<Rightarrow> pmd_row" where
  "player_row match_id player_stats_map team_id starters p =
     (let pid = py_str (pl_id p);
          all_stats = all_stats_of (dict_get player_stats_map pid [])
      in \<lparr>p_match_id = match_id, p_player_id = pid, p_team_id = team_id,
           p_player_name = pl_name p,
           p_position = pos_map (pl_usualPlayingPositionId p),
           p_shirt_number = pl_shirtNumber p,
           p_rating = (case pl_rating p of None \<Rightarrow> 0 | Some x \<Rightarrow> x),
           p_role_x = pl_layout_y p, p_role_y = pl_layout_x p,
           p_is_starter = starters,
           p_minutes_played = dict_get all_stats ''minutes_played'' (if starters then 90 else 0),
           p_fouls_committed = dict_get all_stats ''fouls'' 0,
           p_fouls_received = dict_get all_stats ''was_fouled'' 0\<rparr>)"

definition team_rows :: "string \<Rightarrow> (string \<times> stat_item list list) list \<Rightarrow> team_json \<Rightarrow> pmd_row list" where
  "team_rows match_id player_stats_map team_data =
     map (player_row match_id player_stats_map (py_str (tj_id team_data)) True) (tj_starters team_data)
     @ map (player_row match_id player_stats_map (py_str (tj_id team_data)) False) (tj_subs team_data)"

definition player_rows :: "string \<Rightarrow> match_details \<Rightarrow> pmd_row list" where
  "player_rows match_id r =
     team_rows match_id (md_playerStats r) (md_lineup_homeTeam r)
     @ team_rows match_id (md_playerStats r) (md_lineup_awayTeam r)"

text \<open>\<open>s.get("isOnTarget") and not s.get("isBlocked")\<close>\<close>

definition on_target_of :: "shot_json \<Rightarrow> bool option" where
  "on_target_of s =
     (case sh_isOnTarget s of
        None \<Rightarrow> None
      | Some b \<Rightarrow> if b then Some (sh_isBlocked s \<noteq> Some True) else Some False)"

definition shot_rows :: "string \<Rightarrow> match_details \<Rightarrow> shot_row list" where
  "shot_rows match_id r =
     map (\<lambda>s. \<lparr>s_match_id = match_id, s_player_id = py_str (sh_playerId s),
                s_player_name = sh_playerName s, s_team_id = py_str (sh_teamId s),
                s_minute = py_str (sh_min s), s_on_target = on_target_of s,
                s_shot_type = sh_shotType s, s_situation = sh_situation s,
                s_outcome = sh_eventType s, s_inside_box = sh_isFromInsideBox s\<rparr>)
         (md_shots r)"

text \<open>
  The cards of the event list: an event with a card type, unless its description says
  the player was not on the pitch; the team is the home or the away side of the match.
\<close>

definition card_rows :: "string \<Rightarrow> match_details \<Rightarrow> card_row list" where
  "card_rows match_id r =
     concat (map (\<lambda>ev.
        (case ev_card ev of
           None \<Rightarrow> []
         | Some c_type \<Rightarrow>
             if c_type = [] then []
             else if ev_localizedKey ev = Some ''not_on_pitch'' then []
             else [\<lparr>c_match_id = match_id, c_player_id = py_str (ev_player_id ev),
                    c_player_name = ev_player_name ev,
                    c_team_id = (if ev_isHome ev then py_str (md_homeTeam_id r)
                                 else py_str (md_awayTeam_id r)),
                    c_card_type = c_type, c_minute = py_str (ev_timeStr ev)\<rparr>]))
        (md_events r))"

text \<open>
  The writes. \<open>INSERT OR REPLACE INTO matches\<close> removes the row with the same id and
  adds the new one. The bulk insert of appearances is one transaction: it fails as a whole,
  with \<open>IntegrityError\<close>, when a new row repeats the primary key
  \<open>(match_id, player_id)\<close> of a stored row or of another new row. The tables of shots and
  cards have no key but the surrogate one, and their bulk inserts append.
\<close>

definition insert_or_replace_match :: "match_row \<Rightarrow> db \<Rightarrow> db" where
  "insert_or_replace_match row d =
     d\<lparr>matches := filter (\<lambda>m. m_id m \<noteq> m_id row) (matches d) @ [row]\<rparr>"

definition pmd_key :: "pmd_row \<Rightarrow> string \<times> string" where
  "pmd_key p = (p_match_id p, p_player_id p)"

definition to_sql_player_match_details :: "pmd_row list \<Rightarrow> db \<Rightarrow> py_error + db" where
  "to_sql_player_match_details rows d =
     (if distinct (map pmd_key rows)
         \<and> list_all (\<lambda>p. pmd_key p \<notin> set (map pmd_key (player_match_details d))) rows
      then Inr (d\<lparr>player_match_details := player_match_details d @ rows\<rparr>)
      else Inl IntegrityError)"

definition to_sql_shots :: "shot_row list \<Rightarrow> db \<Rightarrow> db" where
  "to_sql_shots rows d = d\<lparr>shots := shots d @ rows\<rparr>"

definition to_sql_cards :: "card_row list \<Rightarrow> db \<Rightarrow> db" where
  "to_sql_cards rows d = d\<lparr>cards := cards d @ rows\<rparr>"

text \<open>
  \<open>load_match_directly\<close>: the state of the store after the call, and the log entry. The
  match row is committed before the check of \<open>finished\<close>; an exception after it is caught
  and logged, and the rest of the call is abandoned.
\<close>

definition load_match_directly :: "(string \<Rightarrow> py_datetime option) \<Rightarrow> string \<Rightarrow> api_response \<Rightarrow> db
    \<Rightarrow> db \<times> log_entry" where
  "load_match_directly fromisoformat match_id response d =
     (case response of
        Connection_failed \<Rightarrow> (d, Error_processing ConnectionError)
      | Empty_response \<Rightarrow> (d, Warning_empty)
      | Details r \<Rightarrow>
          (let d1 = insert_or_replace_match (match_row_of fromisoformat match_id r) d
           in if \<not> md_finished r then (d1, Info_pending)
              else
                (case (if player_rows match_id r \<noteq> []
                       then to_sql_player_match_details (player_rows match_id r) d1 else Inr d1) of
                   Inl e \<Rightarrow> (d1, Error_processing e)
                 | Inr d2 \<Rightarrow>
                     (let d3 = (if shot_rows match_id r \<noteq> [] then to_sql_shots (shot_rows match_id r) d2 else d2);
                          d4 = (if card_rows match_id r \<noteq> [] then to_sql_cards (card_rows match_id r) d3 else d3)
                      in (d4, Info_complete)))))"

section \<open>The specification's direction against\<close>



section \<open>Properties of the prediction engine\<close>

lemma py_int_pct_trunc:
  "0 < d \<Longrightarrow> py_int_pct s d =
     (if 0 \<le> s then \<lfloor>(100 * of_int s / of_int d :: rat)\<rfloor> else \<lceil>(100 * of_int s / of_int d :: rat)\<rceil>)"
proof -
  have a: "(100 * of_int s / of_int d :: rat) = of_int (s * 100) / of_int d" by simp
  have b: "\<lceil>(of_int (s * 100) / of_int d :: rat)\<rceil> = - \<lfloor>(of_int (- s * 100) / of_int d :: rat)\<rfloor>"
    by (simp add: ceiling_def)
  show ?thesis unfolding a b py_int_pct_def floor_divide_of_int_eq by simp
qed

text \<open>The record the prediction returns, in each of its two branches.\<close>

lemma prediction_no_referee:
  assumes "prediction_ranks d category filter_type precalc_ranks = Inr (m_ranks, a_ranks, rr)"
    and "\<not> (referee \<noteq> None \<and> referee \<noteq> Some [] \<and> category \<in> set [''cards'', ''fouls''])"
  shows "get_prediction_logic d home_id away_id category filter_type referee precalc_ranks =
     Inr \<lparr>h_s = py_int_pct ((30 - dict_get m_ranks home_id 15) + (30 - dict_get a_ranks away_id 15)) 58,
          v_s = py_int_pct ((30 - dict_get m_ranks away_id 15) + (30 - dict_get a_ranks home_id 15)) 58,
          gen = (py_int_pct ((30 - dict_get m_ranks home_id 15) + (30 - dict_get a_ranks away_id 15)) 58
               + py_int_pct ((30 - dict_get m_ranks away_id 15) + (30 - dict_get a_ranks home_id 15)) 58) div 2,
          rm_h = dict_get m_ranks home_id 15, ra_h = dict_get a_ranks home_id 15,
          rm_v = dict_get m_ranks away_id 15, ra_v = dict_get a_ranks away_id 15, ref_rank = None\<rparr>"
  unfolding get_prediction_logic_def assms(1) sum.case prod.case Let_def
  using assms(2) by (simp only: if_False simp_thms)

lemma prediction_referee:
  assumes "prediction_ranks d category filter_type precalc_ranks = Inr (m_ranks, a_ranks, rr)"
    and "referee \<noteq> None \<and> referee \<noteq> Some [] \<and> category \<in> set [''cards'', ''fouls'']"
  shows "get_prediction_logic d home_id away_id category filter_type referee precalc_ranks =
     Inr \<lparr>h_s = py_int_pct ((30 - dict_get m_ranks home_id 15) + (30 - dict_get a_ranks away_id 15)
                            + (30 - dict_get (referee_ranks d category rr) referee 15)) 87,
          v_s = py_int_pct ((30 - dict_get m_ranks away_id 15) + (30 - dict_get a_ranks home_id 15)
                            + (30 - dict_get (referee_ranks d category rr) referee 15)) 87,
          gen = py_int_pct ((30 - dict_get m_ranks home_id 15) + (30 - dict_get a_ranks home_id 15)
                            + (30 - dict_get m_ranks away_id 15) + (30 - dict_get a_ranks away_id 15)
                            + (30 - dict_get (referee_ranks d category rr) referee 15)) 143,
          rm_h = dict_get m_ranks home_id 15, ra_h = dict_get a_ranks home_id 15,
          rm_v = dict_get m_ranks away_id 15, ra_v = dict_get a_ranks away_id 15,
          ref_rank = Some (dict_get (referee_ranks d category rr) referee 15)\<rparr>"
  unfolding get_prediction_logic_def assms(1) sum.case prod.case Let_def
  using assms(2) by (simp only: if_True simp_thms)

lemma precalc_ranks_used:
  "prediction_ranks d category filter_type (Some (m_ranks, a_ranks, rr)) = Inr (m_ranks, a_ranks, rr)"
  by (simp add: prediction_ranks_def)

text \<open>
  C1, as the code has it. With no referee folded in (no referee name, or a category other
  than cards and fouls), the prediction returns, and its home score is
  \<open>100 * ((L - rmH) + (L - raA)) / (2L - 2)\<close> for \<open>L = 30\<close> truncated toward zero (the floor
  when the sum is not negative), where \<open>rmH\<close> is the rank of the home id in the ranking
  of events made and \<open>raA\<close> the rank of the away id in the ranking of events against,
  each 15 when the id is absent. For \<open>rmH = 5\<close> and \<open>raA = 10\<close> the home score is 77.
\<close>

theorem C1_home_score_truncated:
  assumes "prediction_ranks d category filter_type precalc_ranks = Inr (m_ranks, a_ranks, rr)"
    and "\<not> (referee \<noteq> None \<and> referee \<noteq> Some [] \<and> category \<in> set [''cards'', ''fouls''])"
  shows "\<exists>r. get_prediction_logic d home_id away_id category filter_type referee precalc_ranks = Inr r
           \<and> rm_h r = dict_get m_ranks home_id 15 \<and> ra_v r = dict_get a_ranks away_id 15
           \<and> h_s r = (if 0 \<le> (30 - rm_h r) + (30 - ra_v r)
                      then \<lfloor>(100 * of_int ((30 - rm_h r) + (30 - ra_v r)) / of_int (2 * 30 - 2) :: rat)\<rfloor>
                      else \<lceil>(100 * of_int ((30 - rm_h r) + (30 - ra_v r)) / of_int (2 * 30 - 2) :: rat)\<rceil>)
           \<and> (rm_h r = 5 \<and> ra_v r = 10 \<longrightarrow> h_s r = 77)"
proof -
  let ?S = "(30 - dict_get m_ranks home_id 15) + (30 - dict_get a_ranks away_id 15)"
  have t: "py_int_pct ?S 58 =
      (if 0 \<le> ?S then \<lfloor>(100 * of_int ?S / of_int (2 * 30 - 2) :: rat)\<rfloor>
       else \<lceil>(100 * of_int ?S / of_int (2 * 30 - 2) :: rat)\<rceil>)"
    using py_int_pct_trunc [of 58 ?S] by simp
  have p: "dict_get m_ranks home_id 15 = 5 \<and> dict_get a_ranks away_id 15 = 10 \<longrightarrow> py_int_pct ?S 58 = 77"
    by (simp add: py_int_pct_def)
  show ?thesis
    unfolding prediction_no_referee [OF assms]
    apply (rule exI, rule conjI, rule refl)
    using t p by simp
qed

theorem C1_home_score_truncated_witness:
  "(let r = (case get_prediction_logic \<lparr>matches = [], player_match_details = [], shots = [], cards = []\<rparr>
                 ''A'' ''B'' ''shots'' ''all'' None (Some ([(''A'', 5)], [(''B'', 10)], None))
             of Inr r \<Rightarrow> r)
    in rm_h r = 5 \<and> ra_v r = 10 \<and> h_s r = 77)"
proof -
  have a: "prediction_ranks \<lparr>matches = [], player_match_details = [], shots = [], cards = []\<rparr>
             ''shots'' ''all'' (Some ([(''A'', 5)], [(''B'', 10)], None))
           = Inr ([(''A'', 5)], [(''B'', 10)], None)"
    by (simp add: prediction_ranks_def)
  have b: "\<not> ((None :: string option) \<noteq> None \<and> None \<noteq> Some [] \<and> ''shots'' \<in> set [''cards'', ''fouls''])"
    by simp
  from C1_home_score_truncated [OF a b, of "''A''" "''B''"]
  obtain r where r: "get_prediction_logic \<lparr>matches = [], player_match_details = [], shots = [], cards = []\<rparr>
                 ''A'' ''B'' ''shots'' ''all'' None (Some ([(''A'', 5)], [(''B'', 10)], None)) = Inr r"
     and "rm_h r = dict_get [(''A'', 5)] ''A'' 15" and "ra_v r = dict_get [(''B'', 10)] ''B'' 15"
     and "rm_h r = 5 \<and> ra_v r = 10 \<longrightarrow> h_s r = 77"
    by blast
  then show ?thesis by (simp add: dict_get_def)
qed

text \<open>
  C1 as stated fails: at \<open>rmH = 5\<close>, \<open>raA = 10\<close> the code returns the home score 77, while
  the rounded value of the specification is 78.
\<close>

theorem C1_round_counterexample:
  "get_prediction_logic \<lparr>matches = [], player_match_details = [], shots = [], cards = []\<rparr>
      ''A'' ''B'' ''shots'' ''all'' None (Some ([(''A'', 5)], [(''B'', 10)], None))
     = Inr \<lparr>h_s = 77, v_s = 51, gen = 64, rm_h = 5, ra_h = 15, rm_v = 15, ra_v = 10, ref_rank = None\<rparr>
   \<and> spec_score_no_referee 30 5 10 = 78"
  by code_simp

lemma py_int_pct_le_100: "s \<le> 143 \<Longrightarrow> py_int_pct s 143 \<le> 100"
proof (cases "0 \<le> s")
  case True
  assume "s \<le> 143"
  then have "s * 100 \<le> 14300" by simp
  then have "(s * 100) div 143 \<le> 14300 div 143" by (rule zdiv_mono1) simp
  with True show ?thesis by (simp add: py_int_pct_def)
next
  case False
  then have "0 \<le> (- s * 100) div 143" by (simp add: pos_imp_zdiv_nonneg_iff)
  with False show ?thesis by (simp add: py_int_pct_def)
qed

text \<open>
  C2, as the code has it. When a referee name is given and the category is cards or fouls,
  the prediction returns, and its combined score is \<open>100 * S / 143\<close> truncated toward zero
  (the floor when \<open>S\<close> is not negative), where \<open>S\<close> is the sum of the five inverted ranks
  \<open>(L - rmH) + (L - raH) + (L - rmA) + (L - raA) + (L - refRank)\<close> for \<open>L = 30\<close>. The divisor
  143 is the largest value of \<open>S\<close> for ranks from 1 on in which the two teams have different
  ranks in each ranking, so that the combined score of such ranks is at most 100.
\<close>

theorem C2_combined_score_truncated:
  assumes "prediction_ranks d category filter_type precalc_ranks = Inr (m_ranks, a_ranks, rr)"
    and "referee \<noteq> None \<and> referee \<noteq> Some [] \<and> category \<in> set [''cards'', ''fouls'']"
  shows "\<exists>r x. get_prediction_logic d home_id away_id category filter_type referee precalc_ranks = Inr r
      \<and> ref_rank r = Some x
      \<and> rm_h r = dict_get m_ranks home_id 15 \<and> ra_h r = dict_get a_ranks home_id 15
      \<and> rm_v r = dict_get m_ranks away_id 15 \<and> ra_v r = dict_get a_ranks away_id 15
      \<and> x = dict_get (referee_ranks d category rr) referee 15
      \<and> gen r = (if 0 \<le> (30 - rm_h r) + (30 - ra_h r) + (30 - rm_v r) + (30 - ra_v r) + (30 - x)
                 then \<lfloor>(100 * of_int ((30 - rm_h r) + (30 - ra_h r) + (30 - rm_v r) + (30 - ra_v r) + (30 - x)) / 143 :: rat)\<rfloor>
                 else \<lceil>(100 * of_int ((30 - rm_h r) + (30 - ra_h r) + (30 - rm_v r) + (30 - ra_v r) + (30 - x)) / 143 :: rat)\<rceil>)
      \<and> (1 \<le> rm_h r \<and> 1 \<le> ra_h r \<and> 1 \<le> rm_v r \<and> 1 \<le> ra_v r \<and> 1 \<le> x
           \<and> rm_h r \<noteq> rm_v r \<and> ra_h r \<noteq> ra_v r
          \<longrightarrow> (30 - rm_h r) + (30 - ra_h r) + (30 - rm_v r) + (30 - ra_v r) + (30 - x) \<le> 143
              \<and> gen r \<le> 100)"
proof -
  let ?x = "dict_get (referee_ranks d category rr) referee 15"
  let ?S = "(30 - dict_get m_ranks home_id 15) + (30 - dict_get a_ranks home_id 15)
            + (30 - dict_get m_ranks away_id 15) + (30 - dict_get a_ranks away_id 15) + (30 - ?x)"
  have t: "py_int_pct ?S 143 =
      (if 0 \<le> ?S then \<lfloor>(100 * of_int ?S / 143 :: rat)\<rfloor>
       else \<lceil>(100 * of_int ?S / 143 :: rat)\<rceil>)"
    using py_int_pct_trunc [of 143 ?S] by simp
  have b: "1 \<le> dict_get m_ranks home_id 15 \<and> 1 \<le> dict_get a_ranks home_id 15
           \<and> 1 \<le> dict_get m_ranks away_id 15 \<and> 1 \<le> dict_get a_ranks away_id 15 \<and> 1 \<le> ?x
           \<and> dict_get m_ranks home_id 15 \<noteq> dict_get m_ranks away_id 15
           \<and> dict_get a_ranks home_id 15 \<noteq> dict_get a_ranks away_id 15
          \<longrightarrow> ?S \<le> 143 \<and> py_int_pct ?S 143 \<le> 100"
  proof
    assume h: "1 \<le> dict_get m_ranks home_id 15 \<and> 1 \<le> dict_get a_ranks home_id 15
           \<and> 1 \<le> dict_get m_ranks away_id 15 \<and> 1 \<le> dict_get a_ranks away_id 15 \<and> 1 \<le> ?x
           \<and> dict_get m_ranks home_id 15 \<noteq> dict_get m_ranks away_id 15
           \<and> dict_get a_ranks home_id 15 \<noteq> dict_get a_ranks away_id 15"
    then have s: "?S \<le> 143" by linarith
    with py_int_pct_le_100 [OF s] show "?S \<le> 143 \<and> py_int_pct ?S 143 \<le> 100" by simp
  qed
  show ?thesis
    unfolding prediction_referee [OF assms]
    apply (rule exI, rule exI [of _ ?x], rule conjI, rule refl)
    using t b by simp
qed

theorem C2_combined_score_truncated_witness:
  "Some ''X'' \<noteq> None \<and> Some ''X'' \<noteq> Some [] \<and> ''cards'' \<in> set [''cards'', ''fouls'']
   \<and> get_prediction_logic \<lparr>matches = [], player_match_details = [], shots = [], cards = []\<rparr>
         ''A'' ''B'' ''cards'' ''all'' (Some ''X'')
         (Some ([(''A'', 3), (''B'', 7)], [(''B'', 4), (''A'', 9)], Some [(Some ''X'', 2)]))
       = Inr \<lparr>h_s = 93, v_s = 82, gen = 87, rm_h = 3, ra_h = 9, rm_v = 7, ra_v = 4, ref_rank = Some 2\<rparr>
   \<and> (87 :: int) = \<lfloor>(100 * 125 / 143 :: rat)\<rfloor>"
proof -
  let ?d = "\<lparr>matches = [], player_match_details = [], shots = [], cards = []\<rparr>"
  let ?m = "[(''A'', 3), (''B'', 7 :: int)]"
  let ?a = "[(''B'', 4), (''A'', 9 :: int)]"
  let ?rr = "Some [(Some ''X'', 2 :: int)]"
  have a: "prediction_ranks ?d ''cards'' ''all'' (Some (?m, ?a, ?rr)) = Inr (?m, ?a, ?rr)"
    by (simp add: prediction_ranks_def)
  have b: "Some ''X'' \<noteq> None \<and> Some ''X'' \<noteq> Some [] \<and> ''cards'' \<in> set [''cards'', ''fouls'']"
    by simp
  have c: "get_prediction_logic ?d ''A'' ''B'' ''cards'' ''all'' (Some ''X'') (Some (?m, ?a, ?rr))
     = Inr \<lparr>h_s = 93, v_s = 82, gen = 87, rm_h = 3, ra_h = 9, rm_v = 7, ra_v = 4, ref_rank = Some 2\<rparr>"
    by code_simp
  from C2_combined_score_truncated [OF a b, of "''A''" "''B''"]
  have "(87 :: int) = \<lfloor>(100 * 125 / 143 :: rat)\<rfloor>"
    unfolding c by auto
  with b c show ?thesis by blast
qed

text \<open>
  C2 as stated fails: for the home team first in events made and second in events against,
  the away team second and first, and the referee first, the sum is 143; the claim gives
  \<open>round(100 * 143 / 145) = 99\<close>, while the code returns the combined score 100.
\<close>

theorem C2_divisor_counterexample:
  "get_prediction_logic \<lparr>matches = [], player_match_details = [], shots = [], cards = []\<rparr>
      ''A'' ''B'' ''cards'' ''all'' (Some ''X'')
      (Some ([(''A'', 1), (''B'', 2)], [(''B'', 1), (''A'', 2)], Some [(Some ''X'', 1)]))
     = Inr \<lparr>h_s = 100, v_s = 97, gen = 100, rm_h = 1, ra_h = 2, rm_v = 2, ra_v = 1, ref_rank = Some 1\<rparr>
   \<and> spec_combined_referee 30 1 2 2 1 1 = 99"
  by code_simp






section \<open>Properties of the kickoff time\<close>

text \<open>The day number of the day before is one less, across the ends of months and years.\<close>

lemma upt_1_12: "[Suc 0..<12] = [1,2,3,4,5,6,7,8,9,10,11::nat]"
  by code_simp

lemma days_before_december:
  "days_before_month y 12 = (if is_leap y then 335 else 334)"
  by (simp add: days_before_month_def upt_1_12 days_in_month_def)

lemma div_step_int:
  fixes z k :: int
  assumes "0 < k"
  shows "z div k = (z - 1) div k + (if z mod k = 0 then 1 else 0)"
proof (cases "z mod k = 0")
  case True
  have "z - 1 = k * (z div k - 1) + (k - 1)"
    using True by (simp add: algebra_simps mod_eq_0_iff_dvd)
  then have "(z - 1) div k = z div k - 1"
    using assms int_div_pos_eq [of "z - 1" k "z div k - 1" "k - 1"] by simp
  with True show ?thesis by simp
next
  case False
  have "0 \<le> z mod k" using assms by simp
  with False have r1: "0 < z mod k" by simp
  have r2: "z mod k < k" using assms by simp
  have "z - 1 = k * (z div k) + (z mod k - 1)" by simp
  then have "(z - 1) div k = z div k"
    using r1 r2 int_div_pos_eq [of "z - 1" k "z div k" "z mod k - 1"] by simp
  with False show ?thesis by simp
qed

lemma mod_100_4: "(z::int) mod 100 = 0 \<Longrightarrow> z mod 4 = 0"
proof -
  assume "z mod 100 = 0"
  then have "100 dvd z" by (simp add: mod_eq_0_iff_dvd)
  moreover have "(4::int) dvd 100" by simp
  ultimately have "4 dvd z" by (rule dvd_trans [rotated])
  then show ?thesis by (simp add: mod_eq_0_iff_dvd)
qed

lemma mod_400_100: "(z::int) mod 400 = 0 \<Longrightarrow> z mod 100 = 0"
proof -
  assume "z mod 400 = 0"
  then have "400 dvd z" by (simp add: mod_eq_0_iff_dvd)
  moreover have "(100::int) dvd 400" by simp
  ultimately have "100 dvd z" by (rule dvd_trans [rotated])
  then show ?thesis by (simp add: mod_eq_0_iff_dvd)
qed

lemma leap_cases:
  fixes z c4 c100 c400 :: int
  assumes "c4 = (if z mod 4 = 0 then 1 else 0)" "c100 = (if z mod 100 = 0 then 1 else 0)"
    "c400 = (if z mod 400 = 0 then 1 else 0)"
    and a: "z mod 100 = 0 \<Longrightarrow> z mod 4 = 0" and b: "z mod 400 = 0 \<Longrightarrow> z mod 100 = 0"
  shows "(if z mod 4 = 0 \<and> (z mod 100 \<noteq> 0 \<or> z mod 400 = 0) then 366 else 365)
           = 365 + c4 - c100 + c400"
proof (cases "z mod 400 = 0")
  case True
  with a b have "z mod 100 = 0" "z mod 4 = 0" by blast+
  with True assms(1-3) show ?thesis by simp
next
  case f400: False
  show ?thesis
  proof (cases "z mod 100 = 0")
    case True
    with a have "z mod 4 = 0" by blast
    with True f400 assms(1-3) show ?thesis by simp
  next
    case False
    with f400 assms(1-3) show ?thesis by (cases "z mod 4 = 0") simp_all
  qed
qed

lemma year_step_lin:
  fixes z a b c a' b' c' c4 c100 c400 :: int
  assumes "a = a' + c4" "b = b' + c100" "c = c' + c400" 
  shows "z * 365 + a - b + c = (z - 1) * 365 + a' - b' + c' + (365 + c4 - c100 + c400)"
  using assms by (simp add: algebra_simps)

lemma year_step_int:
  fixes z :: int
  shows "z * 365 + z div 4 - z div 100 + z div 400 =
         (z - 1) * 365 + (z - 1) div 4 - (z - 1) div 100 + (z - 1) div 400
         + (if z mod 4 = 0 \<and> (z mod 100 \<noteq> 0 \<or> z mod 400 = 0) then 366 else 365)"
proof -
  define c4 :: int where "c4 = (if z mod 4 = 0 then 1 else 0)"
  define c100 :: int where "c100 = (if z mod 100 = 0 then 1 else 0)"
  define c400 :: int where "c400 = (if z mod 400 = 0 then 1 else 0)"
  have e4: "z div 4 = (z - 1) div 4 + c4"
    unfolding c4_def by (rule div_step_int) simp
  have e100: "z div 100 = (z - 1) div 100 + c100"
    unfolding c100_def by (rule div_step_int) simp
  have e400: "z div 400 = (z - 1) div 400 + c400"
    unfolding c400_def by (rule div_step_int) simp
  have l: "(if z mod 4 = 0 \<and> (z mod 100 \<noteq> 0 \<or> z mod 400 = 0) then 366 else 365)
           = 365 + c4 - c100 + c400"
    by (rule leap_cases [OF c4_def c100_def c400_def mod_100_4 mod_400_100])
  have "z * 365 + z div 4 - z div 100 + z div 400 =
         (z - 1) * 365 + (z - 1) div 4 - (z - 1) div 100 + (z - 1) div 400
         + (365 + c4 - c100 + c400)"
    by (rule year_step_lin [OF e4 e100 e400])
  then show ?thesis by (simp only: l)
qed

lemma nat_int_mod0:
  assumes "1 \<le> (y::nat)"
  shows "((y - 1) mod k = 0) = ((int y - 1) mod int k = 0)"
proof -
  have "int ((y - 1) mod k) = int (y - 1) mod int k" by (rule zmod_int)
  moreover have "int (y - 1) = int y - 1" using assms by simp
  ultimately have "int ((y - 1) mod k) = (int y - 1) mod int k" by simp
  then show ?thesis by (metis of_nat_eq_0_iff)
qed

lemma days_before_year_step:
  assumes "1 < y"
  shows "days_before_year y = days_before_year (y - 1) + (if is_leap (y - 1) then 366 else 365)"
proof -
  have y1: "1 \<le> y" using assms by simp
  have i: "int (y - 1) - 1 = (int y - 1) - 1" using assms by simp
  have m: "is_leap (y - 1) =
      ((int y - 1) mod 4 = 0 \<and> ((int y - 1) mod 100 \<noteq> 0 \<or> (int y - 1) mod 400 = 0))"
    using nat_int_mod0 [OF y1, of 4] nat_int_mod0 [OF y1, of 100] nat_int_mod0 [OF y1, of 400]
    by (simp add: is_leap_def)
  show ?thesis
    unfolding days_before_year_def Let_def i m by (rule year_step_int)
qed

lemma days_before_month_step:
  "1 < m \<Longrightarrow> days_before_month y m = days_before_month y (m - 1) + days_in_month y (m - 1)"
proof -
  assume "1 < m"
  then obtain k where k: "m = Suc k" "1 \<le> k" by (cases m) auto
  then show ?thesis by (simp add: days_before_month_def)
qed

lemma toordinal_day_before:
  assumes "valid_datetime t" and "\<not> (dt_year t \<le> 1 \<and> dt_month t \<le> 1 \<and> dt_day t \<le> 1)"
  shows "toordinal (day_before t) = toordinal t - 1"
proof (cases "1 < dt_day t")
  case True
  then show ?thesis by (simp add: day_before_def toordinal_def)
next
  case d1: False
  with assms(1) have d: "dt_day t = 1" by (simp add: valid_datetime_def)
  show ?thesis
  proof (cases "1 < dt_month t")
    case True
    then show ?thesis using d days_before_month_step [OF True, of "dt_year t"]
      by (simp add: day_before_def toordinal_def)
  next
    case False
    with assms(1) have m: "dt_month t = 1" by (simp add: valid_datetime_def)
    with d assms(2) have y: "1 < dt_year t" by simp
    have b1: "days_before_month (dt_year t) 1 = 0" by (simp add: days_before_month_def)
    show ?thesis using d m y days_before_year_step [OF y] b1
      by (simp add: day_before_def toordinal_def days_before_december)
  qed
qed

lemma days_in_month_pos: "1 \<le> days_in_month y m"
  by (simp add: days_in_month_def)

lemma valid_datetimeD:
  assumes "valid_datetime t"
  shows "1 \<le> dt_year t" "dt_year t \<le> 9999" "1 \<le> dt_month t" "dt_month t \<le> 12"
    "1 \<le> dt_day t" "dt_day t \<le> days_in_month (dt_year t) (dt_month t)"
    "dt_hour t < 24" "dt_minute t < 60" "dt_second t < 60"
  using assms unfolding valid_datetime_def by blast+

lemma valid_datetimeI:
  assumes "1 \<le> dt_year t" "dt_year t \<le> 9999" "1 \<le> dt_month t" "dt_month t \<le> 12"
    "1 \<le> dt_day t" "dt_day t \<le> days_in_month (dt_year t) (dt_month t)"
    "dt_hour t < 24" "dt_minute t < 60" "dt_second t < 60"
  shows "valid_datetime t"
  using assms unfolding valid_datetime_def by blast

lemma day_before_valid:
  assumes "valid_datetime t" and "\<not> (dt_year t \<le> 1 \<and> dt_month t \<le> 1 \<and> dt_day t \<le> 1)"
  shows "valid_datetime (day_before t)"
proof -
  note v = valid_datetimeD [OF assms(1)]
  show ?thesis
  proof (cases "1 < dt_day t")
    case True
    then have e: "day_before t = t\<lparr>dt_day := dt_day t - 1\<rparr>" by (simp add: day_before_def)
    show ?thesis unfolding e using v True by (intro valid_datetimeI) simp_all
  next
    case d1: False
    show ?thesis
    proof (cases "1 < dt_month t")
      case True
      then have e: "day_before t =
          t\<lparr>dt_month := dt_month t - 1, dt_day := days_in_month (dt_year t) (dt_month t - 1)\<rparr>"
        using d1 by (simp add: day_before_def)
      show ?thesis unfolding e using v True days_in_month_pos [of "dt_year t" "dt_month t - 1"]
        by (intro valid_datetimeI) simp_all
    next
      case False
      then have e: "day_before t = t\<lparr>dt_year := dt_year t - 1, dt_month := 12, dt_day := 31\<rparr>"
        using d1 by (simp add: day_before_def)
      have y: "1 < dt_year t" using assms(2) d1 False by simp
      have dec: "days_in_month (dt_year t - 1) 12 = 31" by (simp add: days_in_month_def)
      show ?thesis unfolding e using v y dec by (intro valid_datetimeI) simp_all
    qed
  qed
qed

lemma minus_3_hours_result:
  assumes "valid_datetime t" and "minus_3_hours t = Inr t'"
  shows "instant t' = instant t - 3 * 3600 \<and> valid_datetime t'
         \<and> dt_microsecond t' = dt_microsecond t \<and> dt_utcoffset t' = dt_utcoffset t"
proof (cases "3 \<le> dt_hour t")
  case True
  note v = valid_datetimeD [OF assms(1)]
  from True assms(2) have t': "t' = t\<lparr>dt_hour := dt_hour t - 3\<rparr>" by (simp add: minus_3_hours_def)
  have i: "instant t' = instant t - 3 * 3600"
    unfolding t' using True by (simp add: instant_def toordinal_def of_nat_diff)
  have "valid_datetime t'" unfolding t' using v by (intro valid_datetimeI) simp_all
  with i show ?thesis unfolding t' by simp
next
  case False
  with assms(2) have n: "\<not> (dt_year t \<le> 1 \<and> dt_month t \<le> 1 \<and> dt_day t \<le> 1)"
    and t': "t' = (day_before t)\<lparr>dt_hour := dt_hour t + 21\<rparr>"
    by (auto simp add: minus_3_hours_def split: if_splits)
  have o: "toordinal (day_before t) = toordinal t - 1"
    by (rule toordinal_day_before [OF assms(1) n])
  note v = valid_datetimeD [OF day_before_valid [OF assms(1) n]]
  have f: "dt_minute (day_before t) = dt_minute t" "dt_second (day_before t) = dt_second t"
    "dt_microsecond (day_before t) = dt_microsecond t" "dt_utcoffset (day_before t) = dt_utcoffset t"
    by (simp_all add: day_before_def)
  have o': "toordinal ((day_before t)\<lparr>dt_hour := dt_hour t + 21\<rparr>) = toordinal t - 1"
    using o by (simp add: toordinal_def)
  have i: "instant t' = instant t - 3 * 3600"
    unfolding t' instant_def o' using f by simp
  have "valid_datetime t'" unfolding t' using v False by (intro valid_datetimeI) simp_all
  with i show ?thesis using f unfolding t' by simp
qed

lemma minus_3_hours_overflow:
  assumes "valid_datetime t"
  shows "(minus_3_hours t = Inl e) = (e = OverflowError \<and> dt_year t = 1 \<and> dt_month t = 1 \<and> dt_day t = 1 \<and> dt_hour t < 3)"
  using valid_datetimeD(1,3,5) [OF assms] by (auto simp add: minus_3_hours_def)


text \<open>
  C9, as the code has it. The function returns its argument unchanged when the argument
  is \<open>None\<close>, when the parser rejects the text, and when the parsed time lies in the first
  three hours of 1 January of year 1, where the subtraction overflows. For every other
  parsed time it returns the format \<open>%Y-%m-%d %H:%M:%S\<close> of a valid time whose position
  on the time line is exactly three hours earlier, with the same microseconds and offset.
\<close>

theorem C9_adjust_utc_to_arg:
  "adjust_utc_to_arg P None = None
   \<and> (P (replace_Z s) = None \<longrightarrow> adjust_utc_to_arg P (Some s) = Some s)
   \<and> (P (replace_Z s) = Some t \<and> valid_datetime t
        \<and> \<not> (dt_year t = 1 \<and> dt_month t = 1 \<and> dt_day t = 1 \<and> dt_hour t < 3)
       \<longrightarrow> (\<exists>t'. adjust_utc_to_arg P (Some s) = Some (strftime t')
                 \<and> instant t' = instant t - 3 * 3600 \<and> valid_datetime t'
                 \<and> dt_microsecond t' = dt_microsecond t \<and> dt_utcoffset t' = dt_utcoffset t))
   \<and> (P (replace_Z s) = Some t \<and> valid_datetime t
        \<and> dt_year t = 1 \<and> dt_month t = 1 \<and> dt_day t = 1 \<and> dt_hour t < 3
       \<longrightarrow> adjust_utc_to_arg P (Some s) = Some s)"
proof (intro conjI impI)
  show "adjust_utc_to_arg P None = None" by (simp add: adjust_utc_to_arg_def)
next
  assume "P (replace_Z s) = None"
  then show "adjust_utc_to_arg P (Some s) = Some s" by (simp add: adjust_utc_to_arg_def)
next
  assume h: "P (replace_Z s) = Some t \<and> valid_datetime t
        \<and> \<not> (dt_year t = 1 \<and> dt_month t = 1 \<and> dt_day t = 1 \<and> dt_hour t < 3)"
  then have v: "valid_datetime t" by simp
  from h have "\<And>e. minus_3_hours t \<noteq> Inl e"
    using minus_3_hours_overflow [OF v] by blast
  then obtain t' where t': "minus_3_hours t = Inr t'" by (cases "minus_3_hours t") auto
  have "adjust_utc_to_arg P (Some s) = Some (strftime t')"
    using h t' by (simp add: adjust_utc_to_arg_def)
  with minus_3_hours_result [OF v t']
  show "\<exists>t'. adjust_utc_to_arg P (Some s) = Some (strftime t')
                 \<and> instant t' = instant t - 3 * 3600 \<and> valid_datetime t'
                 \<and> dt_microsecond t' = dt_microsecond t \<and> dt_utcoffset t' = dt_utcoffset t"
    by blast
next
  assume h: "P (replace_Z s) = Some t \<and> valid_datetime t
        \<and> dt_year t = 1 \<and> dt_month t = 1 \<and> dt_day t = 1 \<and> dt_hour t < 3"
  then have "minus_3_hours t = Inl OverflowError" by (simp add: minus_3_hours_def)
  with h show "adjust_utc_to_arg P (Some s) = Some s" by (simp add: adjust_utc_to_arg_def)
qed

theorem C9_adjust_utc_to_arg_witness:
  "feed_fromisoformat (replace_Z ''2025-01-25T01:30:00.000Z'')
     = Some \<lparr>dt_year = 2025, dt_month = 1, dt_day = 25, dt_hour = 1, dt_minute = 30,
              dt_second = 0, dt_microsecond = 0, dt_utcoffset = Some 0\<rparr>
   \<and> adjust_utc_to_arg feed_fromisoformat (Some ''2025-01-25T01:30:00.000Z'') = Some ''2025-01-24 22:30:00''
   \<and> (\<exists>t'. adjust_utc_to_arg feed_fromisoformat (Some ''2025-01-25T01:30:00.000Z'') = Some (strftime t')
          \<and> instant t' = instant \<lparr>dt_year = 2025, dt_month = 1, dt_day = 25, dt_hour = 1, dt_minute = 30,
              dt_second = 0, dt_microsecond = 0, dt_utcoffset = Some 0\<rparr> - 3 * 3600)"
proof -
  let ?t = "\<lparr>dt_year = 2025, dt_month = 1, dt_day = 25, dt_hour = 1, dt_minute = 30,
              dt_second = 0, dt_microsecond = 0, dt_utcoffset = Some 0\<rparr>"
  have a: "feed_fromisoformat (replace_Z ''2025-01-25T01:30:00.000Z'') = Some ?t"
    by code_simp
  have b: "valid_datetime ?t" by code_simp
  have c: "\<not> (dt_year ?t = 1 \<and> dt_month ?t = 1 \<and> dt_day ?t = 1 \<and> dt_hour ?t < 3)" by simp
  have e: "adjust_utc_to_arg feed_fromisoformat (Some ''2025-01-25T01:30:00.000Z'') = Some ''2025-01-24 22:30:00''"
    by code_simp
  from C9_adjust_utc_to_arg [of feed_fromisoformat "''2025-01-25T01:30:00.000Z''" ?t] a b c
  have "\<exists>t'. adjust_utc_to_arg feed_fromisoformat (Some ''2025-01-25T01:30:00.000Z'') = Some (strftime t')
          \<and> instant t' = instant ?t - 3 * 3600"
    by blast
  with a e show ?thesis by blast
qed

text \<open>
  C9 as stated fails: the text of 01:00 on 1 January of year 1 is parsed, and the function
  returns it unchanged instead of a time three hours earlier.
\<close>

theorem C9_overflow_counterexample:
  "feed_fromisoformat (replace_Z ''0001-01-01T01:00:00Z'')
     = Some \<lparr>dt_year = 1, dt_month = 1, dt_day = 1, dt_hour = 1, dt_minute = 0,
              dt_second = 0, dt_microsecond = 0, dt_utcoffset = Some 0\<rparr>
   \<and> adjust_utc_to_arg feed_fromisoformat (Some ''0001-01-01T01:00:00Z'') = Some ''0001-01-01T01:00:00Z''"
  by code_simp

section \<open>Properties of the ingestion\<close>

lemma insert_or_replace_children:
  "player_match_details (insert_or_replace_match row d) = player_match_details d"
  "shots (insert_or_replace_match row d) = shots d"
  "cards (insert_or_replace_match row d) = cards d"
  by (simp_all add: insert_or_replace_match_def)

lemma match_row_of_id: "m_id (match_row_of parse match_id r) = match_id"
  by (simp add: match_row_of_def)


text \<open>
  C7. Ingesting details that report the match as not finished replaces the rows of
  \<open>matches\<close> with that id by the one new row, keeps every other match row, leaves the
  tables of appearances, shots and cards as they were, and logs the match as pending.
\<close>

theorem C7_unfinished_match:
  assumes "\<not> md_finished r"
  shows "load_match_directly parse match_id (Details r) d =
           (d\<lparr>matches := filter (\<lambda>m. m_id m \<noteq> match_id) (matches d) @ [match_row_of parse match_id r]\<rparr>,
            Info_pending)
     \<and> filter (\<lambda>m. m_id m = match_id) (matches (fst (load_match_directly parse match_id (Details r) d)))
         = [match_row_of parse match_id r]
     \<and> filter (\<lambda>m. m_id m \<noteq> match_id) (matches (fst (load_match_directly parse match_id (Details r) d)))
         = filter (\<lambda>m. m_id m \<noteq> match_id) (matches d)
     \<and> player_match_details (fst (load_match_directly parse match_id (Details r) d)) = player_match_details d
     \<and> shots (fst (load_match_directly parse match_id (Details r) d)) = shots d
     \<and> cards (fst (load_match_directly parse match_id (Details r) d)) = cards d"
proof -
  have l: "load_match_directly parse match_id (Details r) d =
           (d\<lparr>matches := filter (\<lambda>m. m_id m \<noteq> match_id) (matches d) @ [match_row_of parse match_id r]\<rparr>,
            Info_pending)"
    using assms by (simp add: load_match_directly_def insert_or_replace_match_def match_row_of_id)
  show ?thesis unfolding l by (simp add: match_row_of_id)
qed

theorem C7_unfinished_match_witness:
  "\<not> md_finished (\<lparr>md_matchTimeUTCDate = Some ''2025-01-25T20:00:00.000Z'', md_finished = False, md_leagueName = Some ''Liga'', md_leagueRoundName = Some ''1/4'', md_homeTeam_id = Some ''10'', md_homeTeam_name = Some ''H'', md_awayTeam_id = Some ''20'', md_awayTeam_name = Some ''A'', md_scoreStr = Some ''1 - 0'', md_referee = Some ''R'', md_lineup_homeTeam = \<lparr>tj_id = Some ''10'', tj_starters = [\<lparr>pl_id = Some ''7'', pl_name = Some ''P'', pl_usualPlayingPositionId = Some 3, pl_shirtNumber = Some 9, pl_rating = None, pl_layout_x = None, pl_layout_y = None\<rparr>], tj_subs = []\<rparr>, md_lineup_awayTeam = \<lparr>tj_id = Some ''20'', tj_starters = [], tj_subs = []\<rparr>, md_playerStats = [], md_shots = [\<lparr>sh_playerId = Some ''7'', sh_playerName = Some ''P'', sh_teamId = Some ''10'', sh_min = Some ''12'', sh_isOnTarget = Some True, sh_isBlocked = None, sh_shotType = Some ''Header'', sh_situation = None, sh_eventType = Some ''Goal'', sh_isFromInsideBox = Some True\<rparr>], md_events = [\<lparr>ev_card = Some ''Yellow'', ev_localizedKey = None, ev_player_id = Some ''7'', ev_player_name = Some ''P'', ev_isHome = True, ev_timeStr = Some ''30''\<rparr>]\<rparr>)
   \<and> load_match_directly feed_fromisoformat ''1'' (Details (\<lparr>md_matchTimeUTCDate = Some ''2025-01-25T20:00:00.000Z'', md_finished = False, md_leagueName = Some ''Liga'', md_leagueRoundName = Some ''1/4'', md_homeTeam_id = Some ''10'', md_homeTeam_name = Some ''H'', md_awayTeam_id = Some ''20'', md_awayTeam_name = Some ''A'', md_scoreStr = Some ''1 - 0'', md_referee = Some ''R'', md_lineup_homeTeam = \<lparr>tj_id = Some ''10'', tj_starters = [\<lparr>pl_id = Some ''7'', pl_name = Some ''P'', pl_usualPlayingPositionId = Some 3, pl_shirtNumber = Some 9, pl_rating = None, pl_layout_x = None, pl_layout_y = None\<rparr>], tj_subs = []\<rparr>, md_lineup_awayTeam = \<lparr>tj_id = Some ''20'', tj_starters = [], tj_subs = []\<rparr>, md_playerStats = [], md_shots = [\<lparr>sh_playerId = Some ''7'', sh_playerName = Some ''P'', sh_teamId = Some ''10'', sh_min = Some ''12'', sh_isOnTarget = Some True, sh_isBlocked = None, sh_shotType = Some ''Header'', sh_situation = None, sh_eventType = Some ''Goal'', sh_isFromInsideBox = Some True\<rparr>], md_events = [\<lparr>ev_card = Some ''Yellow'', ev_localizedKey = None, ev_player_id = Some ''7'', ev_player_name = Some ''P'', ev_isHome = True, ev_timeStr = Some ''30''\<rparr>]\<rparr>)) (\<lparr>matches = [\<lparr>m_id = ''1'', m_date = None, m_finished = False, m_tournament = [], m_gameweek = ''18'', m_id_home_team = ''10'', m_home_team = None, m_id_away_team = ''20'', m_away_team = None, m_score = None, m_referee = None\<rparr>, \<lparr>m_id = ''2'', m_date = Some ''2025-01-20 17:00:00'', m_finished = True, m_tournament = ''Liga'', m_gameweek = ''18'', m_id_home_team = ''10'', m_home_team = Some ''H'', m_id_away_team = ''20'', m_away_team = Some ''A'', m_score = Some ''1 - 0'', m_referee = Some ''R''\<rparr>], player_match_details = [], shots = [\<lparr>s_match_id = ''2'', s_player_id = ''7'', s_player_name = Some ''P'', s_team_id = ''10'', s_minute = ''12'', s_on_target = Some True, s_shot_type = Some ''Header'', s_situation = None, s_outcome = Some ''Goal'', s_inside_box = Some True\<rparr>], cards = []\<rparr>)
     = (\<lparr>matches = [\<lparr>m_id = ''2'', m_date = Some ''2025-01-20 17:00:00'', m_finished = True, m_tournament = ''Liga'', m_gameweek = ''18'', m_id_home_team = ''10'', m_home_team = Some ''H'', m_id_away_team = ''20'', m_away_team = Some ''A'', m_score = Some ''1 - 0'', m_referee = Some ''R''\<rparr>, \<lparr>m_id = ''1'', m_date = Some ''2025-01-25 17:00:00'', m_finished = False, m_tournament = ''Liga'', m_gameweek = ''18'', m_id_home_team = ''10'', m_home_team = Some ''H'', m_id_away_team = ''20'', m_away_team = Some ''A'', m_score = Some ''1 - 0'', m_referee = Some ''R''\<rparr>], player_match_details = [], shots = [\<lparr>s_match_id = ''2'', s_player_id = ''7'', s_player_name = Some ''P'', s_team_id = ''10'', s_minute = ''12'', s_on_target = Some True, s_shot_type = Some ''Header'', s_situation = None, s_outcome = Some ''Goal'', s_inside_box = Some True\<rparr>], cards = []\<rparr>, Info_pending)"
proof -
  have h: "\<not> md_finished (\<lparr>md_matchTimeUTCDate = Some ''2025-01-25T20:00:00.000Z'', md_finished = False, md_leagueName = Some ''Liga'', md_leagueRoundName = Some ''1/4'', md_homeTeam_id = Some ''10'', md_homeTeam_name = Some ''H'', md_awayTeam_id = Some ''20'', md_awayTeam_name = Some ''A'', md_scoreStr = Some ''1 - 0'', md_referee = Some ''R'', md_lineup_homeTeam = \<lparr>tj_id = Some ''10'', tj_starters = [\<lparr>pl_id = Some ''7'', pl_name = Some ''P'', pl_usualPlayingPositionId = Some 3, pl_shirtNumber = Some 9, pl_rating = None, pl_layout_x = None, pl_layout_y = None\<rparr>], tj_subs = []\<rparr>, md_lineup_awayTeam = \<lparr>tj_id = Some ''20'', tj_starters = [], tj_subs = []\<rparr>, md_playerStats = [], md_shots = [\<lparr>sh_playerId = Some ''7'', sh_playerName = Some ''P'', sh_teamId = Some ''10'', sh_min = Some ''12'', sh_isOnTarget = Some True, sh_isBlocked = None, sh_shotType = Some ''Header'', sh_situation = None, sh_eventType = Some ''Goal'', sh_isFromInsideBox = Some True\<rparr>], md_events = [\<lparr>ev_card = Some ''Yellow'', ev_localizedKey = None, ev_player_id = Some ''7'', ev_player_name = Some ''P'', ev_isHome = True, ev_timeStr = Some ''30''\<rparr>]\<rparr>)" by simp
  have m: "match_row_of feed_fromisoformat ''1'' (\<lparr>md_matchTimeUTCDate = Some ''2025-01-25T20:00:00.000Z'', md_finished = False, md_leagueName = Some ''Liga'', md_leagueRoundName = Some ''1/4'', md_homeTeam_id = Some ''10'', md_homeTeam_name = Some ''H'', md_awayTeam_id = Some ''20'', md_awayTeam_name = Some ''A'', md_scoreStr = Some ''1 - 0'', md_referee = Some ''R'', md_lineup_homeTeam = \<lparr>tj_id = Some ''10'', tj_starters = [\<lparr>pl_id = Some ''7'', pl_name = Some ''P'', pl_usualPlayingPositionId = Some 3, pl_shirtNumber = Some 9, pl_rating = None, pl_layout_x = None, pl_layout_y = None\<rparr>], tj_subs = []\<rparr>, md_lineup_awayTeam = \<lparr>tj_id = Some ''20'', tj_starters = [], tj_subs = []\<rparr>, md_playerStats = [], md_shots = [\<lparr>sh_playerId = Some ''7'', sh_playerName = Some ''P'', sh_teamId = Some ''10'', sh_min = Some ''12'', sh_isOnTarget = Some True, sh_isBlocked = None, sh_shotType = Some ''Header'', sh_situation = None, sh_eventType = Some ''Goal'', sh_isFromInsideBox = Some True\<rparr>], md_events = [\<lparr>ev_card = Some ''Yellow'', ev_localizedKey = None, ev_player_id = Some ''7'', ev_player_name = Some ''P'', ev_isHome = True, ev_timeStr = Some ''30''\<rparr>]\<rparr>) = \<lparr>m_id = ''1'', m_date = Some ''2025-01-25 17:00:00'', m_finished = False, m_tournament = ''Liga'', m_gameweek = ''18'', m_id_home_team = ''10'', m_home_team = Some ''H'', m_id_away_team = ''20'', m_away_team = Some ''A'', m_score = Some ''1 - 0'', m_referee = Some ''R''\<rparr>"
    by code_simp
  from C7_unfinished_match [OF h, of feed_fromisoformat "''1''" "\<lparr>matches = [\<lparr>m_id = ''1'', m_date = None, m_finished = False, m_tournament = [], m_gameweek = ''18'', m_id_home_team = ''10'', m_home_team = None, m_id_away_team = ''20'', m_away_team = None, m_score = None, m_referee = None\<rparr>, \<lparr>m_id = ''2'', m_date = Some ''2025-01-20 17:00:00'', m_finished = True, m_tournament = ''Liga'', m_gameweek = ''18'', m_id_home_team = ''10'', m_home_team = Some ''H'', m_id_away_team = ''20'', m_away_team = Some ''A'', m_score = Some ''1 - 0'', m_referee = Some ''R''\<rparr>], player_match_details = [], shots = [\<lparr>s_match_id = ''2'', s_player_id = ''7'', s_player_name = Some ''P'', s_team_id = ''10'', s_minute = ''12'', s_on_target = Some True, s_shot_type = Some ''Header'', s_situation = None, s_outcome = Some ''Goal'', s_inside_box = Some True\<rparr>], cards = []\<rparr>"]
  have "load_match_directly feed_fromisoformat ''1'' (Details (\<lparr>md_matchTimeUTCDate = Some ''2025-01-25T20:00:00.000Z'', md_finished = False, md_leagueName = Some ''Liga'', md_leagueRoundName = Some ''1/4'', md_homeTeam_id = Some ''10'', md_homeTeam_name = Some ''H'', md_awayTeam_id = Some ''20'', md_awayTeam_name = Some ''A'', md_scoreStr = Some ''1 - 0'', md_referee = Some ''R'', md_lineup_homeTeam = \<lparr>tj_id = Some ''10'', tj_starters = [\<lparr>pl_id = Some ''7'', pl_name = Some ''P'', pl_usualPlayingPositionId = Some 3, pl_shirtNumber = Some 9, pl_rating = None, pl_layout_x = None, pl_layout_y = None\<rparr>], tj_subs = []\<rparr>, md_lineup_awayTeam = \<lparr>tj_id = Some ''20'', tj_starters = [], tj_subs = []\<rparr>, md_playerStats = [], md_shots = [\<lparr>sh_playerId = Some ''7'', sh_playerName = Some ''P'', sh_teamId = Some ''10'', sh_min = Some ''12'', sh_isOnTarget = Some True, sh_isBlocked = None, sh_shotType = Some ''Header'', sh_situation = None, sh_eventType = Some ''Goal'', sh_isFromInsideBox = Some True\<rparr>], md_events = [\<lparr>ev_card = Some ''Yellow'', ev_localizedKey = None, ev_player_id = Some ''7'', ev_player_name = Some ''P'', ev_isHome = True, ev_timeStr = Some ''30''\<rparr>]\<rparr>)) (\<lparr>matches = [\<lparr>m_id = ''1'', m_date = None, m_finished = False, m_tournament = [], m_gameweek = ''18'', m_id_home_team = ''10'', m_home_team = None, m_id_away_team = ''20'', m_away_team = None, m_score = None, m_referee = None\<rparr>, \<lparr>m_id = ''2'', m_date = Some ''2025-01-20 17:00:00'', m_finished = True, m_tournament = ''Liga'', m_gameweek = ''18'', m_id_home_team = ''10'', m_home_team = Some ''H'', m_id_away_team = ''20'', m_away_team = Some ''A'', m_score = Some ''1 - 0'', m_referee = Some ''R''\<rparr>], player_match_details = [], shots = [\<lparr>s_match_id = ''2'', s_player_id = ''7'', s_player_name = Some ''P'', s_team_id = ''10'', s_minute = ''12'', s_on_target = Some True, s_shot_type = Some ''Header'', s_situation = None, s_outcome = Some ''Goal'', s_inside_box = Some True\<rparr>], cards = []\<rparr>)
     = ((\<lparr>matches = [\<lparr>m_id = ''1'', m_date = None, m_finished = False, m_tournament = [], m_gameweek = ''18'', m_id_home_team = ''10'', m_home_team = None, m_id_away_team = ''20'', m_away_team = None, m_score = None, m_referee = None\<rparr>, \<lparr>m_id = ''2'', m_date = Some ''2025-01-20 17:00:00'', m_finished = True, m_tournament = ''Liga'', m_gameweek = ''18'', m_id_home_team = ''10'', m_home_team = Some ''H'', m_id_away_team = ''20'', m_away_team = Some ''A'', m_score = Some ''1 - 0'', m_referee = Some ''R''\<rparr>], player_match_details = [], shots = [\<lparr>s_match_id = ''2'', s_player_id = ''7'', s_player_name = Some ''P'', s_team_id = ''10'', s_minute = ''12'', s_on_target = Some True, s_shot_type = Some ''Header'', s_situation = None, s_outcome = Some ''Goal'', s_inside_box = Some True\<rparr>], cards = []\<rparr>)\<lparr>matches := filter (\<lambda>m. m_id m \<noteq> ''1'') (matches (\<lparr>matches = [\<lparr>m_id = ''1'', m_date = None, m_finished = False, m_tournament = [], m_gameweek = ''18'', m_id_home_team = ''10'', m_home_team = None, m_id_away_team = ''20'', m_away_team = None, m_score = None, m_referee = None\<rparr>, \<lparr>m_id = ''2'', m_date = Some ''2025-01-20 17:00:00'', m_finished = True, m_tournament = ''Liga'', m_gameweek = ''18'', m_id_home_team = ''10'', m_home_team = Some ''H'', m_id_away_team = ''20'', m_away_team = Some ''A'', m_score = Some ''1 - 0'', m_referee = Some ''R''\<rparr>], player_match_details = [], shots = [\<lparr>s_match_id = ''2'', s_player_id = ''7'', s_player_name = Some ''P'', s_team_id = ''10'', s_minute = ''12'', s_on_target = Some True, s_shot_type = Some ''Header'', s_situation = None, s_outcome = Some ''Goal'', s_inside_box = Some True\<rparr>], cards = []\<rparr>)) @ [match_row_of feed_fromisoformat ''1'' (\<lparr>md_matchTimeUTCDate = Some ''2025-01-25T20:00:00.000Z'', md_finished = False, md_leagueName = Some ''Liga'', md_leagueRoundName = Some ''1/4'', md_homeTeam_id = Some ''10'', md_homeTeam_name = Some ''H'', md_awayTeam_id = Some ''20'', md_awayTeam_name = Some ''A'', md_scoreStr = Some ''1 - 0'', md_referee = Some ''R'', md_lineup_homeTeam = \<lparr>tj_id = Some ''10'', tj_starters = [\<lparr>pl_id = Some ''7'', pl_name = Some ''P'', pl_usualPlayingPositionId = Some 3, pl_shirtNumber = Some 9, pl_rating = None, pl_layout_x = None, pl_layout_y = None\<rparr>], tj_subs = []\<rparr>, md_lineup_awayTeam = \<lparr>tj_id = Some ''20'', tj_starters = [], tj_subs = []\<rparr>, md_playerStats = [], md_shots = [\<lparr>sh_playerId = Some ''7'', sh_playerName = Some ''P'', sh_teamId = Some ''10'', sh_min = Some ''12'', sh_isOnTarget = Some True, sh_isBlocked = None, sh_shotType = Some ''Header'', sh_situation = None, sh_eventType = Some ''Goal'', sh_isFromInsideBox = Some True\<rparr>], md_events = [\<lparr>ev_card = Some ''Yellow'', ev_localizedKey = None, ev_player_id = Some ''7'', ev_player_name = Some ''P'', ev_isHome = True, ev_timeStr = Some ''30''\<rparr>]\<rparr>)]\<rparr>, Info_pending)"
    by (rule conjunct1)
  then show ?thesis unfolding m using h by simp
qed


lemma to_sql_pmd_cong:
  "player_match_details e = player_match_details d \<Longrightarrow>
   to_sql_player_match_details rows d = Inl x \<Longrightarrow> to_sql_player_match_details rows e = Inl x"
  by (simp add: to_sql_player_match_details_def split: if_splits)

lemma to_sql_pmd_stored:
  assumes "rows \<noteq> []" and "to_sql_player_match_details rows d = Inr d'"
  shows "player_match_details d' = player_match_details d @ rows"
    and "shots d' = shots d" and "cards d' = cards d" and "matches d' = matches d"
  using assms(2) by (auto simp add: to_sql_player_match_details_def split: if_splits)

lemma to_sql_pmd_repeat:
  assumes "rows \<noteq> []" and "player_match_details e = player_match_details d @ rows"
  shows "to_sql_player_match_details rows e = Inl IntegrityError"
proof -
  from assms(1) obtain p ps where r: "rows = p # ps" by (cases rows) auto
  have "pmd_key p \<in> set (map pmd_key (player_match_details e))"
    unfolding assms(2) r by simp
  then have "\<not> list_all (\<lambda>p. pmd_key p \<notin> set (map pmd_key (player_match_details e))) rows"
    unfolding r by simp
  then show ?thesis by (simp add: to_sql_player_match_details_def)
qed

text \<open>The second run of a finished match with appearance rows stops at the primary key.\<close>

lemma reingest_with_players:
  assumes "md_finished r" and "player_rows match_id r \<noteq> []"
  shows "load_match_directly parse match_id (Details r)
           (fst (load_match_directly parse match_id (Details r) d))
         = (insert_or_replace_match (match_row_of parse match_id r)
              (fst (load_match_directly parse match_id (Details r) d)),
            Error_processing IntegrityError)"
proof -
  let ?row = "match_row_of parse match_id r"
  let ?rows = "player_rows match_id r"
  let ?d1 = "insert_or_replace_match ?row d"
  let ?once = "fst (load_match_directly parse match_id (Details r) d)"
  have k: "to_sql_player_match_details ?rows (insert_or_replace_match ?row ?once) = Inl IntegrityError"
  proof (cases "to_sql_player_match_details ?rows ?d1")
    case (Inl x)
    then have x: "x = IntegrityError"
      by (simp add: to_sql_player_match_details_def split: if_splits)
    from Inl have "?once = ?d1"
      using assms by (simp add: load_match_directly_def)
    then have "player_match_details (insert_or_replace_match ?row ?once) = player_match_details ?d1"
      by (simp add: insert_or_replace_children)
    from to_sql_pmd_cong [OF this Inl] x show ?thesis by simp
  next
    case (Inr d2)
    have "player_match_details ?once = player_match_details d2"
      using assms Inr
      by (simp add: load_match_directly_def Let_def to_sql_shots_def to_sql_cards_def)
    also have "\<dots> = player_match_details ?d1 @ ?rows"
      by (rule to_sql_pmd_stored(1) [OF assms(2) Inr])
    finally have "player_match_details (insert_or_replace_match ?row ?once)
        = player_match_details ?d1 @ ?rows"
      by (simp add: insert_or_replace_children)
    then show ?thesis by (rule to_sql_pmd_repeat [OF assms(2)])
  qed
  show ?thesis
    using assms k by (simp add: load_match_directly_def [of parse match_id "Details r" ?once])
qed

lemma ingest_without_players:
  assumes "md_finished r" and "player_rows match_id r = []"
  shows "player_match_details (fst (load_match_directly parse match_id (Details r) d)) = player_match_details d"
    and "shots (fst (load_match_directly parse match_id (Details r) d)) = shots d @ shot_rows match_id r"
    and "cards (fst (load_match_directly parse match_id (Details r) d)) = cards d @ card_rows match_id r"
  using assms
  by (simp_all add: load_match_directly_def Let_def to_sql_shots_def to_sql_cards_def
      insert_or_replace_children)


text \<open>
  C3, as the code has it. For a finished match whose details yield at least one appearance
  row, a second ingestion leaves the three child tables as the first one left them: the
  repeated bulk insert of the appearances violates the primary key and the call is
  abandoned before the shots and cards. For a finished match whose details yield no
  appearance row, the second ingestion appends the shot rows and the card rows once more.
\<close>

theorem C3_reingestion:
  assumes "md_finished r"
  shows "(player_rows match_id r \<noteq> [] \<longrightarrow>
            player_match_details (fst (load_match_directly parse match_id (Details r)
                (fst (load_match_directly parse match_id (Details r) d))))
              = player_match_details (fst (load_match_directly parse match_id (Details r) d))
          \<and> shots (fst (load_match_directly parse match_id (Details r)
                (fst (load_match_directly parse match_id (Details r) d))))
              = shots (fst (load_match_directly parse match_id (Details r) d))
          \<and> cards (fst (load_match_directly parse match_id (Details r)
                (fst (load_match_directly parse match_id (Details r) d))))
              = cards (fst (load_match_directly parse match_id (Details r) d)))
       \<and> (player_rows match_id r = [] \<longrightarrow>
            length (player_match_details (fst (load_match_directly parse match_id (Details r)
                (fst (load_match_directly parse match_id (Details r) d)))))
              = length (player_match_details (fst (load_match_directly parse match_id (Details r) d)))
          \<and> length (shots (fst (load_match_directly parse match_id (Details r)
                (fst (load_match_directly parse match_id (Details r) d)))))
              = length (shots (fst (load_match_directly parse match_id (Details r) d)))
                + length (shot_rows match_id r)
          \<and> length (cards (fst (load_match_directly parse match_id (Details r)
                (fst (load_match_directly parse match_id (Details r) d)))))
              = length (cards (fst (load_match_directly parse match_id (Details r) d)))
                + length (card_rows match_id r))"
proof (intro conjI impI)
  assume p: "player_rows match_id r \<noteq> []"
  note e = reingest_with_players [OF assms p, of parse d]
  show "player_match_details (fst (load_match_directly parse match_id (Details r)
                (fst (load_match_directly parse match_id (Details r) d))))
              = player_match_details (fst (load_match_directly parse match_id (Details r) d))"
    unfolding e by (simp add: insert_or_replace_children)
  show "shots (fst (load_match_directly parse match_id (Details r)
                (fst (load_match_directly parse match_id (Details r) d))))
              = shots (fst (load_match_directly parse match_id (Details r) d))"
    unfolding e by (simp add: insert_or_replace_children)
  show "cards (fst (load_match_directly parse match_id (Details r)
                (fst (load_match_directly parse match_id (Details r) d))))
              = cards (fst (load_match_directly parse match_id (Details r) d))"
    unfolding e by (simp add: insert_or_replace_children)
next
  assume p: "player_rows match_id r = []"
  show "length (player_match_details (fst (load_match_directly parse match_id (Details r)
                (fst (load_match_directly parse match_id (Details r) d)))))
              = length (player_match_details (fst (load_match_directly parse match_id (Details r) d)))"
    by (simp add: ingest_without_players(1) [OF assms p])
  show "length (shots (fst (load_match_directly parse match_id (Details r)
                (fst (load_match_directly parse match_id (Details r) d)))))
              = length (shots (fst (load_match_directly parse match_id (Details r) d)))
                + length (shot_rows match_id r)"
    by (simp add: ingest_without_players(2) [OF assms p])
  show "length (cards (fst (load_match_directly parse match_id (Details r)
                (fst (load_match_directly parse match_id (Details r) d)))))
              = length (cards (fst (load_match_directly parse match_id (Details r) d)))
                + length (card_rows match_id r)"
    by (simp add: ingest_without_players(3) [OF assms p])
qed

theorem C3_reingestion_witness:
  "md_finished (\<lparr>md_matchTimeUTCDate = None, md_finished = True, md_leagueName = Some ''Liga'', md_leagueRoundName = Some ''1/4'', md_homeTeam_id = Some ''10'', md_homeTeam_name = Some ''H'', md_awayTeam_id = Some ''20'', md_awayTeam_name = Some ''A'', md_scoreStr = Some ''1 - 0'', md_referee = Some ''R'', md_lineup_homeTeam = \<lparr>tj_id = Some ''10'', tj_starters = [\<lparr>pl_id = Some ''7'', pl_name = Some ''P'', pl_usualPlayingPositionId = Some 3, pl_shirtNumber = Some 9, pl_rating = None, pl_layout_x = None, pl_layout_y = None\<rparr>], tj_subs = []\<rparr>, md_lineup_awayTeam = \<lparr>tj_id = Some ''20'', tj_starters = [], tj_subs = []\<rparr>, md_playerStats = [], md_shots = [\<lparr>sh_playerId = Some ''7'', sh_playerName = Some ''P'', sh_teamId = Some ''10'', sh_min = Some ''12'', sh_isOnTarget = Some True, sh_isBlocked = None, sh_shotType = Some ''Header'', sh_situation = None, sh_eventType = Some ''Goal'', sh_isFromInsideBox = Some True\<rparr>], md_events = [\<lparr>ev_card = Some ''Yellow'', ev_localizedKey = None, ev_player_id = Some ''7'', ev_player_name = Some ''P'', ev_isHome = True, ev_timeStr = Some ''30''\<rparr>]\<rparr>)
   \<and> player_rows ''1'' (\<lparr>md_matchTimeUTCDate = None, md_finished = True, md_leagueName = Some ''Liga'', md_leagueRoundName = Some ''1/4'', md_homeTeam_id = Some ''10'', md_homeTeam_name = Some ''H'', md_awayTeam_id = Some ''20'', md_awayTeam_name = Some ''A'', md_scoreStr = Some ''1 - 0'', md_referee = Some ''R'', md_lineup_homeTeam = \<lparr>tj_id = Some ''10'', tj_starters = [\<lparr>pl_id = Some ''7'', pl_name = Some ''P'', pl_usualPlayingPositionId = Some 3, pl_shirtNumber = Some 9, pl_rating = None, pl_layout_x = None, pl_layout_y = None\<rparr>], tj_subs = []\<rparr>, md_lineup_awayTeam = \<lparr>tj_id = Some ''20'', tj_starters = [], tj_subs = []\<rparr>, md_playerStats = [], md_shots = [\<lparr>sh_playerId = Some ''7'', sh_playerName = Some ''P'', sh_teamId = Some ''10'', sh_min = Some ''12'', sh_isOnTarget = Some True, sh_isBlocked = None, sh_shotType = Some ''Header'', sh_situation = None, sh_eventType = Some ''Goal'', sh_isFromInsideBox = Some True\<rparr>], md_events = [\<lparr>ev_card = Some ''Yellow'', ev_localizedKey = None, ev_player_id = Some ''7'', ev_player_name = Some ''P'', ev_isHome = True, ev_timeStr = Some ''30''\<rparr>]\<rparr>) \<noteq> []
   \<and> length (player_match_details (fst (load_match_directly feed_fromisoformat ''1'' (Details (\<lparr>md_matchTimeUTCDate = None, md_finished = True, md_leagueName = Some ''Liga'', md_leagueRoundName = Some ''1/4'', md_homeTeam_id = Some ''10'', md_homeTeam_name = Some ''H'', md_awayTeam_id = Some ''20'', md_awayTeam_name = Some ''A'', md_scoreStr = Some ''1 - 0'', md_referee = Some ''R'', md_lineup_homeTeam = \<lparr>tj_id = Some ''10'', tj_starters = [\<lparr>pl_id = Some ''7'', pl_name = Some ''P'', pl_usualPlayingPositionId = Some 3, pl_shirtNumber = Some 9, pl_rating = None, pl_layout_x = None, pl_layout_y = None\<rparr>], tj_subs = []\<rparr>, md_lineup_awayTeam = \<lparr>tj_id = Some ''20'', tj_starters = [], tj_subs = []\<rparr>, md_playerStats = [], md_shots = [\<lparr>sh_playerId = Some ''7'', sh_playerName = Some ''P'', sh_teamId = Some ''10'', sh_min = Some ''12'', sh_isOnTarget = Some True, sh_isBlocked = None, sh_shotType = Some ''Header'', sh_situation = None, sh_eventType = Some ''Goal'', sh_isFromInsideBox = Some True\<rparr>], md_events = [\<lparr>ev_card = Some ''Yellow'', ev_localizedKey = None, ev_player_id = Some ''7'', ev_player_name = Some ''P'', ev_isHome = True, ev_timeStr = Some ''30''\<rparr>]\<rparr>)) (\<lparr>matches = [], player_match_details = [], shots = [], cards = []\<rparr>)))) = 1
   \<and> length (player_match_details (fst (load_match_directly feed_fromisoformat ''1'' (Details (\<lparr>md_matchTimeUTCDate = None, md_finished = True, md_leagueName = Some ''Liga'', md_leagueRoundName = Some ''1/4'', md_homeTeam_id = Some ''10'', md_homeTeam_name = Some ''H'', md_awayTeam_id = Some ''20'', md_awayTeam_name = Some ''A'', md_scoreStr = Some ''1 - 0'', md_referee = Some ''R'', md_lineup_homeTeam = \<lparr>tj_id = Some ''10'', tj_starters = [\<lparr>pl_id = Some ''7'', pl_name = Some ''P'', pl_usualPlayingPositionId = Some 3, pl_shirtNumber = Some 9, pl_rating = None, pl_layout_x = None, pl_layout_y = None\<rparr>], tj_subs = []\<rparr>, md_lineup_awayTeam = \<lparr>tj_id = Some ''20'', tj_starters = [], tj_subs = []\<rparr>, md_playerStats = [], md_shots = [\<lparr>sh_playerId = Some ''7'', sh_playerName = Some ''P'', sh_teamId = Some ''10'', sh_min = Some ''12'', sh_isOnTarget = Some True, sh_isBlocked = None, sh_shotType = Some ''Header'', sh_situation = None, sh_eventType = Some ''Goal'', sh_isFromInsideBox = Some True\<rparr>], md_events = [\<lparr>ev_card = Some ''Yellow'', ev_localizedKey = None, ev_player_id = Some ''7'', ev_player_name = Some ''P'', ev_isHome = True, ev_timeStr = Some ''30''\<rparr>]\<rparr>)) (fst (load_match_directly feed_fromisoformat ''1'' (Details (\<lparr>md_matchTimeUTCDate = None, md_finished = True, md_leagueName = Some ''Liga'', md_leagueRoundName = Some ''1/4'', md_homeTeam_id = Some ''10'', md_homeTeam_name = Some ''H'', md_awayTeam_id = Some ''20'', md_awayTeam_name = Some ''A'', md_scoreStr = Some ''1 - 0'', md_referee = Some ''R'', md_lineup_homeTeam = \<lparr>tj_id = Some ''10'', tj_starters = [\<lparr>pl_id = Some ''7'', pl_name = Some ''P'', pl_usualPlayingPositionId = Some 3, pl_shirtNumber = Some 9, pl_rating = None, pl_layout_x = None, pl_layout_y = None\<rparr>], tj_subs = []\<rparr>, md_lineup_awayTeam = \<lparr>tj_id = Some ''20'', tj_starters = [], tj_subs = []\<rparr>, md_playerStats = [], md_shots = [\<lparr>sh_playerId = Some ''7'', sh_playerName = Some ''P'', sh_teamId = Some ''10'', sh_min = Some ''12'', sh_isOnTarget = Some True, sh_isBlocked = None, sh_shotType = Some ''Header'', sh_situation = None, sh_eventType = Some ''Goal'', sh_isFromInsideBox = Some True\<rparr>], md_events = [\<lparr>ev_card = Some ''Yellow'', ev_localizedKey = None, ev_player_id = Some ''7'', ev_player_name = Some ''P'', ev_isHome = True, ev_timeStr = Some ''30''\<rparr>]\<rparr>)) (\<lparr>matches = [], player_match_details = [], shots = [], cards = []\<rparr>)))))) = 1
   \<and> length (shots (fst (load_match_directly feed_fromisoformat ''1'' (Details (\<lparr>md_matchTimeUTCDate = None, md_finished = True, md_leagueName = Some ''Liga'', md_leagueRoundName = Some ''1/4'', md_homeTeam_id = Some ''10'', md_homeTeam_name = Some ''H'', md_awayTeam_id = Some ''20'', md_awayTeam_name = Some ''A'', md_scoreStr = Some ''1 - 0'', md_referee = Some ''R'', md_lineup_homeTeam = \<lparr>tj_id = Some ''10'', tj_starters = [\<lparr>pl_id = Some ''7'', pl_name = Some ''P'', pl_usualPlayingPositionId = Some 3, pl_shirtNumber = Some 9, pl_rating = None, pl_layout_x = None, pl_layout_y = None\<rparr>], tj_subs = []\<rparr>, md_lineup_awayTeam = \<lparr>tj_id = Some ''20'', tj_starters = [], tj_subs = []\<rparr>, md_playerStats = [], md_shots = [\<lparr>sh_playerId = Some ''7'', sh_playerName = Some ''P'', sh_teamId = Some ''10'', sh_min = Some ''12'', sh_isOnTarget = Some True, sh_isBlocked = None, sh_shotType = Some ''Header'', sh_situation = None, sh_eventType = Some ''Goal'', sh_isFromInsideBox = Some True\<rparr>], md_events = [\<lparr>ev_card = Some ''Yellow'', ev_localizedKey = None, ev_player_id = Some ''7'', ev_player_name = Some ''P'', ev_isHome = True, ev_timeStr = Some ''30''\<rparr>]\<rparr>)) (fst (load_match_directly feed_fromisoformat ''1'' (Details (\<lparr>md_matchTimeUTCDate = None, md_finished = True, md_leagueName = Some ''Liga'', md_leagueRoundName = Some ''1/4'', md_homeTeam_id = Some ''10'', md_homeTeam_name = Some ''H'', md_awayTeam_id = Some ''20'', md_awayTeam_name = Some ''A'', md_scoreStr = Some ''1 - 0'', md_referee = Some ''R'', md_lineup_homeTeam = \<lparr>tj_id = Some ''10'', tj_starters = [\<lparr>pl_id = Some ''7'', pl_name = Some ''P'', pl_usualPlayingPositionId = Some 3, pl_shirtNumber = Some 9, pl_rating = None, pl_layout_x = None, pl_layout_y = None\<rparr>], tj_subs = []\<rparr>, md_lineup_awayTeam = \<lparr>tj_id = Some ''20'', tj_starters = [], tj_subs = []\<rparr>, md_playerStats = [], md_shots = [\<lparr>sh_playerId = Some ''7'', sh_playerName = Some ''P'', sh_teamId = Some ''10'', sh_min = Some ''12'', sh_isOnTarget = Some True, sh_isBlocked = None, sh_shotType = Some ''Header'', sh_situation = None, sh_eventType = Some ''Goal'', sh_isFromInsideBox = Some True\<rparr>], md_events = [\<lparr>ev_card = Some ''Yellow'', ev_localizedKey = None, ev_player_id = Some ''7'', ev_player_name = Some ''P'', ev_isHome = True, ev_timeStr = Some ''30''\<rparr>]\<rparr>)) (\<lparr>matches = [], player_match_details = [], shots = [], cards = []\<rparr>)))))) = 1
   \<and> length (cards (fst (load_match_directly feed_fromisoformat ''1'' (Details (\<lparr>md_matchTimeUTCDate = None, md_finished = True, md_leagueName = Some ''Liga'', md_leagueRoundName = Some ''1/4'', md_homeTeam_id = Some ''10'', md_homeTeam_name = Some ''H'', md_awayTeam_id = Some ''20'', md_awayTeam_name = Some ''A'', md_scoreStr = Some ''1 - 0'', md_referee = Some ''R'', md_lineup_homeTeam = \<lparr>tj_id = Some ''10'', tj_starters = [\<lparr>pl_id = Some ''7'', pl_name = Some ''P'', pl_usualPlayingPositionId = Some 3, pl_shirtNumber = Some 9, pl_rating = None, pl_layout_x = None, pl_layout_y = None\<rparr>], tj_subs = []\<rparr>, md_lineup_awayTeam = \<lparr>tj_id = Some ''20'', tj_starters = [], tj_subs = []\<rparr>, md_playerStats = [], md_shots = [\<lparr>sh_playerId = Some ''7'', sh_playerName = Some ''P'', sh_teamId = Some ''10'', sh_min = Some ''12'', sh_isOnTarget = Some True, sh_isBlocked = None, sh_shotType = Some ''Header'', sh_situation = None, sh_eventType = Some ''Goal'', sh_isFromInsideBox = Some True\<rparr>], md_events = [\<lparr>ev_card = Some ''Yellow'', ev_localizedKey = None, ev_player_id = Some ''7'', ev_player_name = Some ''P'', ev_isHome = True, ev_timeStr = Some ''30''\<rparr>]\<rparr>)) (fst (load_match_directly feed_fromisoformat ''1'' (Details (\<lparr>md_matchTimeUTCDate = None, md_finished = True, md_leagueName = Some ''Liga'', md_leagueRoundName = Some ''1/4'', md_homeTeam_id = Some ''10'', md_homeTeam_name = Some ''H'', md_awayTeam_id = Some ''20'', md_awayTeam_name = Some ''A'', md_scoreStr = Some ''1 - 0'', md_referee = Some ''R'', md_lineup_homeTeam = \<lparr>tj_id = Some ''10'', tj_starters = [\<lparr>pl_id = Some ''7'', pl_name = Some ''P'', pl_usualPlayingPositionId = Some 3, pl_shirtNumber = Some 9, pl_rating = None, pl_layout_x = None, pl_layout_y = None\<rparr>], tj_subs = []\<rparr>, md_lineup_awayTeam = \<lparr>tj_id = Some ''20'', tj_starters = [], tj_subs = []\<rparr>, md_playerStats = [], md_shots = [\<lparr>sh_playerId = Some ''7'', sh_playerName = Some ''P'', sh_teamId = Some ''10'', sh_min = Some ''12'', sh_isOnTarget = Some True, sh_isBlocked = None, sh_shotType = Some ''Header'', sh_situation = None, sh_eventType = Some ''Goal'', sh_isFromInsideBox = Some True\<rparr>], md_events = [\<lparr>ev_card = Some ''Yellow'', ev_localizedKey = None, ev_player_id = Some ''7'', ev_player_name = Some ''P'', ev_isHome = True, ev_timeStr = Some ''30''\<rparr>]\<rparr>)) (\<lparr>matches = [], player_match_details = [], shots = [], cards = []\<rparr>)))))) = 1
   \<and> player_rows ''1'' (\<lparr>md_matchTimeUTCDate = None, md_finished = True, md_leagueName = Some ''Liga'', md_leagueRoundName = Some ''1/4'', md_homeTeam_id = Some ''10'', md_homeTeam_name = Some ''H'', md_awayTeam_id = Some ''20'', md_awayTeam_name = Some ''A'', md_scoreStr = Some ''1 - 0'', md_referee = Some ''R'', md_lineup_homeTeam = \<lparr>tj_id = Some ''10'', tj_starters = [], tj_subs = []\<rparr>, md_lineup_awayTeam = \<lparr>tj_id = Some ''20'', tj_starters = [], tj_subs = []\<rparr>, md_playerStats = [], md_shots = [\<lparr>sh_playerId = Some ''7'', sh_playerName = Some ''P'', sh_teamId = Some ''10'', sh_min = Some ''12'', sh_isOnTarget = Some True, sh_isBlocked = None, sh_shotType = Some ''Header'', sh_situation = None, sh_eventType = Some ''Goal'', sh_isFromInsideBox = Some True\<rparr>], md_events = []\<rparr>) = []
   \<and> length (shots (fst (load_match_directly feed_fromisoformat ''1'' (Details (\<lparr>md_matchTimeUTCDate = None, md_finished = True, md_leagueName = Some ''Liga'', md_leagueRoundName = Some ''1/4'', md_homeTeam_id = Some ''10'', md_homeTeam_name = Some ''H'', md_awayTeam_id = Some ''20'', md_awayTeam_name = Some ''A'', md_scoreStr = Some ''1 - 0'', md_referee = Some ''R'', md_lineup_homeTeam = \<lparr>tj_id = Some ''10'', tj_starters = [], tj_subs = []\<rparr>, md_lineup_awayTeam = \<lparr>tj_id = Some ''20'', tj_starters = [], tj_subs = []\<rparr>, md_playerStats = [], md_shots = [\<lparr>sh_playerId = Some ''7'', sh_playerName = Some ''P'', sh_teamId = Some ''10'', sh_min = Some ''12'', sh_isOnTarget = Some True, sh_isBlocked = None, sh_shotType = Some ''Header'', sh_situation = None, sh_eventType = Some ''Goal'', sh_isFromInsideBox = Some True\<rparr>], md_events = []\<rparr>)) (fst (load_match_directly feed_fromisoformat ''1'' (Details (\<lparr>md_matchTimeUTCDate = None, md_finished = True, md_leagueName = Some ''Liga'', md_leagueRoundName = Some ''1/4'', md_homeTeam_id = Some ''10'', md_homeTeam_name = Some ''H'', md_awayTeam_id = Some ''20'', md_awayTeam_name = Some ''A'', md_scoreStr = Some ''1 - 0'', md_referee = Some ''R'', md_lineup_homeTeam = \<lparr>tj_id = Some ''10'', tj_starters = [], tj_subs = []\<rparr>, md_lineup_awayTeam = \<lparr>tj_id = Some ''20'', tj_starters = [], tj_subs = []\<rparr>, md_playerStats = [], md_shots = [\<lparr>sh_playerId = Some ''7'', sh_playerName = Some ''P'', sh_teamId = Some ''10'', sh_min = Some ''12'', sh_isOnTarget = Some True, sh_isBlocked = None, sh_shotType = Some ''Header'', sh_situation = None, sh_eventType = Some ''Goal'', sh_isFromInsideBox = Some True\<rparr>], md_events = []\<rparr>)) (\<lparr>matches = [], player_match_details = [], shots = [], cards = []\<rparr>)))))) = length (shots (fst (load_match_directly feed_fromisoformat ''1'' (Details (\<lparr>md_matchTimeUTCDate = None, md_finished = True, md_leagueName = Some ''Liga'', md_leagueRoundName = Some ''1/4'', md_homeTeam_id = Some ''10'', md_homeTeam_name = Some ''H'', md_awayTeam_id = Some ''20'', md_awayTeam_name = Some ''A'', md_scoreStr = Some ''1 - 0'', md_referee = Some ''R'', md_lineup_homeTeam = \<lparr>tj_id = Some ''10'', tj_starters = [], tj_subs = []\<rparr>, md_lineup_awayTeam = \<lparr>tj_id = Some ''20'', tj_starters = [], tj_subs = []\<rparr>, md_playerStats = [], md_shots = [\<lparr>sh_playerId = Some ''7'', sh_playerName = Some ''P'', sh_teamId = Some ''10'', sh_min = Some ''12'', sh_isOnTarget = Some True, sh_isBlocked = None, sh_shotType = Some ''Header'', sh_situation = None, sh_eventType = Some ''Goal'', sh_isFromInsideBox = Some True\<rparr>], md_events = []\<rparr>)) (\<lparr>matches = [], player_match_details = [], shots = [], cards = []\<rparr>)))) + 1"
proof -
  have f: "md_finished (\<lparr>md_matchTimeUTCDate = None, md_finished = True, md_leagueName = Some ''Liga'', md_leagueRoundName = Some ''1/4'', md_homeTeam_id = Some ''10'', md_homeTeam_name = Some ''H'', md_awayTeam_id = Some ''20'', md_awayTeam_name = Some ''A'', md_scoreStr = Some ''1 - 0'', md_referee = Some ''R'', md_lineup_homeTeam = \<lparr>tj_id = Some ''10'', tj_starters = [\<lparr>pl_id = Some ''7'', pl_name = Some ''P'', pl_usualPlayingPositionId = Some 3, pl_shirtNumber = Some 9, pl_rating = None, pl_layout_x = None, pl_layout_y = None\<rparr>], tj_subs = []\<rparr>, md_lineup_awayTeam = \<lparr>tj_id = Some ''20'', tj_starters = [], tj_subs = []\<rparr>, md_playerStats = [], md_shots = [\<lparr>sh_playerId = Some ''7'', sh_playerName = Some ''P'', sh_teamId = Some ''10'', sh_min = Some ''12'', sh_isOnTarget = Some True, sh_isBlocked = None, sh_shotType = Some ''Header'', sh_situation = None, sh_eventType = Some ''Goal'', sh_isFromInsideBox = Some True\<rparr>], md_events = [\<lparr>ev_card = Some ''Yellow'', ev_localizedKey = None, ev_player_id = Some ''7'', ev_player_name = Some ''P'', ev_isHome = True, ev_timeStr = Some ''30''\<rparr>]\<rparr>)" by simp
  have p: "player_rows ''1'' (\<lparr>md_matchTimeUTCDate = None, md_finished = True, md_leagueName = Some ''Liga'', md_leagueRoundName = Some ''1/4'', md_homeTeam_id = Some ''10'', md_homeTeam_name = Some ''H'', md_awayTeam_id = Some ''20'', md_awayTeam_name = Some ''A'', md_scoreStr = Some ''1 - 0'', md_referee = Some ''R'', md_lineup_homeTeam = \<lparr>tj_id = Some ''10'', tj_starters = [\<lparr>pl_id = Some ''7'', pl_name = Some ''P'', pl_usualPlayingPositionId = Some 3, pl_shirtNumber = Some 9, pl_rating = None, pl_layout_x = None, pl_layout_y = None\<rparr>], tj_subs = []\<rparr>, md_lineup_awayTeam = \<lparr>tj_id = Some ''20'', tj_starters = [], tj_subs = []\<rparr>, md_playerStats = [], md_shots = [\<lparr>sh_playerId = Some ''7'', sh_playerName = Some ''P'', sh_teamId = Some ''10'', sh_min = Some ''12'', sh_isOnTarget = Some True, sh_isBlocked = None, sh_shotType = Some ''Header'', sh_situation = None, sh_eventType = Some ''Goal'', sh_isFromInsideBox = Some True\<rparr>], md_events = [\<lparr>ev_card = Some ''Yellow'', ev_localizedKey = None, ev_player_id = Some ''7'', ev_player_name = Some ''P'', ev_isHome = True, ev_timeStr = Some ''30''\<rparr>]\<rparr>) \<noteq> []" by code_simp
  have o: "length (player_match_details (fst (load_match_directly feed_fromisoformat ''1'' (Details (\<lparr>md_matchTimeUTCDate = None, md_finished = True, md_leagueName = Some ''Liga'', md_leagueRoundName = Some ''1/4'', md_homeTeam_id = Some ''10'', md_homeTeam_name = Some ''H'', md_awayTeam_id = Some ''20'', md_awayTeam_name = Some ''A'', md_scoreStr = Some ''1 - 0'', md_referee = Some ''R'', md_lineup_homeTeam = \<lparr>tj_id = Some ''10'', tj_starters = [\<lparr>pl_id = Some ''7'', pl_name = Some ''P'', pl_usualPlayingPositionId = Some 3, pl_shirtNumber = Some 9, pl_rating = None, pl_layout_x = None, pl_layout_y = None\<rparr>], tj_subs = []\<rparr>, md_lineup_awayTeam = \<lparr>tj_id = Some ''20'', tj_starters = [], tj_subs = []\<rparr>, md_playerStats = [], md_shots = [\<lparr>sh_playerId = Some ''7'', sh_playerName = Some ''P'', sh_teamId = Some ''10'', sh_min = Some ''12'', sh_isOnTarget = Some True, sh_isBlocked = None, sh_shotType = Some ''Header'', sh_situation = None, sh_eventType = Some ''Goal'', sh_isFromInsideBox = Some True\<rparr>], md_events = [\<lparr>ev_card = Some ''Yellow'', ev_localizedKey = None, ev_player_id = Some ''7'', ev_player_name = Some ''P'', ev_isHome = True, ev_timeStr = Some ''30''\<rparr>]\<rparr>)) (\<lparr>matches = [], player_match_details = [], shots = [], cards = []\<rparr>)))) = 1
     \<and> length (shots (fst (load_match_directly feed_fromisoformat ''1'' (Details (\<lparr>md_matchTimeUTCDate = None, md_finished = True, md_leagueName = Some ''Liga'', md_leagueRoundName = Some ''1/4'', md_homeTeam_id = Some ''10'', md_homeTeam_name = Some ''H'', md_awayTeam_id = Some ''20'', md_awayTeam_name = Some ''A'', md_scoreStr = Some ''1 - 0'', md_referee = Some ''R'', md_lineup_homeTeam = \<lparr>tj_id = Some ''10'', tj_starters = [\<lparr>pl_id = Some ''7'', pl_name = Some ''P'', pl_usualPlayingPositionId = Some 3, pl_shirtNumber = Some 9, pl_rating = None, pl_layout_x = None, pl_layout_y = None\<rparr>], tj_subs = []\<rparr>, md_lineup_awayTeam = \<lparr>tj_id = Some ''20'', tj_starters = [], tj_subs = []\<rparr>, md_playerStats = [], md_shots = [\<lparr>sh_playerId = Some ''7'', sh_playerName = Some ''P'', sh_teamId = Some ''10'', sh_min = Some ''12'', sh_isOnTarget = Some True, sh_isBlocked = None, sh_shotType = Some ''Header'', sh_situation = None, sh_eventType = Some ''Goal'', sh_isFromInsideBox = Some True\<rparr>], md_events = [\<lparr>ev_card = Some ''Yellow'', ev_localizedKey = None, ev_player_id = Some ''7'', ev_player_name = Some ''P'', ev_isHome = True, ev_timeStr = Some ''30''\<rparr>]\<rparr>)) (\<lparr>matches = [], player_match_details = [], shots = [], cards = []\<rparr>)))) = 1
     \<and> length (cards (fst (load_match_directly feed_fromisoformat ''1'' (Details (\<lparr>md_matchTimeUTCDate = None, md_finished = True, md_leagueName = Some ''Liga'', md_leagueRoundName = Some ''1/4'', md_homeTeam_id = Some ''10'', md_homeTeam_name = Some ''H'', md_awayTeam_id = Some ''20'', md_awayTeam_name = Some ''A'', md_scoreStr = Some ''1 - 0'', md_referee = Some ''R'', md_lineup_homeTeam = \<lparr>tj_id = Some ''10'', tj_starters = [\<lparr>pl_id = Some ''7'', pl_name = Some ''P'', pl_usualPlayingPositionId = Some 3, pl_shirtNumber = Some 9, pl_rating = None, pl_layout_x = None, pl_layout_y = None\<rparr>], tj_subs = []\<rparr>, md_lineup_awayTeam = \<lparr>tj_id = Some ''20'', tj_starters = [], tj_subs = []\<rparr>, md_playerStats = [], md_shots = [\<lparr>sh_playerId = Some ''7'', sh_playerName = Some ''P'', sh_teamId = Some ''10'', sh_min = Some ''12'', sh_isOnTarget = Some True, sh_isBlocked = None, sh_shotType = Some ''Header'', sh_situation = None, sh_eventType = Some ''Goal'', sh_isFromInsideBox = Some True\<rparr>], md_events = [\<lparr>ev_card = Some ''Yellow'', ev_localizedKey = None, ev_player_id = Some ''7'', ev_player_name = Some ''P'', ev_isHome = True, ev_timeStr = Some ''30''\<rparr>]\<rparr>)) (\<lparr>matches = [], player_match_details = [], shots = [], cards = []\<rparr>)))) = 1"
    by code_simp
  have f': "md_finished (\<lparr>md_matchTimeUTCDate = None, md_finished = True, md_leagueName = Some ''Liga'', md_leagueRoundName = Some ''1/4'', md_homeTeam_id = Some ''10'', md_homeTeam_name = Some ''H'', md_awayTeam_id = Some ''20'', md_awayTeam_name = Some ''A'', md_scoreStr = Some ''1 - 0'', md_referee = Some ''R'', md_lineup_homeTeam = \<lparr>tj_id = Some ''10'', tj_starters = [], tj_subs = []\<rparr>, md_lineup_awayTeam = \<lparr>tj_id = Some ''20'', tj_starters = [], tj_subs = []\<rparr>, md_playerStats = [], md_shots = [\<lparr>sh_playerId = Some ''7'', sh_playerName = Some ''P'', sh_teamId = Some ''10'', sh_min = Some ''12'', sh_isOnTarget = Some True, sh_isBlocked = None, sh_shotType = Some ''Header'', sh_situation = None, sh_eventType = Some ''Goal'', sh_isFromInsideBox = Some True\<rparr>], md_events = []\<rparr>)" by simp
  have p': "player_rows ''1'' (\<lparr>md_matchTimeUTCDate = None, md_finished = True, md_leagueName = Some ''Liga'', md_leagueRoundName = Some ''1/4'', md_homeTeam_id = Some ''10'', md_homeTeam_name = Some ''H'', md_awayTeam_id = Some ''20'', md_awayTeam_name = Some ''A'', md_scoreStr = Some ''1 - 0'', md_referee = Some ''R'', md_lineup_homeTeam = \<lparr>tj_id = Some ''10'', tj_starters = [], tj_subs = []\<rparr>, md_lineup_awayTeam = \<lparr>tj_id = Some ''20'', tj_starters = [], tj_subs = []\<rparr>, md_playerStats = [], md_shots = [\<lparr>sh_playerId = Some ''7'', sh_playerName = Some ''P'', sh_teamId = Some ''10'', sh_min = Some ''12'', sh_isOnTarget = Some True, sh_isBlocked = None, sh_shotType = Some ''Header'', sh_situation = None, sh_eventType = Some ''Goal'', sh_isFromInsideBox = Some True\<rparr>], md_events = []\<rparr>) = []" by code_simp
  have s': "length (shot_rows ''1'' (\<lparr>md_matchTimeUTCDate = None, md_finished = True, md_leagueName = Some ''Liga'', md_leagueRoundName = Some ''1/4'', md_homeTeam_id = Some ''10'', md_homeTeam_name = Some ''H'', md_awayTeam_id = Some ''20'', md_awayTeam_name = Some ''A'', md_scoreStr = Some ''1 - 0'', md_referee = Some ''R'', md_lineup_homeTeam = \<lparr>tj_id = Some ''10'', tj_starters = [], tj_subs = []\<rparr>, md_lineup_awayTeam = \<lparr>tj_id = Some ''20'', tj_starters = [], tj_subs = []\<rparr>, md_playerStats = [], md_shots = [\<lparr>sh_playerId = Some ''7'', sh_playerName = Some ''P'', sh_teamId = Some ''10'', sh_min = Some ''12'', sh_isOnTarget = Some True, sh_isBlocked = None, sh_shotType = Some ''Header'', sh_situation = None, sh_eventType = Some ''Goal'', sh_isFromInsideBox = Some True\<rparr>], md_events = []\<rparr>)) = 1" by code_simp
  from C3_reingestion [OF f, of "''1''" feed_fromisoformat "\<lparr>matches = [], player_match_details = [], shots = [], cards = []\<rparr>"] p o
  have a: "length (player_match_details (fst (load_match_directly feed_fromisoformat ''1'' (Details (\<lparr>md_matchTimeUTCDate = None, md_finished = True, md_leagueName = Some ''Liga'', md_leagueRoundName = Some ''1/4'', md_homeTeam_id = Some ''10'', md_homeTeam_name = Some ''H'', md_awayTeam_id = Some ''20'', md_awayTeam_name = Some ''A'', md_scoreStr = Some ''1 - 0'', md_referee = Some ''R'', md_lineup_homeTeam = \<lparr>tj_id = Some ''10'', tj_starters = [\<lparr>pl_id = Some ''7'', pl_name = Some ''P'', pl_usualPlayingPositionId = Some 3, pl_shirtNumber = Some 9, pl_rating = None, pl_layout_x = None, pl_layout_y = None\<rparr>], tj_subs = []\<rparr>, md_lineup_awayTeam = \<lparr>tj_id = Some ''20'', tj_starters = [], tj_subs = []\<rparr>, md_playerStats = [], md_shots = [\<lparr>sh_playerId = Some ''7'', sh_playerName = Some ''P'', sh_teamId = Some ''10'', sh_min = Some ''12'', sh_isOnTarget = Some True, sh_isBlocked = None, sh_shotType = Some ''Header'', sh_situation = None, sh_eventType = Some ''Goal'', sh_isFromInsideBox = Some True\<rparr>], md_events = [\<lparr>ev_card = Some ''Yellow'', ev_localizedKey = None, ev_player_id = Some ''7'', ev_player_name = Some ''P'', ev_isHome = True, ev_timeStr = Some ''30''\<rparr>]\<rparr>)) (fst (load_match_directly feed_fromisoformat ''1'' (Details (\<lparr>md_matchTimeUTCDate = None, md_finished = True, md_leagueName = Some ''Liga'', md_leagueRoundName = Some ''1/4'', md_homeTeam_id = Some ''10'', md_homeTeam_name = Some ''H'', md_awayTeam_id = Some ''20'', md_awayTeam_name = Some ''A'', md_scoreStr = Some ''1 - 0'', md_referee = Some ''R'', md_lineup_homeTeam = \<lparr>tj_id = Some ''10'', tj_starters = [\<lparr>pl_id = Some ''7'', pl_name = Some ''P'', pl_usualPlayingPositionId = Some 3, pl_shirtNumber = Some 9, pl_rating = None, pl_layout_x = None, pl_layout_y = None\<rparr>], tj_subs = []\<rparr>, md_lineup_awayTeam = \<lparr>tj_id = Some ''20'', tj_starters = [], tj_subs = []\<rparr>, md_playerStats = [], md_shots = [\<lparr>sh_playerId = Some ''7'', sh_playerName = Some ''P'', sh_teamId = Some ''10'', sh_min = Some ''12'', sh_isOnTarget = Some True, sh_isBlocked = None, sh_shotType = Some ''Header'', sh_situation = None, sh_eventType = Some ''Goal'', sh_isFromInsideBox = Some True\<rparr>], md_events = [\<lparr>ev_card = Some ''Yellow'', ev_localizedKey = None, ev_player_id = Some ''7'', ev_player_name = Some ''P'', ev_isHome = True, ev_timeStr = Some ''30''\<rparr>]\<rparr>)) (\<lparr>matches = [], player_match_details = [], shots = [], cards = []\<rparr>)))))) = 1
   \<and> length (shots (fst (load_match_directly feed_fromisoformat ''1'' (Details (\<lparr>md_matchTimeUTCDate = None, md_finished = True, md_leagueName = Some ''Liga'', md_leagueRoundName = Some ''1/4'', md_homeTeam_id = Some ''10'', md_homeTeam_name = Some ''H'', md_awayTeam_id = Some ''20'', md_awayTeam_name = Some ''A'', md_scoreStr = Some ''1 - 0'', md_referee = Some ''R'', md_lineup_homeTeam = \<lparr>tj_id = Some ''10'', tj_starters = [\<lparr>pl_id = Some ''7'', pl_name = Some ''P'', pl_usualPlayingPositionId = Some 3, pl_shirtNumber = Some 9, pl_rating = None, pl_layout_x = None, pl_layout_y = None\<rparr>], tj_subs = []\<rparr>, md_lineup_awayTeam = \<lparr>tj_id = Some ''20'', tj_starters = [], tj_subs = []\<rparr>, md_playerStats = [], md_shots = [\<lparr>sh_playerId = Some ''7'', sh_playerName = Some ''P'', sh_teamId = Some ''10'', sh_min = Some ''12'', sh_isOnTarget = Some True, sh_isBlocked = None, sh_shotType = Some ''Header'', sh_situation = None, sh_eventType = Some ''Goal'', sh_isFromInsideBox = Some True\<rparr>], md_events = [\<lparr>ev_card = Some ''Yellow'', ev_localizedKey = None, ev_player_id = Some ''7'', ev_player_name = Some ''P'', ev_isHome = True, ev_timeStr = Some ''30''\<rparr>]\<rparr>)) (fst (load_match_directly feed_fromisoformat ''1'' (Details (\<lparr>md_matchTimeUTCDate = None, md_finished = True, md_leagueName = Some ''Liga'', md_leagueRoundName = Some ''1/4'', md_homeTeam_id = Some ''10'', md_homeTeam_name = Some ''H'', md_awayTeam_id = Some ''20'', md_awayTeam_name = Some ''A'', md_scoreStr = Some ''1 - 0'', md_referee = Some ''R'', md_lineup_homeTeam = \<lparr>tj_id = Some ''10'', tj_starters = [\<lparr>pl_id = Some ''7'', pl_name = Some ''P'', pl_usualPlayingPositionId = Some 3, pl_shirtNumber = Some 9, pl_rating = None, pl_layout_x = None, pl_layout_y = None\<rparr>], tj_subs = []\<rparr>, md_lineup_awayTeam = \<lparr>tj_id = Some ''20'', tj_starters = [], tj_subs = []\<rparr>, md_playerStats = [], md_shots = [\<lparr>sh_playerId = Some ''7'', sh_playerName = Some ''P'', sh_teamId = Some ''10'', sh_min = Some ''12'', sh_isOnTarget = Some True, sh_isBlocked = None, sh_shotType = Some ''Header'', sh_situation = None, sh_eventType = Some ''Goal'', sh_isFromInsideBox = Some True\<rparr>], md_events = [\<lparr>ev_card = Some ''Yellow'', ev_localizedKey = None, ev_player_id = Some ''7'', ev_player_name = Some ''P'', ev_isHome = True, ev_timeStr = Some ''30''\<rparr>]\<rparr>)) (\<lparr>matches = [], player_match_details = [], shots = [], cards = []\<rparr>)))))) = 1
   \<and> length (cards (fst (load_match_directly feed_fromisoformat ''1'' (Details (\<lparr>md_matchTimeUTCDate = None, md_finished = True, md_leagueName = Some ''Liga'', md_leagueRoundName = Some ''1/4'', md_homeTeam_id = Some ''10'', md_homeTeam_name = Some ''H'', md_awayTeam_id = Some ''20'', md_awayTeam_name = Some ''A'', md_scoreStr = Some ''1 - 0'', md_referee = Some ''R'', md_lineup_homeTeam = \<lparr>tj_id = Some ''10'', tj_starters = [\<lparr>pl_id = Some ''7'', pl_name = Some ''P'', pl_usualPlayingPositionId = Some 3, pl_shirtNumber = Some 9, pl_rating = None, pl_layout_x = None, pl_layout_y = None\<rparr>], tj_subs = []\<rparr>, md_lineup_awayTeam = \<lparr>tj_id = Some ''20'', tj_starters = [], tj_subs = []\<rparr>, md_playerStats = [], md_shots = [\<lparr>sh_playerId = Some ''7'', sh_playerName = Some ''P'', sh_teamId = Some ''10'', sh_min = Some ''12'', sh_isOnTarget = Some True, sh_isBlocked = None, sh_shotType = Some ''Header'', sh_situation = None, sh_eventType = Some ''Goal'', sh_isFromInsideBox = Some True\<rparr>], md_events = [\<lparr>ev_card = Some ''Yellow'', ev_localizedKey = None, ev_player_id = Some ''7'', ev_player_name = Some ''P'', ev_isHome = True, ev_timeStr = Some ''30''\<rparr>]\<rparr>)) (fst (load_match_directly feed_fromisoformat ''1'' (Details (\<lparr>md_matchTimeUTCDate = None, md_finished = True, md_leagueName = Some ''Liga'', md_leagueRoundName = Some ''1/4'', md_homeTeam_id = Some ''10'', md_homeTeam_name = Some ''H'', md_awayTeam_id = Some ''20'', md_awayTeam_name = Some ''A'', md_scoreStr = Some ''1 - 0'', md_referee = Some ''R'', md_lineup_homeTeam = \<lparr>tj_id = Some ''10'', tj_starters = [\<lparr>pl_id = Some ''7'', pl_name = Some ''P'', pl_usualPlayingPositionId = Some 3, pl_shirtNumber = Some 9, pl_rating = None, pl_layout_x = None, pl_layout_y = None\<rparr>], tj_subs = []\<rparr>, md_lineup_awayTeam = \<lparr>tj_id = Some ''20'', tj_starters = [], tj_subs = []\<rparr>, md_playerStats = [], md_shots = [\<lparr>sh_playerId = Some ''7'', sh_playerName = Some ''P'', sh_teamId = Some ''10'', sh_min = Some ''12'', sh_isOnTarget = Some True, sh_isBlocked = None, sh_shotType = Some ''Header'', sh_situation = None, sh_eventType = Some ''Goal'', sh_isFromInsideBox = Some True\<rparr>], md_events = [\<lparr>ev_card = Some ''Yellow'', ev_localizedKey = None, ev_player_id = Some ''7'', ev_player_name = Some ''P'', ev_isHome = True, ev_timeStr = Some ''30''\<rparr>]\<rparr>)) (\<lparr>matches = [], player_match_details = [], shots = [], cards = []\<rparr>)))))) = 1"
    by simp
  from C3_reingestion [OF f', of "''1''" feed_fromisoformat "\<lparr>matches = [], player_match_details = [], shots = [], cards = []\<rparr>"] p' s'
  have b: "length (shots (fst (load_match_directly feed_fromisoformat ''1'' (Details (\<lparr>md_matchTimeUTCDate = None, md_finished = True, md_leagueName = Some ''Liga'', md_leagueRoundName = Some ''1/4'', md_homeTeam_id = Some ''10'', md_homeTeam_name = Some ''H'', md_awayTeam_id = Some ''20'', md_awayTeam_name = Some ''A'', md_scoreStr = Some ''1 - 0'', md_referee = Some ''R'', md_lineup_homeTeam = \<lparr>tj_id = Some ''10'', tj_starters = [], tj_subs = []\<rparr>, md_lineup_awayTeam = \<lparr>tj_id = Some ''20'', tj_starters = [], tj_subs = []\<rparr>, md_playerStats = [], md_shots = [\<lparr>sh_playerId = Some ''7'', sh_playerName = Some ''P'', sh_teamId = Some ''10'', sh_min = Some ''12'', sh_isOnTarget = Some True, sh_isBlocked = None, sh_shotType = Some ''Header'', sh_situation = None, sh_eventType = Some ''Goal'', sh_isFromInsideBox = Some True\<rparr>], md_events = []\<rparr>)) (fst (load_match_directly feed_fromisoformat ''1'' (Details (\<lparr>md_matchTimeUTCDate = None, md_finished = True, md_leagueName = Some ''Liga'', md_leagueRoundName = Some ''1/4'', md_homeTeam_id = Some ''10'', md_homeTeam_name = Some ''H'', md_awayTeam_id = Some ''20'', md_awayTeam_name = Some ''A'', md_scoreStr = Some ''1 - 0'', md_referee = Some ''R'', md_lineup_homeTeam = \<lparr>tj_id = Some ''10'', tj_starters = [], tj_subs = []\<rparr>, md_lineup_awayTeam = \<lparr>tj_id = Some ''20'', tj_starters = [], tj_subs = []\<rparr>, md_playerStats = [], md_shots = [\<lparr>sh_playerId = Some ''7'', sh_playerName = Some ''P'', sh_teamId = Some ''10'', sh_min = Some ''12'', sh_isOnTarget = Some True, sh_isBlocked = None, sh_shotType = Some ''Header'', sh_situation = None, sh_eventType = Some ''Goal'', sh_isFromInsideBox = Some True\<rparr>], md_events = []\<rparr>)) (\<lparr>matches = [], player_match_details = [], shots = [], cards = []\<rparr>)))))) = length (shots (fst (load_match_directly feed_fromisoformat ''1'' (Details (\<lparr>md_matchTimeUTCDate = None, md_finished = True, md_leagueName = Some ''Liga'', md_leagueRoundName = Some ''1/4'', md_homeTeam_id = Some ''10'', md_homeTeam_name = Some ''H'', md_awayTeam_id = Some ''20'', md_awayTeam_name = Some ''A'', md_scoreStr = Some ''1 - 0'', md_referee = Some ''R'', md_lineup_homeTeam = \<lparr>tj_id = Some ''10'', tj_starters = [], tj_subs = []\<rparr>, md_lineup_awayTeam = \<lparr>tj_id = Some ''20'', tj_starters = [], tj_subs = []\<rparr>, md_playerStats = [], md_shots = [\<lparr>sh_playerId = Some ''7'', sh_playerName = Some ''P'', sh_teamId = Some ''10'', sh_min = Some ''12'', sh_isOnTarget = Some True, sh_isBlocked = None, sh_shotType = Some ''Header'', sh_situation = None, sh_eventType = Some ''Goal'', sh_isFromInsideBox = Some True\<rparr>], md_events = []\<rparr>)) (\<lparr>matches = [], player_match_details = [], shots = [], cards = []\<rparr>)))) + 1"
    by simp
  from f p o a p' b show ?thesis by blast
qed


text \<open>
  C3 as stated fails: a finished match without a lineup and with one shot has one shot row
  after one ingestion and two after the second.
\<close>

theorem C3_duplicate_counterexample:
  "md_finished (\<lparr>md_matchTimeUTCDate = None, md_finished = True, md_leagueName = Some ''Liga'', md_leagueRoundName = Some ''1/4'', md_homeTeam_id = Some ''10'', md_homeTeam_name = Some ''H'', md_awayTeam_id = Some ''20'', md_awayTeam_name = Some ''A'', md_scoreStr = Some ''1 - 0'', md_referee = Some ''R'', md_lineup_homeTeam = \<lparr>tj_id = Some ''10'', tj_starters = [], tj_subs = []\<rparr>, md_lineup_awayTeam = \<lparr>tj_id = Some ''20'', tj_starters = [], tj_subs = []\<rparr>, md_playerStats = [], md_shots = [\<lparr>sh_playerId = Some ''7'', sh_playerName = Some ''P'', sh_teamId = Some ''10'', sh_min = Some ''12'', sh_isOnTarget = Some True, sh_isBlocked = None, sh_shotType = Some ''Header'', sh_situation = None, sh_eventType = Some ''Goal'', sh_isFromInsideBox = Some True\<rparr>], md_events = []\<rparr>)
   \<and> length (shots (fst (load_match_directly feed_fromisoformat ''1'' (Details (\<lparr>md_matchTimeUTCDate = None, md_finished = True, md_leagueName = Some ''Liga'', md_leagueRoundName = Some ''1/4'', md_homeTeam_id = Some ''10'', md_homeTeam_name = Some ''H'', md_awayTeam_id = Some ''20'', md_awayTeam_name = Some ''A'', md_scoreStr = Some ''1 - 0'', md_referee = Some ''R'', md_lineup_homeTeam = \<lparr>tj_id = Some ''10'', tj_starters = [], tj_subs = []\<rparr>, md_lineup_awayTeam = \<lparr>tj_id = Some ''20'', tj_starters = [], tj_subs = []\<rparr>, md_playerStats = [], md_shots = [\<lparr>sh_playerId = Some ''7'', sh_playerName = Some ''P'', sh_teamId = Some ''10'', sh_min = Some ''12'', sh_isOnTarget = Some True, sh_isBlocked = None, sh_shotType = Some ''Header'', sh_situation = None, sh_eventType = Some ''Goal'', sh_isFromInsideBox = Some True\<rparr>], md_events = []\<rparr>)) (\<lparr>matches = [], player_match_details = [], shots = [], cards = []\<rparr>)))) = 1
   \<and> length (shots (fst (load_match_directly feed_fromisoformat ''1'' (Details (\<lparr>md_matchTimeUTCDate = None, md_finished = True, md_leagueName = Some ''Liga'', md_leagueRoundName = Some ''1/4'', md_homeTeam_id = Some ''10'', md_homeTeam_name = Some ''H'', md_awayTeam_id = Some ''20'', md_awayTeam_name = Some ''A'', md_scoreStr = Some ''1 - 0'', md_referee = Some ''R'', md_lineup_homeTeam = \<lparr>tj_id = Some ''10'', tj_starters = [], tj_subs = []\<rparr>, md_lineup_awayTeam = \<lparr>tj_id = Some ''20'', tj_starters = [], tj_subs = []\<rparr>, md_playerStats = [], md_shots = [\<lparr>sh_playerId = Some ''7'', sh_playerName = Some ''P'', sh_teamId = Some ''10'', sh_min = Some ''12'', sh_isOnTarget = Some True, sh_isBlocked = None, sh_shotType = Some ''Header'', sh_situation = None, sh_eventType = Some ''Goal'', sh_isFromInsideBox = Some True\<rparr>], md_events = []\<rparr>)) (fst (load_match_directly feed_fromisoformat ''1'' (Details (\<lparr>md_matchTimeUTCDate = None, md_finished = True, md_leagueName = Some ''Liga'', md_leagueRoundName = Some ''1/4'', md_homeTeam_id = Some ''10'', md_homeTeam_name = Some ''H'', md_awayTeam_id = Some ''20'', md_awayTeam_name = Some ''A'', md_scoreStr = Some ''1 - 0'', md_referee = Some ''R'', md_lineup_homeTeam = \<lparr>tj_id = Some ''10'', tj_starters = [], tj_subs = []\<rparr>, md_lineup_awayTeam = \<lparr>tj_id = Some ''20'', tj_starters = [], tj_subs = []\<rparr>, md_playerStats = [], md_shots = [\<lparr>sh_playerId = Some ''7'', sh_playerName = Some ''P'', sh_teamId = Some ''10'', sh_min = Some ''12'', sh_isOnTarget = Some True, sh_isBlocked = None, sh_shotType = Some ''Header'', sh_situation = None, sh_eventType = Some ''Goal'', sh_isFromInsideBox = Some True\<rparr>], md_events = []\<rparr>)) (\<lparr>matches = [], player_match_details = [], shots = [], cards = []\<rparr>)))))) = 2"
  by code_simp

section \<open>Properties of the ranking engine\<close>

lemma set_sort_desc: "set (sort_desc f xs) = set xs"
  by (simp add: sort_desc_def)

lemma set_sort_entries: "set (sort_entries order_by es) = set es"
  by (simp add: sort_entries_def set_sort_desc)

lemma window_avg_no_error: "\<exists>a. window_avg t n = Inr a"
  by (simp add: window_avg_def py_truediv_def)

lemma window_avg_zero: "window_avg t 0 = Inr 0"
  by (simp add: window_avg_def)

lemma window_totals_error:
  "window_totals d category filter_type tid ids = Inl e \<Longrightarrow>
     e = UnboundLocalError \<and> category \<notin> set [''shots'', ''headers'', ''cards'', ''fouls'']"
  by (simp add: window_totals_def split: if_splits)

lemma team_window_entry_error:
  assumes "team_window_entry d category filter_type n tid = Inl e"
  shows "e = UnboundLocalError \<and> category \<notin> set [''shots'', ''headers'', ''cards'', ''fouls'']
         \<and> last_finished_matches d tid n \<noteq> []"
proof (cases "last_finished_matches d tid n = []")
  case True
  with assms show ?thesis by (simp add: team_window_entry_def Let_def)
next
  case False
  show ?thesis
  proof (cases "window_totals d category filter_type tid (last_finished_matches d tid n)")
    case (Inl x)
    with assms False have "e = x" by (simp add: team_window_entry_def Let_def)
    with window_totals_error [OF Inl] False show ?thesis by simp
  next
    case (Inr tt)
    obtain tm ta where tt: "tt = (tm, ta)" by (cases tt)
    obtain am where am: "window_avg tm (length (last_finished_matches d tid n)) = Inr am"
      using window_avg_no_error by blast
    obtain aa where aa: "window_avg ta (length (last_finished_matches d tid n)) = Inr aa"
      using window_avg_no_error by blast
    from assms False Inr tt am aa show ?thesis by (simp add: team_window_entry_def Let_def)
  qed
qed

lemma team_window_entry_empty:
  assumes "last_finished_matches d tid n = []"
  shows "team_window_entry d category filter_type n tid =
     Inr (\<lparr>e_id = tid, e_name = dict_get (teams_map d) tid (Some ''N/A''), e_total = 0, e_pj = 0, e_avg = 0\<rparr>,
          \<lparr>e_id = tid, e_name = dict_get (teams_map d) tid (Some ''N/A''), e_total = 0, e_pj = 0, e_avg = 0\<rparr>)"
  using assms by (simp add: team_window_entry_def Let_def)

lemma window_loop_error:
  "window_loop d category filter_type n tids = Inl e \<Longrightarrow>
     e = UnboundLocalError \<and> category \<notin> set [''shots'', ''headers'', ''cards'', ''fouls'']"
proof (induction tids)
  case Nil
  then show ?case by simp
next
  case (Cons tid tids)
  show ?case
  proof (cases "team_window_entry d category filter_type n tid")
    case (Inl x)
    with Cons.prems have "e = x" by simp
    with team_window_entry_error [OF Inl] show ?thesis by simp
  next
    case (Inr p)
    with Cons show ?thesis by (auto split: sum.splits prod.splits)
  qed
qed

lemma window_loop_entries:
  "window_loop d category filter_type n tids = Inr (ms, as) \<Longrightarrow> tid \<in> set tids \<Longrightarrow>
     \<exists>em ea. team_window_entry d category filter_type n tid = Inr (em, ea) \<and> em \<in> set ms \<and> ea \<in> set as"
proof (induction tids arbitrary: ms as)
  case Nil
  then show ?case by simp
next
  case (Cons t tids)
  from Cons.prems(1) obtain em ea ms' as' where
    h: "team_window_entry d category filter_type n t = Inr (em, ea)"
       "window_loop d category filter_type n tids = Inr (ms', as')"
       "ms = em # ms'" "as = ea # as'"
    by (auto split: sum.splits prod.splits)
  show ?case
  proof (cases "tid = t")
    case True
    with h show ?thesis by simp
  next
    case False
    with Cons.prems(2) have "tid \<in> set tids" by simp
    from Cons.IH [OF h(2) this] h(3,4) show ?thesis by auto
  qed
qed

lemma team_stats_all_error:
  "team_stats_all d category filter_type order_by = Inl e \<Longrightarrow> e = UnboundLocalError"
  by (auto simp add: team_stats_all_def made_rows_def against_rows_def split: sum.splits if_splits)

lemma get_team_stats_core_error:
  assumes "get_team_stats_core d category filter_type order_by limit = Inl e"
  shows "e = UnboundLocalError \<and> category \<notin> set [''shots'', ''headers'', ''cards'', ''fouls'']"
proof -
  have a: "team_stats_all d category filter_type order_by = Inl e \<Longrightarrow> ?thesis"
    by (auto simp add: team_stats_all_def made_rows_def against_rows_def split: sum.splits if_splits)
  show ?thesis
  proof (cases limit)
    case None
    with assms a show ?thesis by (simp add: get_team_stats_core_def)
  next
    case (Some n)
    show ?thesis
    proof (cases "n = 0")
      case True
      with assms Some a show ?thesis by (simp add: get_team_stats_core_def)
    next
      case False
      with assms Some have "window_loop d category filter_type n (map fst (teams_map d)) = Inl e"
        by (simp add: get_team_stats_core_def split: sum.splits prod.splits)
      then show ?thesis by (rule window_loop_error)
    qed
  qed
qed


text \<open>
  C6. The ranking never raises \<open>ZeroDivisionError\<close>, and for the four categories it
  returns. Whenever the windowed ranking returns, every team of \<open>teams_map\<close> with no
  finished match in its window has, in both lists, the entry with total 0, 0 matches and
  average 0: the loop appends it before the totals and the division are reached. The
  guard of the average itself gives 0 for 0 matches.
\<close>

theorem C6_zero_matches_average:
  "get_team_stats_core d category filter_type order_by limit \<noteq> Inl ZeroDivisionError
   \<and> (category \<in> set [''shots'', ''headers'', ''cards'', ''fouls'']
        \<longrightarrow> (\<exists>made against. get_team_stats_core d category filter_type order_by limit = Inr (made, against)))
   \<and> (n \<noteq> 0 \<and> get_team_stats_core d category filter_type order_by (Some n) = Inr (made, against)
        \<and> tid \<in> set (map fst (teams_map d)) \<and> last_finished_matches d tid n = []
        \<longrightarrow> \<lparr>e_id = tid, e_name = dict_get (teams_map d) tid (Some ''N/A''), e_total = 0, e_pj = 0, e_avg = 0\<rparr> \<in> set made
          \<and> \<lparr>e_id = tid, e_name = dict_get (teams_map d) tid (Some ''N/A''), e_total = 0, e_pj = 0, e_avg = 0\<rparr> \<in> set against)
   \<and> window_avg t 0 = Inr 0"
proof -
  have p1: "get_team_stats_core d category filter_type order_by limit \<noteq> Inl ZeroDivisionError"
    using get_team_stats_core_error [of d category filter_type order_by limit ZeroDivisionError] by auto
  have p2: "category \<in> set [''shots'', ''headers'', ''cards'', ''fouls'']
        \<longrightarrow> (\<exists>made against. get_team_stats_core d category filter_type order_by limit = Inr (made, against))"
  proof
    assume c: "category \<in> set [''shots'', ''headers'', ''cards'', ''fouls'']"
    show "\<exists>made against. get_team_stats_core d category filter_type order_by limit = Inr (made, against)"
    proof (cases "get_team_stats_core d category filter_type order_by limit")
      case (Inl e)
      from get_team_stats_core_error [OF Inl] c show ?thesis by simp
    next
      case (Inr p)
      then show ?thesis by (cases p) simp
    qed
  qed
  have p3: "n \<noteq> 0 \<and> get_team_stats_core d category filter_type order_by (Some n) = Inr (made, against)
        \<and> tid \<in> set (map fst (teams_map d)) \<and> last_finished_matches d tid n = []
        \<longrightarrow> \<lparr>e_id = tid, e_name = dict_get (teams_map d) tid (Some ''N/A''), e_total = 0, e_pj = 0, e_avg = 0\<rparr> \<in> set made
          \<and> \<lparr>e_id = tid, e_name = dict_get (teams_map d) tid (Some ''N/A''), e_total = 0, e_pj = 0, e_avg = 0\<rparr> \<in> set against"
  proof
    assume h: "n \<noteq> 0 \<and> get_team_stats_core d category filter_type order_by (Some n) = Inr (made, against)
        \<and> tid \<in> set (map fst (teams_map d)) \<and> last_finished_matches d tid n = []"
    then obtain ms as where
      l: "window_loop d category filter_type n (map fst (teams_map d)) = Inr (ms, as)"
      and m: "made = sort_entries order_by ms" "against = sort_entries order_by as"
      by (auto simp add: get_team_stats_core_def split: sum.splits prod.splits)
    from h have t: "tid \<in> set (map fst (teams_map d))" and z: "last_finished_matches d tid n = []" by simp_all
    from window_loop_entries [OF l t] team_window_entry_empty [OF z, of category filter_type]
    have "\<lparr>e_id = tid, e_name = dict_get (teams_map d) tid (Some ''N/A''), e_total = 0, e_pj = 0, e_avg = 0\<rparr> \<in> set ms
        \<and> \<lparr>e_id = tid, e_name = dict_get (teams_map d) tid (Some ''N/A''), e_total = 0, e_pj = 0, e_avg = 0\<rparr> \<in> set as"
      by auto
    then show "\<lparr>e_id = tid, e_name = dict_get (teams_map d) tid (Some ''N/A''), e_total = 0, e_pj = 0, e_avg = 0\<rparr> \<in> set made
          \<and> \<lparr>e_id = tid, e_name = dict_get (teams_map d) tid (Some ''N/A''), e_total = 0, e_pj = 0, e_avg = 0\<rparr> \<in> set against"
      unfolding m by (simp add: set_sort_entries)
  qed
  from p1 p2 p3 window_avg_zero [of t] show ?thesis by blast
qed

theorem C6_zero_matches_average_witness:
  "''shots'' \<in> set [''shots'', ''headers'', ''cards'', ''fouls'']
   \<and> ''A'' \<in> set (map fst (teams_map (\<lparr>matches = [\<lparr>m_id = ''1'', m_date = None, m_finished = False, m_tournament = ''L'', m_gameweek = ''1'', m_id_home_team = ''A'', m_home_team = Some ''TA'', m_id_away_team = ''B'', m_away_team = Some ''TB'', m_score = None, m_referee = None\<rparr>], player_match_details = [], shots = [], cards = []\<rparr>)))
   \<and> last_finished_matches (\<lparr>matches = [\<lparr>m_id = ''1'', m_date = None, m_finished = False, m_tournament = ''L'', m_gameweek = ''1'', m_id_home_team = ''A'', m_home_team = Some ''TA'', m_id_away_team = ''B'', m_away_team = Some ''TB'', m_score = None, m_referee = None\<rparr>], player_match_details = [], shots = [], cards = []\<rparr>) ''A'' 5 = []
   \<and> get_team_stats_core (\<lparr>matches = [\<lparr>m_id = ''1'', m_date = None, m_finished = False, m_tournament = ''L'', m_gameweek = ''1'', m_id_home_team = ''A'', m_home_team = Some ''TA'', m_id_away_team = ''B'', m_away_team = Some ''TB'', m_score = None, m_referee = None\<rparr>], player_match_details = [], shots = [], cards = []\<rparr>) ''shots'' ''all'' ''total'' (Some 5) = Inr ([\<lparr>e_id = ''A'', e_name = Some ''TA'', e_total = 0, e_pj = 0, e_avg = 0\<rparr>], [\<lparr>e_id = ''A'', e_name = Some ''TA'', e_total = 0, e_pj = 0, e_avg = 0\<rparr>])
   \<and> \<lparr>e_id = ''A'', e_name = Some ''TA'', e_total = 0, e_pj = 0, e_avg = 0\<rparr> \<in> set [\<lparr>e_id = ''A'', e_name = Some ''TA'', e_total = 0, e_pj = 0, e_avg = 0\<rparr>]"
proof -
  have c: "''shots'' \<in> set [''shots'', ''headers'', ''cards'', ''fouls'']" by simp
  have t: "''A'' \<in> set (map fst (teams_map (\<lparr>matches = [\<lparr>m_id = ''1'', m_date = None, m_finished = False, m_tournament = ''L'', m_gameweek = ''1'', m_id_home_team = ''A'', m_home_team = Some ''TA'', m_id_away_team = ''B'', m_away_team = Some ''TB'', m_score = None, m_referee = None\<rparr>], player_match_details = [], shots = [], cards = []\<rparr>)))" by code_simp
  have n: "dict_get (teams_map (\<lparr>matches = [\<lparr>m_id = ''1'', m_date = None, m_finished = False, m_tournament = ''L'', m_gameweek = ''1'', m_id_home_team = ''A'', m_home_team = Some ''TA'', m_id_away_team = ''B'', m_away_team = Some ''TB'', m_score = None, m_referee = None\<rparr>], player_match_details = [], shots = [], cards = []\<rparr>)) ''A'' (Some ''N/A'') = Some ''TA''" by code_simp
  have w: "last_finished_matches (\<lparr>matches = [\<lparr>m_id = ''1'', m_date = None, m_finished = False, m_tournament = ''L'', m_gameweek = ''1'', m_id_home_team = ''A'', m_home_team = Some ''TA'', m_id_away_team = ''B'', m_away_team = Some ''TB'', m_score = None, m_referee = None\<rparr>], player_match_details = [], shots = [], cards = []\<rparr>) ''A'' 5 = []" by code_simp
  have g: "get_team_stats_core (\<lparr>matches = [\<lparr>m_id = ''1'', m_date = None, m_finished = False, m_tournament = ''L'', m_gameweek = ''1'', m_id_home_team = ''A'', m_home_team = Some ''TA'', m_id_away_team = ''B'', m_away_team = Some ''TB'', m_score = None, m_referee = None\<rparr>], player_match_details = [], shots = [], cards = []\<rparr>) ''shots'' ''all'' ''total'' (Some 5) = Inr ([\<lparr>e_id = ''A'', e_name = Some ''TA'', e_total = 0, e_pj = 0, e_avg = 0\<rparr>], [\<lparr>e_id = ''A'', e_name = Some ''TA'', e_total = 0, e_pj = 0, e_avg = 0\<rparr>])"
    by code_simp
  from C6_zero_matches_average [of "\<lparr>matches = [\<lparr>m_id = ''1'', m_date = None, m_finished = False, m_tournament = ''L'', m_gameweek = ''1'', m_id_home_team = ''A'', m_home_team = Some ''TA'', m_id_away_team = ''B'', m_away_team = Some ''TB'', m_score = None, m_referee = None\<rparr>], player_match_details = [], shots = [], cards = []\<rparr>" "''shots''" "''all''" "''total''" "Some 5" 5 "[\<lparr>e_id = ''A'', e_name = Some ''TA'', e_total = 0, e_pj = 0, e_avg = 0\<rparr>]" "[\<lparr>e_id = ''A'', e_name = Some ''TA'', e_total = 0, e_pj = 0, e_avg = 0\<rparr>]" "''A''"]
    c t w g
  have "\<lparr>e_id = ''A'', e_name = dict_get (teams_map (\<lparr>matches = [\<lparr>m_id = ''1'', m_date = None, m_finished = False, m_tournament = ''L'', m_gameweek = ''1'', m_id_home_team = ''A'', m_home_team = Some ''TA'', m_id_away_team = ''B'', m_away_team = Some ''TB'', m_score = None, m_referee = None\<rparr>], player_match_details = [], shots = [], cards = []\<rparr>)) ''A'' (Some ''N/A''), e_total = 0, e_pj = 0, e_avg = 0\<rparr> \<in> set [\<lparr>e_id = ''A'', e_name = Some ''TA'', e_total = 0, e_pj = 0, e_avg = 0\<rparr>]"
    by simp
  then have "\<lparr>e_id = ''A'', e_name = Some ''TA'', e_total = 0, e_pj = 0, e_avg = 0\<rparr> \<in> set [\<lparr>e_id = ''A'', e_name = Some ''TA'', e_total = 0, e_pj = 0, e_avg = 0\<rparr>]" unfolding n .
  with c t w g show ?thesis by blast
qed

lemma join_matches_filter:
  "join_matches mid (filter Q es) ms = filter (\<lambda>(e, m). Q e) (join_matches mid es ms)"
proof (induction es)
  case Nil
  show ?case by (simp add: join_matches_def)
next
  case (Cons e es)
  have a: "\<And>xs. filter (\<lambda>(e', m). Q e') (map (\<lambda>m. (e, m)) xs) = (if Q e then map (\<lambda>m. (e, m)) xs else [])"
    by (simp add: filter_map comp_def)
  have c: "join_matches mid (e # es) ms
      = map (\<lambda>m. (e, m)) (filter (\<lambda>m. mid e = m_id m) ms) @ join_matches mid es ms"
    by (simp add: join_matches_def)
  show ?case
  proof (cases "Q e")
    case True
    then show ?thesis unfolding c filter_append a using Cons.IH
      by (simp add: join_matches_def)
  next
    case False
    then show ?thesis unfolding c filter_append a using Cons.IH by simp
  qed
qed

lemma filter_in_window:
  "filter (\<lambda>x. P x \<and> g x \<in> set W \<and> Q x) xs = filter (\<lambda>x. P x \<and> Q x) (filter (\<lambda>x. g x \<in> set W) xs)"
  "filter (\<lambda>x. P x \<and> g x \<in> set W) xs = filter P (filter (\<lambda>x. g x \<in> set W) xs)"
  "filter (\<lambda>x. P x \<and> R x \<and> g x \<in> set W) xs = filter (\<lambda>x. P x \<and> R x) (filter (\<lambda>x. g x \<in> set W) xs)"
  by (auto intro: filter_cong)

lemma filter_join_in_window:
  "filter (\<lambda>(e, m). P e m \<and> g e \<in> set W \<and> Q e) (join_matches g es ms)
     = filter (\<lambda>(e, m). P e m \<and> Q e) (join_matches g (filter (\<lambda>x. g x \<in> set W) es) ms)"
  "filter (\<lambda>(e, m). P e m \<and> g e \<in> set W) (join_matches g es ms)
     = filter (\<lambda>(e, m). P e m) (join_matches g (filter (\<lambda>x. g x \<in> set W) es) ms)"
  "filter (\<lambda>(e, m). P e m \<and> R e \<and> g e \<in> set W) (join_matches g es ms)
     = filter (\<lambda>(e, m). P e m \<and> R e) (join_matches g (filter (\<lambda>x. g x \<in> set W) es) ms)"
  unfolding join_matches_filter by (auto intro: filter_cong)

lemma window_totals_agree:
  assumes "matches d' = matches d"
    and "filter (\<lambda>s. s_match_id s \<in> set W) (shots d') = filter (\<lambda>s. s_match_id s \<in> set W) (shots d)"
    and "filter (\<lambda>c. c_match_id c \<in> set W) (cards d') = filter (\<lambda>c. c_match_id c \<in> set W) (cards d)"
    and "filter (\<lambda>p. p_match_id p \<in> set W) (player_match_details d')
         = filter (\<lambda>p. p_match_id p \<in> set W) (player_match_details d)"
  shows "window_totals d' category filter_type X W = window_totals d category filter_type X W"
  unfolding window_totals_def filter_in_window filter_join_in_window assms ..

lemma team_window_entry_agree:
  assumes "matches d' = matches d"
    and "filter (\<lambda>s. s_match_id s \<in> set (last_finished_matches d X n)) (shots d')
         = filter (\<lambda>s. s_match_id s \<in> set (last_finished_matches d X n)) (shots d)"
    and "filter (\<lambda>c. c_match_id c \<in> set (last_finished_matches d X n)) (cards d')
         = filter (\<lambda>c. c_match_id c \<in> set (last_finished_matches d X n)) (cards d)"
    and "filter (\<lambda>p. p_match_id p \<in> set (last_finished_matches d X n)) (player_match_details d')
         = filter (\<lambda>p. p_match_id p \<in> set (last_finished_matches d X n)) (player_match_details d)"
  shows "team_window_entry d' category filter_type n X = team_window_entry d category filter_type n X"
proof -
  have l: "last_finished_matches d' X n = last_finished_matches d X n"
    by (simp add: last_finished_matches_def assms(1))
  have t: "teams_map d' = teams_map d" by (simp add: teams_map_def assms(1))
  show ?thesis
    unfolding team_window_entry_def Let_def l t window_totals_agree [OF assms] ..
qed

lemma distinct_teams_fold:
  "distinct (map fst al) \<Longrightarrow> distinct (map fst (fold (\<lambda>(k, nm). dict_set k nm) ps al))"
  by (induction ps arbitrary: al) (simp_all add: dict_set_def AList.distinct_update split: prod.splits)

lemma distinct_teams_map: "distinct (map fst (teams_map d))"
  unfolding teams_map_def by (rule distinct_teams_fold) simp

lemma team_window_entry_id:
  "team_window_entry d category filter_type n tid = Inr (em, ea) \<Longrightarrow> e_id em = tid \<and> e_id ea = tid"
  by (auto simp add: team_window_entry_def Let_def split: if_splits sum.splits prod.splits)

lemma window_loop_ids:
  "window_loop d category filter_type n tids = Inr (ms, as) \<Longrightarrow>
     map e_id ms = tids \<and> map e_id as = tids"
proof (induction tids arbitrary: ms as)
  case Nil
  then show ?case by simp
next
  case (Cons t tids)
  from Cons.prems obtain em ea ms' as' where
    h: "team_window_entry d category filter_type n t = Inr (em, ea)"
       "window_loop d category filter_type n tids = Inr (ms', as')"
       "ms = em # ms'" "as = ea # as'"
    by (auto split: sum.splits prod.splits)
  from Cons.IH [OF h(2)] team_window_entry_id [OF h(1)] h(3,4) show ?case by simp
qed

lemma unique_by_id:
  assumes "distinct (map e_id es)" and "a \<in> set es" and "b \<in> set es" and "e_id a = e_id b"
  shows "a = b"
  using assms by (meson distinct_map inj_onD)

text \<open>The window is a prefix of the team's finished matches in descending order of date.\<close>

lemma sort_desc_sorted: "sorted_wrt (\<lambda>a b. f b \<le> f a) (sort_desc f xs)"
proof -
  have "sorted (map f (sort_key f (rev xs)))" by (rule sorted_sort_key)
  then have "sorted_wrt (\<lambda>a b. f a \<le> f b) (sort_key f (rev xs))"
    by (simp add: sorted_wrt_map)
  then show ?thesis unfolding sort_desc_def by (simp add: sorted_wrt_rev)
qed

text \<open>
  C5. The window of team \<open>X\<close> is the first \<open>N\<close> ids of the finished matches of \<open>X\<close> in
  descending order of date. Two stores with the same matches that agree on the shots,
  cards and appearances whose match id is in that window give \<open>X\<close> the same two entries,
  whatever events the other matches hold; when both rankings return, that one entry of
  \<open>X\<close> is in the lists of both and is the only entry with the id of \<open>X\<close>.
\<close>

theorem C5_window_isolation:
  assumes "matches d' = matches d"
    and "filter (\<lambda>s. s_match_id s \<in> set (last_finished_matches d X n)) (shots d')
         = filter (\<lambda>s. s_match_id s \<in> set (last_finished_matches d X n)) (shots d)"
    and "filter (\<lambda>c. c_match_id c \<in> set (last_finished_matches d X n)) (cards d')
         = filter (\<lambda>c. c_match_id c \<in> set (last_finished_matches d X n)) (cards d)"
    and "filter (\<lambda>p. p_match_id p \<in> set (last_finished_matches d X n)) (player_match_details d')
         = filter (\<lambda>p. p_match_id p \<in> set (last_finished_matches d X n)) (player_match_details d)"
  shows "team_window_entry d' category filter_type n X = team_window_entry d category filter_type n X
    \<and> (n \<noteq> 0 \<and> X \<in> set (map fst (teams_map d))
         \<and> get_team_stats_core d category filter_type order_by (Some n) = Inr (made, against)
         \<and> get_team_stats_core d' category filter_type order_by (Some n) = Inr (made', against')
        \<longrightarrow> (\<exists>em ea. team_window_entry d category filter_type n X = Inr (em, ea)
                 \<and> em \<in> set made \<and> em \<in> set made' \<and> ea \<in> set against \<and> ea \<in> set against'
                 \<and> (\<forall>e \<in> set made \<union> set made'. e_id e = X \<longrightarrow> e = em)
                 \<and> (\<forall>e \<in> set against \<union> set against'. e_id e = X \<longrightarrow> e = ea)))
    \<and> (\<exists>Q. last_finished_matches d X n = sql_limit n (map m_id Q)
           \<and> sorted_wrt (\<lambda>a b. m_date b \<le> m_date a) Q
           \<and> set Q = {m \<in> set (matches d). (m_id_home_team m = X \<or> m_id_away_team m = X) \<and> m_finished m}
           \<and> length Q = length (filter (\<lambda>m. (m_id_home_team m = X \<or> m_id_away_team m = X) \<and> m_finished m) (matches d)))"
proof -
  note a = team_window_entry_agree [OF assms, of category filter_type]
  have t: "teams_map d' = teams_map d" by (simp add: teams_map_def assms(1))
  have p2: "n \<noteq> 0 \<and> X \<in> set (map fst (teams_map d))
         \<and> get_team_stats_core d category filter_type order_by (Some n) = Inr (made, against)
         \<and> get_team_stats_core d' category filter_type order_by (Some n) = Inr (made', against')
        \<longrightarrow> (\<exists>em ea. team_window_entry d category filter_type n X = Inr (em, ea)
                 \<and> em \<in> set made \<and> em \<in> set made' \<and> ea \<in> set against \<and> ea \<in> set against'
                 \<and> (\<forall>e \<in> set made \<union> set made'. e_id e = X \<longrightarrow> e = em)
                 \<and> (\<forall>e \<in> set against \<union> set against'. e_id e = X \<longrightarrow> e = ea))"
  proof
    assume h: "n \<noteq> 0 \<and> X \<in> set (map fst (teams_map d))
         \<and> get_team_stats_core d category filter_type order_by (Some n) = Inr (made, against)
         \<and> get_team_stats_core d' category filter_type order_by (Some n) = Inr (made', against')"
    then have x: "X \<in> set (map fst (teams_map d))" by simp
    from h obtain ms as where
      l: "window_loop d category filter_type n (map fst (teams_map d)) = Inr (ms, as)"
      and m: "made = sort_entries order_by ms" "against = sort_entries order_by as"
      by (auto simp add: get_team_stats_core_def split: sum.splits prod.splits)
    from h obtain ms' as' where
      l': "window_loop d' category filter_type n (map fst (teams_map d)) = Inr (ms', as')"
      and m': "made' = sort_entries order_by ms'" "against' = sort_entries order_by as'"
      by (auto simp add: get_team_stats_core_def t split: sum.splits prod.splits)
    from window_loop_entries [OF l x] obtain em ea where
      e: "team_window_entry d category filter_type n X = Inr (em, ea)" "em \<in> set ms" "ea \<in> set as"
      by blast
    from window_loop_entries [OF l' x] a e(1) have e': "em \<in> set ms'" "ea \<in> set as'"
      by auto
    note i = team_window_entry_id [OF e(1)]
    have dm: "distinct (map e_id ms)" "distinct (map e_id as)"
      using window_loop_ids [OF l] distinct_teams_map [of d] by simp_all
    have dm': "distinct (map e_id ms')" "distinct (map e_id as')"
      using window_loop_ids [OF l'] distinct_teams_map [of d] by simp_all
    have u1: "\<forall>e \<in> set made \<union> set made'. e_id e = X \<longrightarrow> e = em"
      unfolding m m' set_sort_entries
      using unique_by_id [OF dm(1) _ e(2)] unique_by_id [OF dm'(1) _ e'(1)] i by auto
    have u2: "\<forall>e \<in> set against \<union> set against'. e_id e = X \<longrightarrow> e = ea"
      unfolding m m' set_sort_entries
      using unique_by_id [OF dm(2) _ e(3)] unique_by_id [OF dm'(2) _ e'(2)] i by auto
    from e e' u1 u2 show "\<exists>em ea. team_window_entry d category filter_type n X = Inr (em, ea)
                 \<and> em \<in> set made \<and> em \<in> set made' \<and> ea \<in> set against \<and> ea \<in> set against'
                 \<and> (\<forall>e \<in> set made \<union> set made'. e_id e = X \<longrightarrow> e = em)
                 \<and> (\<forall>e \<in> set against \<union> set against'. e_id e = X \<longrightarrow> e = ea)"
      unfolding m m' set_sort_entries by blast
  qed
  let ?Q = "sort_desc m_date (filter (\<lambda>m. (m_id_home_team m = X \<or> m_id_away_team m = X) \<and> m_finished m) (matches d))"
  have p3: "last_finished_matches d X n = sql_limit n (map m_id ?Q)
           \<and> sorted_wrt (\<lambda>a b. m_date b \<le> m_date a) ?Q
           \<and> set ?Q = {m \<in> set (matches d). (m_id_home_team m = X \<or> m_id_away_team m = X) \<and> m_finished m}
           \<and> length ?Q = length (filter (\<lambda>m. (m_id_home_team m = X \<or> m_id_away_team m = X) \<and> m_finished m) (matches d))"
    by (auto simp add: last_finished_matches_def sort_desc_sorted set_sort_desc) (simp add: sort_desc_def)
  from a p2 p3 show ?thesis by blast
qed

theorem C5_window_isolation_witness:
  "last_finished_matches (\<lparr>matches = [\<lparr>m_id = ''1'', m_date = Some ''2025-01-01 10:00:00'', m_finished = True, m_tournament = ''L'', m_gameweek = ''1'', m_id_home_team = ''A'', m_home_team = Some ''TA'', m_id_away_team = ''B'', m_away_team = Some ''TB'', m_score = None, m_referee = None\<rparr>, \<lparr>m_id = ''2'', m_date = Some ''2025-02-01 10:00:00'', m_finished = True, m_tournament = ''L'', m_gameweek = ''1'', m_id_home_team = ''B'', m_home_team = Some ''TB'', m_id_away_team = ''A'', m_away_team = Some ''TA'', m_score = None, m_referee = None\<rparr>], player_match_details = [], shots = [\<lparr>s_match_id = ''2'', s_player_id = ''7'', s_player_name = None, s_team_id = ''A'', s_minute = ''1'', s_on_target = Some True, s_shot_type = None, s_situation = None, s_outcome = None, s_inside_box = Some True\<rparr>], cards = []\<rparr>) ''A'' 1 = [''2'']
   \<and> team_window_entry (\<lparr>matches = [\<lparr>m_id = ''1'', m_date = Some ''2025-01-01 10:00:00'', m_finished = True, m_tournament = ''L'', m_gameweek = ''1'', m_id_home_team = ''A'', m_home_team = Some ''TA'', m_id_away_team = ''B'', m_away_team = Some ''TB'', m_score = None, m_referee = None\<rparr>, \<lparr>m_id = ''2'', m_date = Some ''2025-02-01 10:00:00'', m_finished = True, m_tournament = ''L'', m_gameweek = ''1'', m_id_home_team = ''B'', m_home_team = Some ''TB'', m_id_away_team = ''A'', m_away_team = Some ''TA'', m_score = None, m_referee = None\<rparr>], player_match_details = [], shots = [\<lparr>s_match_id = ''1'', s_player_id = ''7'', s_player_name = None, s_team_id = ''A'', s_minute = ''1'', s_on_target = Some True, s_shot_type = None, s_situation = None, s_outcome = None, s_inside_box = Some True\<rparr>, \<lparr>s_match_id = ''2'', s_player_id = ''7'', s_player_name = None, s_team_id = ''A'', s_minute = ''1'', s_on_target = Some True, s_shot_type = None, s_situation = None, s_outcome = None, s_inside_box = Some True\<rparr>], cards = []\<rparr>) ''shots'' ''all'' 1 ''A''
       = team_window_entry (\<lparr>matches = [\<lparr>m_id = ''1'', m_date = Some ''2025-01-01 10:00:00'', m_finished = True, m_tournament = ''L'', m_gameweek = ''1'', m_id_home_team = ''A'', m_home_team = Some ''TA'', m_id_away_team = ''B'', m_away_team = Some ''TB'', m_score = None, m_referee = None\<rparr>, \<lparr>m_id = ''2'', m_date = Some ''2025-02-01 10:00:00'', m_finished = True, m_tournament = ''L'', m_gameweek = ''1'', m_id_home_team = ''B'', m_home_team = Some ''TB'', m_id_away_team = ''A'', m_away_team = Some ''TA'', m_score = None, m_referee = None\<rparr>], player_match_details = [], shots = [\<lparr>s_match_id = ''2'', s_player_id = ''7'', s_player_name = None, s_team_id = ''A'', s_minute = ''1'', s_on_target = Some True, s_shot_type = None, s_situation = None, s_outcome = None, s_inside_box = Some True\<rparr>], cards = []\<rparr>) ''shots'' ''all'' 1 ''A''
   \<and> team_window_entry (\<lparr>matches = [\<lparr>m_id = ''1'', m_date = Some ''2025-01-01 10:00:00'', m_finished = True, m_tournament = ''L'', m_gameweek = ''1'', m_id_home_team = ''A'', m_home_team = Some ''TA'', m_id_away_team = ''B'', m_away_team = Some ''TB'', m_score = None, m_referee = None\<rparr>, \<lparr>m_id = ''2'', m_date = Some ''2025-02-01 10:00:00'', m_finished = True, m_tournament = ''L'', m_gameweek = ''1'', m_id_home_team = ''B'', m_home_team = Some ''TB'', m_id_away_team = ''A'', m_away_team = Some ''TA'', m_score = None, m_referee = None\<rparr>], player_match_details = [], shots = [\<lparr>s_match_id = ''1'', s_player_id = ''7'', s_player_name = None, s_team_id = ''A'', s_minute = ''1'', s_on_target = Some True, s_shot_type = None, s_situation = None, s_outcome = None, s_inside_box = Some True\<rparr>, \<lparr>s_match_id = ''2'', s_player_id = ''7'', s_player_name = None, s_team_id = ''A'', s_minute = ''1'', s_on_target = Some True, s_shot_type = None, s_situation = None, s_outcome = None, s_inside_box = Some True\<rparr>], cards = []\<rparr>) ''shots'' ''all'' 1 ''A'' = Inr (\<lparr>e_id = ''A'', e_name = Some ''TA'', e_total = 1, e_pj = 1, e_avg = 1\<rparr>, \<lparr>e_id = ''A'', e_name = Some ''TA'', e_total = 0, e_pj = 1, e_avg = 0\<rparr>)
   \<and> get_team_stats_core (\<lparr>matches = [\<lparr>m_id = ''1'', m_date = Some ''2025-01-01 10:00:00'', m_finished = True, m_tournament = ''L'', m_gameweek = ''1'', m_id_home_team = ''A'', m_home_team = Some ''TA'', m_id_away_team = ''B'', m_away_team = Some ''TB'', m_score = None, m_referee = None\<rparr>, \<lparr>m_id = ''2'', m_date = Some ''2025-02-01 10:00:00'', m_finished = True, m_tournament = ''L'', m_gameweek = ''1'', m_id_home_team = ''B'', m_home_team = Some ''TB'', m_id_away_team = ''A'', m_away_team = Some ''TA'', m_score = None, m_referee = None\<rparr>], player_match_details = [], shots = [\<lparr>s_match_id = ''1'', s_player_id = ''7'', s_player_name = None, s_team_id = ''A'', s_minute = ''1'', s_on_target = Some True, s_shot_type = None, s_situation = None, s_outcome = None, s_inside_box = Some True\<rparr>, \<lparr>s_match_id = ''2'', s_player_id = ''7'', s_player_name = None, s_team_id = ''A'', s_minute = ''1'', s_on_target = Some True, s_shot_type = None, s_situation = None, s_outcome = None, s_inside_box = Some True\<rparr>], cards = []\<rparr>) ''shots'' ''all'' ''total'' (Some 1)
       = Inr ([\<lparr>e_id = ''A'', e_name = Some ''TA'', e_total = 1, e_pj = 1, e_avg = 1\<rparr>, \<lparr>e_id = ''B'', e_name = Some ''TB'', e_total = 0, e_pj = 1, e_avg = 0\<rparr>], [\<lparr>e_id = ''B'', e_name = Some ''TB'', e_total = 1, e_pj = 1, e_avg = 1\<rparr>, \<lparr>e_id = ''A'', e_name = Some ''TA'', e_total = 0, e_pj = 1, e_avg = 0\<rparr>])"
proof -
  have w: "last_finished_matches (\<lparr>matches = [\<lparr>m_id = ''1'', m_date = Some ''2025-01-01 10:00:00'', m_finished = True, m_tournament = ''L'', m_gameweek = ''1'', m_id_home_team = ''A'', m_home_team = Some ''TA'', m_id_away_team = ''B'', m_away_team = Some ''TB'', m_score = None, m_referee = None\<rparr>, \<lparr>m_id = ''2'', m_date = Some ''2025-02-01 10:00:00'', m_finished = True, m_tournament = ''L'', m_gameweek = ''1'', m_id_home_team = ''B'', m_home_team = Some ''TB'', m_id_away_team = ''A'', m_away_team = Some ''TA'', m_score = None, m_referee = None\<rparr>], player_match_details = [], shots = [\<lparr>s_match_id = ''2'', s_player_id = ''7'', s_player_name = None, s_team_id = ''A'', s_minute = ''1'', s_on_target = Some True, s_shot_type = None, s_situation = None, s_outcome = None, s_inside_box = Some True\<rparr>], cards = []\<rparr>) ''A'' 1 = [''2'']"
    by code_simp
  have h1: "matches (\<lparr>matches = [\<lparr>m_id = ''1'', m_date = Some ''2025-01-01 10:00:00'', m_finished = True, m_tournament = ''L'', m_gameweek = ''1'', m_id_home_team = ''A'', m_home_team = Some ''TA'', m_id_away_team = ''B'', m_away_team = Some ''TB'', m_score = None, m_referee = None\<rparr>, \<lparr>m_id = ''2'', m_date = Some ''2025-02-01 10:00:00'', m_finished = True, m_tournament = ''L'', m_gameweek = ''1'', m_id_home_team = ''B'', m_home_team = Some ''TB'', m_id_away_team = ''A'', m_away_team = Some ''TA'', m_score = None, m_referee = None\<rparr>], player_match_details = [], shots = [\<lparr>s_match_id = ''1'', s_player_id = ''7'', s_player_name = None, s_team_id = ''A'', s_minute = ''1'', s_on_target = Some True, s_shot_type = None, s_situation = None, s_outcome = None, s_inside_box = Some True\<rparr>, \<lparr>s_match_id = ''2'', s_player_id = ''7'', s_player_name = None, s_team_id = ''A'', s_minute = ''1'', s_on_target = Some True, s_shot_type = None, s_situation = None, s_outcome = None, s_inside_box = Some True\<rparr>], cards = []\<rparr>) = matches (\<lparr>matches = [\<lparr>m_id = ''1'', m_date = Some ''2025-01-01 10:00:00'', m_finished = True, m_tournament = ''L'', m_gameweek = ''1'', m_id_home_team = ''A'', m_home_team = Some ''TA'', m_id_away_team = ''B'', m_away_team = Some ''TB'', m_score = None, m_referee = None\<rparr>, \<lparr>m_id = ''2'', m_date = Some ''2025-02-01 10:00:00'', m_finished = True, m_tournament = ''L'', m_gameweek = ''1'', m_id_home_team = ''B'', m_home_team = Some ''TB'', m_id_away_team = ''A'', m_away_team = Some ''TA'', m_score = None, m_referee = None\<rparr>], player_match_details = [], shots = [\<lparr>s_match_id = ''2'', s_player_id = ''7'', s_player_name = None, s_team_id = ''A'', s_minute = ''1'', s_on_target = Some True, s_shot_type = None, s_situation = None, s_outcome = None, s_inside_box = Some True\<rparr>], cards = []\<rparr>)" by simp
  have h2: "filter (\<lambda>s. s_match_id s \<in> set (last_finished_matches (\<lparr>matches = [\<lparr>m_id = ''1'', m_date = Some ''2025-01-01 10:00:00'', m_finished = True, m_tournament = ''L'', m_gameweek = ''1'', m_id_home_team = ''A'', m_home_team = Some ''TA'', m_id_away_team = ''B'', m_away_team = Some ''TB'', m_score = None, m_referee = None\<rparr>, \<lparr>m_id = ''2'', m_date = Some ''2025-02-01 10:00:00'', m_finished = True, m_tournament = ''L'', m_gameweek = ''1'', m_id_home_team = ''B'', m_home_team = Some ''TB'', m_id_away_team = ''A'', m_away_team = Some ''TA'', m_score = None, m_referee = None\<rparr>], player_match_details = [], shots = [\<lparr>s_match_id = ''2'', s_player_id = ''7'', s_player_name = None, s_team_id = ''A'', s_minute = ''1'', s_on_target = Some True, s_shot_type = None, s_situation = None, s_outcome = None, s_inside_box = Some True\<rparr>], cards = []\<rparr>) ''A'' 1)) (shots (\<lparr>matches = [\<lparr>m_id = ''1'', m_date = Some ''2025-01-01 10:00:00'', m_finished = True, m_tournament = ''L'', m_gameweek = ''1'', m_id_home_team = ''A'', m_home_team = Some ''TA'', m_id_away_team = ''B'', m_away_team = Some ''TB'', m_score = None, m_referee = None\<rparr>, \<lparr>m_id = ''2'', m_date = Some ''2025-02-01 10:00:00'', m_finished = True, m_tournament = ''L'', m_gameweek = ''1'', m_id_home_team = ''B'', m_home_team = Some ''TB'', m_id_away_team = ''A'', m_away_team = Some ''TA'', m_score = None, m_referee = None\<rparr>], player_match_details = [], shots = [\<lparr>s_match_id = ''1'', s_player_id = ''7'', s_player_name = None, s_team_id = ''A'', s_minute = ''1'', s_on_target = Some True, s_shot_type = None, s_situation = None, s_outcome = None, s_inside_box = Some True\<rparr>, \<lparr>s_match_id = ''2'', s_player_id = ''7'', s_player_name = None, s_team_id = ''A'', s_minute = ''1'', s_on_target = Some True, s_shot_type = None, s_situation = None, s_outcome = None, s_inside_box = Some True\<rparr>], cards = []\<rparr>))
         = filter (\<lambda>s. s_match_id s \<in> set (last_finished_matches (\<lparr>matches = [\<lparr>m_id = ''1'', m_date = Some ''2025-01-01 10:00:00'', m_finished = True, m_tournament = ''L'', m_gameweek = ''1'', m_id_home_team = ''A'', m_home_team = Some ''TA'', m_id_away_team = ''B'', m_away_team = Some ''TB'', m_score = None, m_referee = None\<rparr>, \<lparr>m_id = ''2'', m_date = Some ''2025-02-01 10:00:00'', m_finished = True, m_tournament = ''L'', m_gameweek = ''1'', m_id_home_team = ''B'', m_home_team = Some ''TB'', m_id_away_team = ''A'', m_away_team = Some ''TA'', m_score = None, m_referee = None\<rparr>], player_match_details = [], shots = [\<lparr>s_match_id = ''2'', s_player_id = ''7'', s_player_name = None, s_team_id = ''A'', s_minute = ''1'', s_on_target = Some True, s_shot_type = None, s_situation = None, s_outcome = None, s_inside_box = Some True\<rparr>], cards = []\<rparr>) ''A'' 1)) (shots (\<lparr>matches = [\<lparr>m_id = ''1'', m_date = Some ''2025-01-01 10:00:00'', m_finished = True, m_tournament = ''L'', m_gameweek = ''1'', m_id_home_team = ''A'', m_home_team = Some ''TA'', m_id_away_team = ''B'', m_away_team = Some ''TB'', m_score = None, m_referee = None\<rparr>, \<lparr>m_id = ''2'', m_date = Some ''2025-02-01 10:00:00'', m_finished = True, m_tournament = ''L'', m_gameweek = ''1'', m_id_home_team = ''B'', m_home_team = Some ''TB'', m_id_away_team = ''A'', m_away_team = Some ''TA'', m_score = None, m_referee = None\<rparr>], player_match_details = [], shots = [\<lparr>s_match_id = ''2'', s_player_id = ''7'', s_player_name = None, s_team_id = ''A'', s_minute = ''1'', s_on_target = Some True, s_shot_type = None, s_situation = None, s_outcome = None, s_inside_box = Some True\<rparr>], cards = []\<rparr>))"
    unfolding w by simp
  have h3: "filter (\<lambda>c. c_match_id c \<in> set (last_finished_matches (\<lparr>matches = [\<lparr>m_id = ''1'', m_date = Some ''2025-01-01 10:00:00'', m_finished = True, m_tournament = ''L'', m_gameweek = ''1'', m_id_home_team = ''A'', m_home_team = Some ''TA'', m_id_away_team = ''B'', m_away_team = Some ''TB'', m_score = None, m_referee = None\<rparr>, \<lparr>m_id = ''2'', m_date = Some ''2025-02-01 10:00:00'', m_finished = True, m_tournament = ''L'', m_gameweek = ''1'', m_id_home_team = ''B'', m_home_team = Some ''TB'', m_id_away_team = ''A'', m_away_team = Some ''TA'', m_score = None, m_referee = None\<rparr>], player_match_details = [], shots = [\<lparr>s_match_id = ''2'', s_player_id = ''7'', s_player_name = None, s_team_id = ''A'', s_minute = ''1'', s_on_target = Some True, s_shot_type = None, s_situation = None, s_outcome = None, s_inside_box = Some True\<rparr>], cards = []\<rparr>) ''A'' 1)) (cards (\<lparr>matches = [\<lparr>m_id = ''1'', m_date = Some ''2025-01-01 10:00:00'', m_finished = True, m_tournament = ''L'', m_gameweek = ''1'', m_id_home_team = ''A'', m_home_team = Some ''TA'', m_id_away_team = ''B'', m_away_team = Some ''TB'', m_score = None, m_referee = None\<rparr>, \<lparr>m_id = ''2'', m_date = Some ''2025-02-01 10:00:00'', m_finished = True, m_tournament = ''L'', m_gameweek = ''1'', m_id_home_team = ''B'', m_home_team = Some ''TB'', m_id_away_team = ''A'', m_away_team = Some ''TA'', m_score = None, m_referee = None\<rparr>], player_match_details = [], shots = [\<lparr>s_match_id = ''1'', s_player_id = ''7'', s_player_name = None, s_team_id = ''A'', s_minute = ''1'', s_on_target = Some True, s_shot_type = None, s_situation = None, s_outcome = None, s_inside_box = Some True\<rparr>, \<lparr>s_match_id = ''2'', s_player_id = ''7'', s_player_name = None, s_team_id = ''A'', s_minute = ''1'', s_on_target = Some True, s_shot_type = None, s_situation = None, s_outcome = None, s_inside_box = Some True\<rparr>], cards = []\<rparr>))
         = filter (\<lambda>c. c_match_id c \<in> set (last_finished_matches (\<lparr>matches = [\<lparr>m_id = ''1'', m_date = Some ''2025-01-01 10:00:00'', m_finished = True, m_tournament = ''L'', m_gameweek = ''1'', m_id_home_team = ''A'', m_home_team = Some ''TA'', m_id_away_team = ''B'', m_away_team = Some ''TB'', m_score = None, m_referee = None\<rparr>, \<lparr>m_id = ''2'', m_date = Some ''2025-02-01 10:00:00'', m_finished = True, m_tournament = ''L'', m_gameweek = ''1'', m_id_home_team = ''B'', m_home_team = Some ''TB'', m_id_away_team = ''A'', m_away_team = Some ''TA'', m_score = None, m_referee = None\<rparr>], player_match_details = [], shots = [\<lparr>s_match_id = ''2'', s_player_id = ''7'', s_player_name = None, s_team_id = ''A'', s_minute = ''1'', s_on_target = Some True, s_shot_type = None, s_situation = None, s_outcome = None, s_inside_box = Some True\<rparr>], cards = []\<rparr>) ''A'' 1)) (cards (\<lparr>matches = [\<lparr>m_id = ''1'', m_date = Some ''2025-01-01 10:00:00'', m_finished = True, m_tournament = ''L'', m_gameweek = ''1'', m_id_home_team = ''A'', m_home_team = Some ''TA'', m_id_away_team = ''B'', m_away_team = Some ''TB'', m_score = None, m_referee = None\<rparr>, \<lparr>m_id = ''2'', m_date = Some ''2025-02-01 10:00:00'', m_finished = True, m_tournament = ''L'', m_gameweek = ''1'', m_id_home_team = ''B'', m_home_team = Some ''TB'', m_id_away_team = ''A'', m_away_team = Some ''TA'', m_score = None, m_referee = None\<rparr>], player_match_details = [], shots = [\<lparr>s_match_id = ''2'', s_player_id = ''7'', s_player_name = None, s_team_id = ''A'', s_minute = ''1'', s_on_target = Some True, s_shot_type = None, s_situation = None, s_outcome = None, s_inside_box = Some True\<rparr>], cards = []\<rparr>))"
    by simp
  have h4: "filter (\<lambda>p. p_match_id p \<in> set (last_finished_matches (\<lparr>matches = [\<lparr>m_id = ''1'', m_date = Some ''2025-01-01 10:00:00'', m_finished = True, m_tournament = ''L'', m_gameweek = ''1'', m_id_home_team = ''A'', m_home_team = Some ''TA'', m_id_away_team = ''B'', m_away_team = Some ''TB'', m_score = None, m_referee = None\<rparr>, \<lparr>m_id = ''2'', m_date = Some ''2025-02-01 10:00:00'', m_finished = True, m_tournament = ''L'', m_gameweek = ''1'', m_id_home_team = ''B'', m_home_team = Some ''TB'', m_id_away_team = ''A'', m_away_team = Some ''TA'', m_score = None, m_referee = None\<rparr>], player_match_details = [], shots = [\<lparr>s_match_id = ''2'', s_player_id = ''7'', s_player_name = None, s_team_id = ''A'', s_minute = ''1'', s_on_target = Some True, s_shot_type = None, s_situation = None, s_outcome = None, s_inside_box = Some True\<rparr>], cards = []\<rparr>) ''A'' 1)) (player_match_details (\<lparr>matches = [\<lparr>m_id = ''1'', m_date = Some ''2025-01-01 10:00:00'', m_finished = True, m_tournament = ''L'', m_gameweek = ''1'', m_id_home_team = ''A'', m_home_team = Some ''TA'', m_id_away_team = ''B'', m_away_team = Some ''TB'', m_score = None, m_referee = None\<rparr>, \<lparr>m_id = ''2'', m_date = Some ''2025-02-01 10:00:00'', m_finished = True, m_tournament = ''L'', m_gameweek = ''1'', m_id_home_team = ''B'', m_home_team = Some ''TB'', m_id_away_team = ''A'', m_away_team = Some ''TA'', m_score = None, m_referee = None\<rparr>], player_match_details = [], shots = [\<lparr>s_match_id = ''1'', s_player_id = ''7'', s_player_name = None, s_team_id = ''A'', s_minute = ''1'', s_on_target = Some True, s_shot_type = None, s_situation = None, s_outcome = None, s_inside_box = Some True\<rparr>, \<lparr>s_match_id = ''2'', s_player_id = ''7'', s_player_name = None, s_team_id = ''A'', s_minute = ''1'', s_on_target = Some True, s_shot_type = None, s_situation = None, s_outcome = None, s_inside_box = Some True\<rparr>], cards = []\<rparr>))
         = filter (\<lambda>p. p_match_id p \<in> set (last_finished_matches (\<lparr>matches = [\<lparr>m_id = ''1'', m_date = Some ''2025-01-01 10:00:00'', m_finished = True, m_tournament = ''L'', m_gameweek = ''1'', m_id_home_team = ''A'', m_home_team = Some ''TA'', m_id_away_team = ''B'', m_away_team = Some ''TB'', m_score = None, m_referee = None\<rparr>, \<lparr>m_id = ''2'', m_date = Some ''2025-02-01 10:00:00'', m_finished = True, m_tournament = ''L'', m_gameweek = ''1'', m_id_home_team = ''B'', m_home_team = Some ''TB'', m_id_away_team = ''A'', m_away_team = Some ''TA'', m_score = None, m_referee = None\<rparr>], player_match_details = [], shots = [\<lparr>s_match_id = ''2'', s_player_id = ''7'', s_player_name = None, s_team_id = ''A'', s_minute = ''1'', s_on_target = Some True, s_shot_type = None, s_situation = None, s_outcome = None, s_inside_box = Some True\<rparr>], cards = []\<rparr>) ''A'' 1)) (player_match_details (\<lparr>matches = [\<lparr>m_id = ''1'', m_date = Some ''2025-01-01 10:00:00'', m_finished = True, m_tournament = ''L'', m_gameweek = ''1'', m_id_home_team = ''A'', m_home_team = Some ''TA'', m_id_away_team = ''B'', m_away_team = Some ''TB'', m_score = None, m_referee = None\<rparr>, \<lparr>m_id = ''2'', m_date = Some ''2025-02-01 10:00:00'', m_finished = True, m_tournament = ''L'', m_gameweek = ''1'', m_id_home_team = ''B'', m_home_team = Some ''TB'', m_id_away_team = ''A'', m_away_team = Some ''TA'', m_score = None, m_referee = None\<rparr>], player_match_details = [], shots = [\<lparr>s_match_id = ''2'', s_player_id = ''7'', s_player_name = None, s_team_id = ''A'', s_minute = ''1'', s_on_target = Some True, s_shot_type = None, s_situation = None, s_outcome = None, s_inside_box = Some True\<rparr>], cards = []\<rparr>))"
    by simp
  have e: "team_window_entry (\<lparr>matches = [\<lparr>m_id = ''1'', m_date = Some ''2025-01-01 10:00:00'', m_finished = True, m_tournament = ''L'', m_gameweek = ''1'', m_id_home_team = ''A'', m_home_team = Some ''TA'', m_id_away_team = ''B'', m_away_team = Some ''TB'', m_score = None, m_referee = None\<rparr>, \<lparr>m_id = ''2'', m_date = Some ''2025-02-01 10:00:00'', m_finished = True, m_tournament = ''L'', m_gameweek = ''1'', m_id_home_team = ''B'', m_home_team = Some ''TB'', m_id_away_team = ''A'', m_away_team = Some ''TA'', m_score = None, m_referee = None\<rparr>], player_match_details = [], shots = [\<lparr>s_match_id = ''2'', s_player_id = ''7'', s_player_name = None, s_team_id = ''A'', s_minute = ''1'', s_on_target = Some True, s_shot_type = None, s_situation = None, s_outcome = None, s_inside_box = Some True\<rparr>], cards = []\<rparr>) ''shots'' ''all'' 1 ''A'' = Inr (\<lparr>e_id = ''A'', e_name = Some ''TA'', e_total = 1, e_pj = 1, e_avg = 1\<rparr>, \<lparr>e_id = ''A'', e_name = Some ''TA'', e_total = 0, e_pj = 1, e_avg = 0\<rparr>)"
    by code_simp
  have g: "get_team_stats_core (\<lparr>matches = [\<lparr>m_id = ''1'', m_date = Some ''2025-01-01 10:00:00'', m_finished = True, m_tournament = ''L'', m_gameweek = ''1'', m_id_home_team = ''A'', m_home_team = Some ''TA'', m_id_away_team = ''B'', m_away_team = Some ''TB'', m_score = None, m_referee = None\<rparr>, \<lparr>m_id = ''2'', m_date = Some ''2025-02-01 10:00:00'', m_finished = True, m_tournament = ''L'', m_gameweek = ''1'', m_id_home_team = ''B'', m_home_team = Some ''TB'', m_id_away_team = ''A'', m_away_team = Some ''TA'', m_score = None, m_referee = None\<rparr>], player_match_details = [], shots = [\<lparr>s_match_id = ''1'', s_player_id = ''7'', s_player_name = None, s_team_id = ''A'', s_minute = ''1'', s_on_target = Some True, s_shot_type = None, s_situation = None, s_outcome = None, s_inside_box = Some True\<rparr>, \<lparr>s_match_id = ''2'', s_player_id = ''7'', s_player_name = None, s_team_id = ''A'', s_minute = ''1'', s_on_target = Some True, s_shot_type = None, s_situation = None, s_outcome = None, s_inside_box = Some True\<rparr>], cards = []\<rparr>) ''shots'' ''all'' ''total'' (Some 1)
       = Inr ([\<lparr>e_id = ''A'', e_name = Some ''TA'', e_total = 1, e_pj = 1, e_avg = 1\<rparr>, \<lparr>e_id = ''B'', e_name = Some ''TB'', e_total = 0, e_pj = 1, e_avg = 0\<rparr>], [\<lparr>e_id = ''B'', e_name = Some ''TB'', e_total = 1, e_pj = 1, e_avg = 1\<rparr>, \<lparr>e_id = ''A'', e_name = Some ''TA'', e_total = 0, e_pj = 1, e_avg = 0\<rparr>])"
    by code_simp
  from C5_window_isolation [OF h1 h2 h3 h4, of "''shots''" "''all''"]
  have "team_window_entry (\<lparr>matches = [\<lparr>m_id = ''1'', m_date = Some ''2025-01-01 10:00:00'', m_finished = True, m_tournament = ''L'', m_gameweek = ''1'', m_id_home_team = ''A'', m_home_team = Some ''TA'', m_id_away_team = ''B'', m_away_team = Some ''TB'', m_score = None, m_referee = None\<rparr>, \<lparr>m_id = ''2'', m_date = Some ''2025-02-01 10:00:00'', m_finished = True, m_tournament = ''L'', m_gameweek = ''1'', m_id_home_team = ''B'', m_home_team = Some ''TB'', m_id_away_team = ''A'', m_away_team = Some ''TA'', m_score = None, m_referee = None\<rparr>], player_match_details = [], shots = [\<lparr>s_match_id = ''1'', s_player_id = ''7'', s_player_name = None, s_team_id = ''A'', s_minute = ''1'', s_on_target = Some True, s_shot_type = None, s_situation = None, s_outcome = None, s_inside_box = Some True\<rparr>, \<lparr>s_match_id = ''2'', s_player_id = ''7'', s_player_name = None, s_team_id = ''A'', s_minute = ''1'', s_on_target = Some True, s_shot_type = None, s_situation = None, s_outcome = None, s_inside_box = Some True\<rparr>], cards = []\<rparr>) ''shots'' ''all'' 1 ''A''
       = team_window_entry (\<lparr>matches = [\<lparr>m_id = ''1'', m_date = Some ''2025-01-01 10:00:00'', m_finished = True, m_tournament = ''L'', m_gameweek = ''1'', m_id_home_team = ''A'', m_home_team = Some ''TA'', m_id_away_team = ''B'', m_away_team = Some ''TB'', m_score = None, m_referee = None\<rparr>, \<lparr>m_id = ''2'', m_date = Some ''2025-02-01 10:00:00'', m_finished = True, m_tournament = ''L'', m_gameweek = ''1'', m_id_home_team = ''B'', m_home_team = Some ''TB'', m_id_away_team = ''A'', m_away_team = Some ''TA'', m_score = None, m_referee = None\<rparr>], player_match_details = [], shots = [\<lparr>s_match_id = ''2'', s_player_id = ''7'', s_player_name = None, s_team_id = ''A'', s_minute = ''1'', s_on_target = Some True, s_shot_type = None, s_situation = None, s_outcome = None, s_inside_box = Some True\<rparr>], cards = []\<rparr>) ''shots'' ''all'' 1 ''A''"
    by (rule conjunct1)
  with w e g show ?thesis by simp
qed
section \<open>The direction against\<close>





























end
